theory Spec2Isabelle
  imports Main "HOL-Library.Word"
begin

section \<open>Passport form controller: data model\<close>

text \<open>
  A shallow embedding of \<^verbatim>\<open>Telegram/SourceFiles/passport/passport_form_controller.cpp\<close>.
  Modelled from the spec: the header that declares the structs of the controller is
  not among the sources. The records below follow the data model of the spec and hold
  every member that the functions of the controller read or write; a new object has
  each member zero, empty or absent. \<^verbatim>\<open>bytes::vector\<close> and \<^verbatim>\<open>QByteArray\<close> are byte
  lists, \<^verbatim>\<open>QString\<close> is \<^typ>\<open>string\<close>, \<^verbatim>\<open>std::map<QString, QString>\<close> is an
  association list, request identifiers are \<^typ>\<open>int\<close>. Calls of \<^verbatim>\<open>LOG\<close> are left
  out: no function of the controller reads the log.
\<close>

type_synonym bytes = "8 word list"

type_synonym ValueMap = "(string \<times> string) list"

datatype Type =
    PersonalDetails
  | Passport
  | DriverLicense
  | IdentityCard
  | Address
  | UtilityBill
  | BankStatement
  | RentalAgreement
  | Phone
  | Email

text \<open>
  The wire-level type \<^verbatim>\<open>MTPSecureValueType\<close>: one constructor for each \<^verbatim>\<open>mtpc_\<close>
  case of \<^verbatim>\<open>ConvertType\<close>, which are the constructors that \<^verbatim>\<open>ConvertType\<close> builds.
\<close>

datatype MTPSecureValueType =
    MTP_secureValueTypePersonalDetails
  | MTP_secureValueTypePassport
  | MTP_secureValueTypeDriverLicense
  | MTP_secureValueTypeIdentityCard
  | MTP_secureValueTypeAddress
  | MTP_secureValueTypeUtilityBill
  | MTP_secureValueTypeBankStatement
  | MTP_secureValueTypeRentalAgreement
  | MTP_secureValueTypePhone
  | MTP_secureValueTypeEmail

text \<open>\<^verbatim>\<open>Value::Type ConvertType(const MTPSecureValueType &type)\<close>\<close>

fun ConvertType :: "MTPSecureValueType \<Rightarrow> Type" where
  "ConvertType MTP_secureValueTypePersonalDetails = PersonalDetails"
| "ConvertType MTP_secureValueTypePassport = Passport"
| "ConvertType MTP_secureValueTypeDriverLicense = DriverLicense"
| "ConvertType MTP_secureValueTypeIdentityCard = IdentityCard"
| "ConvertType MTP_secureValueTypeAddress = Address"
| "ConvertType MTP_secureValueTypeUtilityBill = UtilityBill"
| "ConvertType MTP_secureValueTypeBankStatement = BankStatement"
| "ConvertType MTP_secureValueTypeRentalAgreement = RentalAgreement"
| "ConvertType MTP_secureValueTypePhone = Phone"
| "ConvertType MTP_secureValueTypeEmail = Email"

text \<open>\<^verbatim>\<open>MTPSecureValueType ConvertType(Value::Type type)\<close>\<close>

fun ConvertTypeMTP :: "Type \<Rightarrow> MTPSecureValueType" where
  "ConvertTypeMTP PersonalDetails = MTP_secureValueTypePersonalDetails"
| "ConvertTypeMTP Passport = MTP_secureValueTypePassport"
| "ConvertTypeMTP DriverLicense = MTP_secureValueTypeDriverLicense"
| "ConvertTypeMTP IdentityCard = MTP_secureValueTypeIdentityCard"
| "ConvertTypeMTP Address = MTP_secureValueTypeAddress"
| "ConvertTypeMTP UtilityBill = MTP_secureValueTypeUtilityBill"
| "ConvertTypeMTP BankStatement = MTP_secureValueTypeBankStatement"
| "ConvertTypeMTP RentalAgreement = MTP_secureValueTypeRentalAgreement"
| "ConvertTypeMTP Phone = MTP_secureValueTypePhone"
| "ConvertTypeMTP Email = MTP_secureValueTypeEmail"

subsection \<open>Files, values and the form\<close>

datatype QImage = NullImage | Image bytes

record File =
  f_id :: "64 word"
  f_accessHash :: "64 word"
  f_size :: int
  f_dcId :: int
  f_date :: int
  f_hash :: bytes
  f_secret :: bytes
  f_encryptedSecret :: bytes
  f_downloadOffset :: int
  f_image :: QImage

definition File_init :: File where
  "File_init = \<lparr> f_id = 0, f_accessHash = 0, f_size = 0, f_dcId = 0, f_date = 0,
     f_hash = [], f_secret = [], f_encryptedSecret = [], f_downloadOffset = 0,
     f_image = NullImage \<rparr>"

text \<open>\<^verbatim>\<open>FullMsgId\<close> is kept as its message id; 0 is the empty id.\<close>

record UploadScanData =
  u_fullId :: int
  u_fileId :: "64 word"
  partsCount :: int
  md5checksum :: bytes
  u_hash :: bytes
  u_bytes :: bytes
  u_offset :: int

text \<open>
  An \<^verbatim>\<open>EditFile\<close> points to its \<^verbatim>\<open>Value\<close>; the form keeps one value per type, so the
  pointer is the type. The liveness guard only decides whether a finished background
  encryption is delivered, and is not kept.
\<close>

record EditFile =
  e_value :: Type
  e_fields :: File
  uploadData :: "UploadScanData option"
  deleted :: bool

definition EditFile_init :: "Type \<Rightarrow> File \<Rightarrow> UploadScanData option \<Rightarrow> EditFile" where
  "EditFile_init value file upload =
     \<lparr> e_value = value, e_fields = file, uploadData = upload, deleted = False \<rparr>"

datatype CallState = Waiting | Calling | Called

record Verification =
  requestId :: int
  phoneCodeHash :: string
  codeLength :: int
  call :: "(CallState \<times> int) option"
  ver_error :: string

definition Verification_init :: Verification where
  "Verification_init = \<lparr> requestId = 0, phoneCodeHash = [], codeLength = 0, call = None,
     ver_error = [] \<rparr>"

text \<open>\<^verbatim>\<open>ValueData\<close>; \<^verbatim>\<open>parsed.fields\<close> and \<^verbatim>\<open>parsedInEdit.fields\<close> are the two maps.\<close>

record ValueData =
  original :: bytes
  d_secret :: bytes
  parsed :: ValueMap
  d_hash :: bytes
  d_encryptedSecret :: bytes
  parsedInEdit :: ValueMap
  hashInEdit :: bytes
  encryptedSecretInEdit :: bytes

definition ValueData_init :: ValueData where
  "ValueData_init = \<lparr> original = [], d_secret = [], parsed = [], d_hash = [],
     d_encryptedSecret = [], parsedInEdit = [], hashInEdit = [], encryptedSecretInEdit = [] \<rparr>"

record Value =
  v_type :: Type
  v_data :: ValueData
  scans :: "File list"
  scansInEdit :: "EditFile list"
  selfie :: "File option"
  selfieInEdit :: "EditFile option"
  submitHash :: bytes
  editScreens :: int
  saveRequestId :: int
  v_error :: string
  verification :: Verification

text \<open>\<^verbatim>\<open>Value::Value(Type type) : type(type)\<close>: the unset value of a type.\<close>

definition Value_init :: "Type \<Rightarrow> Value" where
  "Value_init t = \<lparr> v_type = t, v_data = ValueData_init, scans = [], scansInEdit = [],
     selfie = None, selfieInEdit = None, submitHash = [], editScreens = 0, saveRequestId = 0,
     v_error = [], verification = Verification_init \<rparr>"

text \<open>
  \<^verbatim>\<open>std::map<Value::Type, Value>\<close> is a partial map; a loop over it visits the keys in
  the order of the enumeration.
\<close>

definition all_types :: "Type list" where
  "all_types = [PersonalDetails, Passport, DriverLicense, IdentityCard, Address, UtilityBill,
     BankStatement, RentalAgreement, Phone, Email]"

record Form =
  form_values :: "Type \<Rightarrow> Value option"
  request :: "Type list"
  identitySelfieRequired :: bool
  privacyPolicyUrl :: string

record FormRequest =
  botId :: int
  scope :: string
  callbackUrl :: string
  publicKey :: string
  payload :: string

record PasswordSettings =
  salt :: bytes
  newSalt :: bytes
  newSecureSalt :: bytes
  hint :: string
  unconfirmedPattern :: string
  confirmedEmail :: string
  hasRecovery :: bool

text \<open>
  Modelled from the spec: the declaration of a scope row of the form view is not among
  the sources. \<^verbatim>\<open>prepareFinalData\<close> reads two members: the value with the fields and
  the candidate documents, both pointers to values of the form.
\<close>

record Scope =
  sc_fields :: Type
  documents :: "Type list"

datatype QJson = JString string | JArray "QJson list" | JObject "(string \<times> QJson) list"

record EncryptedData =
  ed_secret :: bytes
  ed_hash :: bytes
  ed_bytes :: bytes

datatype LangKey =
    lng_passport_scans_limit_reached
  | lng_signin_wrong_code
  | lng_flood_error
  | lng_passport_password_wrong
  | lng_passport_form_error

subsection \<open>Collaborators\<close>

text \<open>
  The cryptographic primitives of \<^verbatim>\<open>passport_encryption\<close>, the random source, the
  language table, the JSON and image codecs and the scope computation of the form view
  are used by the controller and defined elsewhere. They are parameters of the model:
  every operation takes the record of collaborators first. A primitive that returns
  bytes reports failure by returning no bytes, which is what the controller tests.
  The random source is read at a counter kept in the controller state.
\<close>

record Env =
  DecryptSecureSecret :: "bytes \<Rightarrow> bytes \<Rightarrow> bytes \<Rightarrow> bytes"
  EncryptSecureSecret :: "bytes \<Rightarrow> bytes \<Rightarrow> bytes \<Rightarrow> bytes"
  CountSecureSecretHash :: "bytes \<Rightarrow> 64 word"
  DecryptValueSecret :: "bytes \<Rightarrow> bytes \<Rightarrow> bytes \<Rightarrow> bytes"
  EncryptValueSecret :: "bytes \<Rightarrow> bytes \<Rightarrow> bytes \<Rightarrow> bytes"
  DecryptData :: "bytes \<Rightarrow> bytes \<Rightarrow> bytes \<Rightarrow> bytes"
  EncryptData :: "bytes \<Rightarrow> bytes \<Rightarrow> EncryptedData"
  SerializeData :: "ValueMap \<Rightarrow> bytes"
  DeserializeData :: "bytes \<Rightarrow> ValueMap"
  EncryptCredentialsSecret :: "bytes \<Rightarrow> bytes \<Rightarrow> bytes"
  GenerateSecretBytes :: "nat \<Rightarrow> bytes"
  set_random :: "nat \<Rightarrow> nat \<Rightarrow> bytes"
  rand_value :: "nat \<Rightarrow> 64 word"
  Sha256 :: "bytes \<Rightarrow> bytes"
  toBase64 :: "bytes \<Rightarrow> string"
  toJson :: "QJson \<Rightarrow> bytes"
  ReadImage :: "bytes \<Rightarrow> QImage"
  lang :: "LangKey \<Rightarrow> string"
  maindc :: int
  unixtime :: int
  ComputeScopes :: "Form \<Rightarrow> Scope list"
  ComputeScopeRowReadyString :: "Form \<Rightarrow> Scope \<Rightarrow> string"

text \<open>
  A failed \<^verbatim>\<open>Expects\<close>, \<^verbatim>\<open>Assert\<close>, \<^verbatim>\<open>Ensures\<close> or \<^verbatim>\<open>Unexpected\<close> terminates the
  process; in the model the operation returns the failure instead of a state.
\<close>

datatype error = ExpectsFailed | AssertFailed | EnsuresFailed | UnexpectedCase

subsection \<open>Decrypting a value\<close>

text \<open>\<^verbatim>\<open>FormController::resetValue\<close>\<close>

definition resetValue :: "Value \<Rightarrow> Value" where
  "resetValue value = Value_init (v_type value)"

text \<open>
  The lambda \<^verbatim>\<open>validateFileSecret\<close> of \<^verbatim>\<open>validateValueSecrets\<close>: it stores the
  unwrapped secret in the file and reports whether it is non-empty.
\<close>

definition validateFileSecret :: "Env \<Rightarrow> bytes \<Rightarrow> File \<Rightarrow> bool \<times> File" where
  "validateFileSecret env secret file =
     (let file' = file\<lparr> f_secret :=
            DecryptValueSecret env (f_encryptedSecret file) secret (f_hash file) \<rparr>
      in (f_secret file' \<noteq> [], file'))"

text \<open>The loop over \<^verbatim>\<open>value.scans\<close>: it stops at the first scan that fails.\<close>

fun validateScanSecrets :: "Env \<Rightarrow> bytes \<Rightarrow> File list \<Rightarrow> bool \<times> File list" where
  "validateScanSecrets env secret [] = (True, [])"
| "validateScanSecrets env secret (scan # rest) =
     (case validateFileSecret env secret scan of
        (False, scan') \<Rightarrow> (False, scan' # rest)
      | (True, scan') \<Rightarrow>
          (case validateScanSecrets env secret rest of
             (ok, rest') \<Rightarrow> (ok, scan' # rest')))"

text \<open>\<^verbatim>\<open>FormController::validateValueSecrets\<close>, with the master secret as argument.\<close>

definition validateValueSecrets :: "Env \<Rightarrow> bytes \<Rightarrow> Value \<Rightarrow> bool \<times> Value" where
  "validateValueSecrets env secret value =
     (let value1 =
        (if original (v_data value) \<noteq> []
         then value\<lparr> v_data := (v_data value)\<lparr> d_secret :=
                DecryptValueSecret env (d_encryptedSecret (v_data value)) secret
                  (d_hash (v_data value)) \<rparr> \<rparr>
         else value)
      in if original (v_data value) \<noteq> [] \<and> d_secret (v_data value1) = []
         then (False, value1)
         else
           (case validateScanSecrets env secret (scans value1) of
              (False, scans') \<Rightarrow> (False, value1\<lparr> scans := scans' \<rparr>)
            | (True, scans') \<Rightarrow>
                (let value2 = value1\<lparr> scans := scans' \<rparr>
                 in case selfie value2 of
                      None \<Rightarrow> (True, value2)
                    | Some file \<Rightarrow>
                        (case validateFileSecret env secret file of
                           (ok, file') \<Rightarrow> (ok, value2\<lparr> selfie := Some file' \<rparr>)))))"

text \<open>\<^verbatim>\<open>FormController::decryptValue\<close>, with the master secret as argument.\<close>

definition decryptValue :: "Env \<Rightarrow> bytes \<Rightarrow> Value \<Rightarrow> error + Value" where
  "decryptValue env secret value =
     (if secret = [] then Inl ExpectsFailed
      else
        (case validateValueSecrets env secret value of
           (False, value1) \<Rightarrow> Inr (resetValue value1)
         | (True, value1) \<Rightarrow>
             (if original (v_data value1) \<noteq> []
              then Inr (value1\<lparr> v_data := (v_data value1)\<lparr> parsed :=
                     DeserializeData env
                       (DecryptData env (original (v_data value1)) (d_hash (v_data value1))
                          (d_secret (v_data value1))) \<rparr> \<rparr>)
              else Inr value1)))"

subsection \<open>The controller state\<close>

datatype MTPInputSecureFile =
    MTP_inputSecureFileUploaded "64 word" int bytes bytes bytes
  | MTP_inputSecureFile "64 word" "64 word"

datatype MTPSecurePlainData = MTP_securePlainPhone string | MTP_securePlainEmail string

text \<open>
  \<^verbatim>\<open>MTP_inputSecureValue(flags, type, data, files, plain_data, selfie)\<close>. A
  default-constructed \<^verbatim>\<open>MTPSecureData()\<close>, \<^verbatim>\<open>MTPSecurePlainData()\<close> or
  \<^verbatim>\<open>MTPInputSecureFile()\<close> is \<^term>\<open>None\<close>; the secure data is (bytes, hash, secret).
\<close>

record MTPInputSecureValue =
  flag_data :: bool
  flag_files :: bool
  flag_selfie :: bool
  flag_plain_data :: bool
  isv_type :: MTPSecureValueType
  isv_data :: "(bytes \<times> bytes \<times> bytes) option"
  isv_files :: "MTPInputSecureFile list"
  isv_plain_data :: "MTPSecurePlainData option"
  isv_selfie :: "MTPInputSecureFile option"

text \<open>The requests the controller hands to the transport, with their arguments.\<close>

datatype Request =
    MTPaccount_GetPasswordSettings bytes
  | MTPaccount_UpdatePasswordSettings bytes bytes bytes "64 word"
  | MTPaccount_AcceptAuthorization int string string "(MTPSecureValueType \<times> bytes) list"
      bytes bytes bytes
  | MTPaccount_SaveSecureValue MTPInputSecureValue "64 word"
  | MTPaccount_DeleteSecureValue "MTPSecureValueType list"
  | MTPaccount_VerifyPhone string string string
  | MTPaccount_VerifyEmail string string
  | MTPaccount_SendVerifyPhoneCode string
  | MTPaccount_SendVerifyEmailCode string

text \<open>
  The \<^verbatim>\<open>done\<close> and \<^verbatim>\<open>fail\<close> closures registered with a request, named after the
  function that sends it, with the variables the closures capture.
\<close>

datatype Handler =
    H_submit
  | H_submitPassword bytes
  | H_generateSecret bytes "64 word"
  | H_verify Type
  | H_deleteValueEdit Type
  | H_sendSaveRequest Type
  | H_startPhoneVerification Type
  | H_startEmailVerification Type

text \<open>
  What the controller fires on its event streams and shows through the view. An
  \<^verbatim>\<open>EditFile\<close> is named by its value and its index in \<^verbatim>\<open>scansInEdit\<close> (no index for
  the selfie).
\<close>

datatype Event =
    E_passwordError string
  | E_secretReady
  | E_scanUpdated Type "nat option"
  | E_valueSaveFinished Type
  | E_verificationNeeded Type
  | E_verificationUpdate Type
  | E_showToast string
  | E_showBox string

text \<open>A closure posted with \<^verbatim>\<open>crl::on_main\<close>, and a job started with \<^verbatim>\<open>crl::async\<close>.\<close>

datatype MainTask = T_saveValueEdit_unchanged Type

datatype AsyncTask = A_encryptFile Type nat "64 word" bytes bytes

text \<open>
  The members of \<^verbatim>\<open>FormController\<close> that the operations below use, and the effects
  on the collaborators: \<open>sent\<close> lists the requests handed to the transport, oldest
  first, each with the identifier the transport returned and its closures; \<open>events\<close>
  lists what was fired or shown, oldest first; \<open>rng\<close> counts the reads of the random
  source.
\<close>

record FormController =
  c_request :: FormRequest
  c_password :: PasswordSettings
  c_form :: Form
  c_secret :: bytes
  c_secretId :: "64 word"
  secretCallbacks :: "Type list"
  passwordCheckRequestId :: int
  saveSecretRequestId :: int
  submitRequestId :: int
  sent :: "(int \<times> Request \<times> Handler) list"
  events :: "Event list"
  mainTasks :: "MainTask list"
  asyncTasks :: "AsyncTask list"
  rng :: nat

text \<open>
  Modelled from the spec: the transport is an external collaborator; a request
  identifier is non-zero while the remote authority is awaited. The model numbers the
  requests from 1 in the order they are sent.
\<close>

definition send_request :: "Request \<Rightarrow> Handler \<Rightarrow> FormController \<Rightarrow> int \<times> FormController" where
  "send_request r h s =
     (let i = int (length (sent s)) + 1 in (i, s\<lparr> sent := sent s @ [(i, r, h)] \<rparr>))"

definition fire :: "Event \<Rightarrow> FormController \<Rightarrow> FormController" where
  "fire e s = s\<lparr> events := events s @ [e] \<rparr>"

definition set_value :: "Type \<Rightarrow> Value \<Rightarrow> FormController \<Rightarrow> FormController" where
  "set_value t v s = s\<lparr> c_form := (c_form s)\<lparr> form_values := (form_values (c_form s))(t \<mapsto> v) \<rparr> \<rparr>"

text \<open>
  \<^verbatim>\<open>FormController::findValue\<close>. A \<^verbatim>\<open>not_null<const Value*>\<close> is the key of the value
  in the form; the function looks the value's own type up, asserts that it is there and
  ensures that the entry found is the value pointed to.
\<close>

definition findValue :: "FormController \<Rightarrow> Type \<Rightarrow> error + Value" where
  "findValue s t =
     (case form_values (c_form s) t of
        None \<Rightarrow> Inl AssertFailed
      | Some value \<Rightarrow>
          (case form_values (c_form s) (v_type value) of
             None \<Rightarrow> Inl AssertFailed
           | Some _ \<Rightarrow> if v_type value = t then Inr value else Inl EnsuresFailed))"

text \<open>
  \<^verbatim>\<open>QString::toUtf8\<close> on the characters of the model, which are the code points below
  256: a code point below 128 is written as one byte, the others as two.
\<close>

definition utf8_char :: "char \<Rightarrow> bytes" where
  "utf8_char c =
     (let n = (of_char c :: nat)
      in if n < 128 then [of_nat n] else [of_nat (192 + n div 64), of_nat (128 + n mod 64)])"

definition toUtf8 :: "string \<Rightarrow> bytes" where
  "toUtf8 s = concat (map utf8_char s)"

text \<open>
  \<^verbatim>\<open>QString::trimmed\<close>: white space is removed from both ends. White space is what
  \<^verbatim>\<open>QChar::isSpace\<close> accepts among the one-byte characters.
\<close>

definition isSpace :: "char \<Rightarrow> bool" where
  "isSpace c = (of_char c \<in> {9, 10, 11, 12, 13, 32, 133, 160 :: nat})"

definition trimmed :: "string \<Rightarrow> string" where
  "trimmed s = rev (dropWhile isSpace (rev (dropWhile isSpace s)))"

subsection \<open>Password and master secret\<close>

text \<open>\<^verbatim>\<open>FormController::passwordHashForAuth\<close>\<close>

definition passwordHashForAuth :: "Env \<Rightarrow> FormController \<Rightarrow> bytes \<Rightarrow> bytes" where
  "passwordHashForAuth env s password =
     Sha256 env (salt (c_password s) @ password @ salt (c_password s))"

text \<open>
  \<^verbatim>\<open>FormController::submitPassword\<close>: the branch for an empty password fires the error
  and falls through to the request.
\<close>

definition submitPassword :: "Env \<Rightarrow> string \<Rightarrow> FormController \<Rightarrow> error + FormController" where
  "submitPassword env password s =
     (if salt (c_password s) = [] then Inl ExpectsFailed
      else if passwordCheckRequestId s \<noteq> 0 then Inr s
      else
        (let s1 = (if password = [] then fire (E_passwordError []) s else s);
             passwordBytes = toUtf8 password
         in case send_request
                   (MTPaccount_GetPasswordSettings (passwordHashForAuth env s1 passwordBytes))
                   (H_submitPassword passwordBytes) s1 of
              (i, s2) \<Rightarrow> Inr (s2\<lparr> passwordCheckRequestId := i \<rparr>)))"

text \<open>\<^verbatim>\<open>FormController::isEncryptedValue\<close>\<close>

definition isEncryptedValue :: "Type \<Rightarrow> bool" where
  "isEncryptedValue t = (t \<noteq> Phone \<and> t \<noteq> Email)"

text \<open>\<^verbatim>\<open>FormController::savingValue\<close>\<close>

definition savingValue :: "Value \<Rightarrow> bool" where
  "savingValue value =
     (saveRequestId value \<noteq> 0
      \<or> requestId (verification value) \<noteq> 0
      \<or> codeLength (verification value) \<noteq> 0)"

text \<open>\<^verbatim>\<open>FormController::sendSaveRequest\<close>, up to the moment the request is sent.\<close>

definition sendSaveRequest ::
  "Type \<Rightarrow> MTPInputSecureValue \<Rightarrow> FormController \<Rightarrow> error + FormController" where
  "sendSaveRequest t data s =
     (case form_values (c_form s) t of
        None \<Rightarrow> Inl AssertFailed
      | Some value \<Rightarrow>
          (if saveRequestId value \<noteq> 0 then Inl ExpectsFailed
           else
             (case send_request (MTPaccount_SaveSecureValue data (c_secretId s))
                     (H_sendSaveRequest t) s of
                (i, s1) \<Rightarrow> Inr (set_value t (value\<lparr> saveRequestId := i \<rparr>) s1))))"

text \<open>The lambda \<^verbatim>\<open>inputFile\<close> of \<^verbatim>\<open>saveEncryptedValue\<close>.\<close>

definition inputFile :: "EditFile \<Rightarrow> MTPInputSecureFile" where
  "inputFile file =
     (case uploadData file of
        Some upload \<Rightarrow>
          MTP_inputSecureFileUploaded (f_id (e_fields file)) (partsCount upload)
            (md5checksum upload) (f_hash (e_fields file)) (f_encryptedSecret (e_fields file))
      | None \<Rightarrow> MTP_inputSecureFile (f_id (e_fields file)) (f_accessHash (e_fields file)))"

text \<open>The lambda \<^verbatim>\<open>type\<close> of \<^verbatim>\<open>saveEncryptedValue\<close>: the eight encrypted types.\<close>

definition encryptedValueType :: "Type \<Rightarrow> error + MTPSecureValueType" where
  "encryptedValueType t =
     (case t of
        PersonalDetails \<Rightarrow> Inr MTP_secureValueTypePersonalDetails
      | Passport \<Rightarrow> Inr MTP_secureValueTypePassport
      | DriverLicense \<Rightarrow> Inr MTP_secureValueTypeDriverLicense
      | IdentityCard \<Rightarrow> Inr MTP_secureValueTypeIdentityCard
      | Address \<Rightarrow> Inr MTP_secureValueTypeAddress
      | UtilityBill \<Rightarrow> Inr MTP_secureValueTypeUtilityBill
      | BankStatement \<Rightarrow> Inr MTP_secureValueTypeBankStatement
      | RentalAgreement \<Rightarrow> Inr MTP_secureValueTypeRentalAgreement
      | _ \<Rightarrow> Inl UnexpectedCase)"

text \<open>
  \<^verbatim>\<open>FormController::saveEncryptedValue\<close>. While the master secret is absent the call is
  appended to \<^verbatim>\<open>_secretCallbacks\<close>; the queued closure is
  \<^verbatim>\<open>[=] { saveEncryptedValue(value); }\<close>, so the queue holds the values.
\<close>

definition saveEncryptedValue :: "Env \<Rightarrow> Type \<Rightarrow> FormController \<Rightarrow> error + FormController" where
  "saveEncryptedValue env t s =
     (case form_values (c_form s) t of
        None \<Rightarrow> Inl AssertFailed
      | Some value \<Rightarrow>
          (if \<not> isEncryptedValue (v_type value) then Inl ExpectsFailed
           else if c_secret s = [] then Inr (s\<lparr> secretCallbacks := secretCallbacks s @ [t] \<rparr>)
           else
             (let inputFiles = map inputFile (filter (\<lambda>scan. \<not> deleted scan) (scansInEdit value));
                  fresh = (d_secret (v_data value) = []);
                  valueSecret = (if fresh then GenerateSecretBytes env (rng s)
                                 else d_secret (v_data value));
                  s1 = (if fresh then s\<lparr> rng := rng s + 1 \<rparr> else s);
                  encryptedData = EncryptData env
                    (SerializeData env (parsedInEdit (v_data value))) valueSecret;
                  wrapped = EncryptValueSecret env valueSecret (c_secret s)
                    (ed_hash encryptedData);
                  value1 = value\<lparr> v_data := (v_data value)\<lparr>
                    d_secret := valueSecret,
                    hashInEdit := ed_hash encryptedData,
                    encryptedSecretInEdit := wrapped \<rparr> \<rparr>;
                  hasSelfie = (case selfieInEdit value1 of
                                 None \<Rightarrow> False | Some file \<Rightarrow> \<not> deleted file);
                  selfieFile = (case selfieInEdit value1 of
                                  None \<Rightarrow> None
                                | Some file \<Rightarrow>
                                    if \<not> deleted file then Some (inputFile file) else None);
                  s2 = set_value t value1 s1
              in case encryptedValueType (v_type value1) of
                   Inl e \<Rightarrow> Inl e
                 | Inr type \<Rightarrow>
                     (let flagData = \<not> (scansInEdit value1 = []
                                         \<and> parsedInEdit (v_data value1) = []);
                          flagFiles = (scansInEdit value1 \<noteq> [])
                      in if \<not> (flagData \<or> flagFiles \<or> hasSelfie) then Inl AssertFailed
                         else sendSaveRequest t
                                \<lparr> flag_data = flagData, flag_files = flagFiles,
                                  flag_selfie = hasSelfie, flag_plain_data = False,
                                  isv_type = type,
                                  isv_data = Some (ed_bytes encryptedData,
                                    hashInEdit (v_data value1),
                                    encryptedSecretInEdit (v_data value1)),
                                  isv_files = inputFiles, isv_plain_data = None,
                                  isv_selfie = selfieFile \<rparr> s2))))"

text \<open>
  \<^verbatim>\<open>FormController::generateSecret\<close>. The secret and its identifier are captured by the
  closures of the request.
\<close>

definition generateSecret :: "Env \<Rightarrow> bytes \<Rightarrow> FormController \<Rightarrow> FormController" where
  "generateSecret env password s =
     (if saveSecretRequestId s \<noteq> 0 then s
      else
        (let secret = GenerateSecretBytes env (rng s);
             randomSaltPart = set_random env (rng s + 1) 8;
             newSecureSaltFull = newSecureSalt (c_password s) @ randomSaltPart;
             secureSecretId = CountSecureSecretHash env secret;
             encryptedSecret = EncryptSecureSecret env newSecureSaltFull secret password;
             hashForAuth = Sha256 env
               (salt (c_password s) @ password @ salt (c_password s))
         in case send_request
                   (MTPaccount_UpdatePasswordSettings hashForAuth newSecureSaltFull
                      encryptedSecret secureSecretId)
                   (H_generateSecret secret secureSecretId) (s\<lparr> rng := rng s + 2 \<rparr>) of
              (i, s1) \<Rightarrow> s1\<lparr> saveSecretRequestId := i \<rparr>))"

text \<open>The loop \<^verbatim>\<open>for (const auto &callback : ...) callback();\<close> over the taken queue.\<close>

fun runSecretCallbacks :: "Env \<Rightarrow> Type list \<Rightarrow> FormController \<Rightarrow> error + FormController" where
  "runSecretCallbacks env [] s = Inr s"
| "runSecretCallbacks env (t # ts) s =
     (case saveEncryptedValue env t s of
        Inl e \<Rightarrow> Inl e
      | Inr s1 \<Rightarrow> runSecretCallbacks env ts s1)"

text \<open>
  The \<^verbatim>\<open>done\<close> closure of \<^verbatim>\<open>generateSecret\<close>: the secret becomes present,
  \<^verbatim>\<open>base::take\<close> moves the queue out and leaves it empty, and the callbacks run.
\<close>

definition generateSecret_done ::
  "Env \<Rightarrow> bytes \<Rightarrow> 64 word \<Rightarrow> FormController \<Rightarrow> error + FormController" where
  "generateSecret_done env secret secureSecretId s =
     (let s1 = s\<lparr> saveSecretRequestId := 0, c_secret := secret, c_secretId := secureSecretId \<rparr>;
          callbacks = secretCallbacks s1;
          s2 = s1\<lparr> secretCallbacks := [] \<rparr>
      in runSecretCallbacks env callbacks s2)"

text \<open>The \<^verbatim>\<open>fail\<close> closure of \<^verbatim>\<open>generateSecret\<close>.\<close>

definition generateSecret_fail :: "FormController \<Rightarrow> FormController" where
  "generateSecret_fail s =
     (fire (E_showBox ''Saving encrypted value failed.'') s)\<lparr> saveSecretRequestId := 0 \<rparr>"

text \<open>\<^verbatim>\<open>FormController::decryptValues\<close>: every value of the form, in key order.\<close>

fun decryptValues_loop :: "Env \<Rightarrow> Type list \<Rightarrow> FormController \<Rightarrow> error + FormController" where
  "decryptValues_loop env [] s = Inr s"
| "decryptValues_loop env (t # ts) s =
     (case form_values (c_form s) t of
        None \<Rightarrow> decryptValues_loop env ts s
      | Some value \<Rightarrow>
          (case decryptValue env (c_secret s) value of
             Inl e \<Rightarrow> Inl e
           | Inr value' \<Rightarrow> decryptValues_loop env ts (set_value t value' s)))"

definition decryptValues :: "Env \<Rightarrow> FormController \<Rightarrow> error + FormController" where
  "decryptValues env s =
     (if c_secret s = [] then Inl ExpectsFailed else decryptValues_loop env all_types s)"

text \<open>
  The loop of \<^verbatim>\<open>validateSecureSecret\<close> that forgets the stored data: every value of
  the form with a non-empty \<^verbatim>\<open>data.original\<close> is reset, in key order.
\<close>

fun resetStoredValues :: "Type list \<Rightarrow> FormController \<Rightarrow> FormController" where
  "resetStoredValues [] s = s"
| "resetStoredValues (t # ts) s =
     (case form_values (c_form s) t of
        None \<Rightarrow> resetStoredValues ts s
      | Some value \<Rightarrow>
          (if original (v_data value) \<noteq> []
           then resetStoredValues ts (set_value t (resetValue value) s)
           else resetStoredValues ts s))"

text \<open>\<^verbatim>\<open>FormController::validateSecureSecret\<close>\<close>

definition validateSecureSecret ::
  "Env \<Rightarrow> bytes \<Rightarrow> bytes \<Rightarrow> bytes \<Rightarrow> FormController \<Rightarrow> error + FormController" where
  "validateSecureSecret env salt' encryptedSecret password s =
     (case
        (if salt' \<noteq> [] \<and> encryptedSecret \<noteq> []
         then
           (let s1 = s\<lparr> c_secret := DecryptSecureSecret env salt' encryptedSecret password \<rparr>
            in if c_secret s1 = []
               then Inr (resetStoredValues all_types (s1\<lparr> c_secretId := 0 \<rparr>))
               else decryptValues env
                      (s1\<lparr> c_secretId := CountSecureSecretHash env (c_secret s1) \<rparr>))
         else Inr s) of
        Inl e \<Rightarrow> Inl e
      | Inr s2 \<Rightarrow>
          (let s3 = (if c_secret s2 = [] then generateSecret env password s2 else s2)
           in Inr (fire E_secretReady s3)))"

text \<open>
  The \<^verbatim>\<open>done\<close> closure of \<^verbatim>\<open>submitPassword\<close>, applied to the fields
  \<^verbatim>\<open>email\<close>, \<^verbatim>\<open>secure_salt\<close> and \<^verbatim>\<open>secure_secret\<close> of the password settings.
\<close>

definition submitPassword_done ::
  "Env \<Rightarrow> bytes \<Rightarrow> string \<Rightarrow> bytes \<Rightarrow> bytes \<Rightarrow> FormController \<Rightarrow> error + FormController" where
  "submitPassword_done env passwordBytes email secure_salt secure_secret s =
     validateSecureSecret env secure_salt secure_secret passwordBytes
       (s\<lparr> passwordCheckRequestId := 0,
           c_password := (c_password s)\<lparr> confirmedEmail := email \<rparr> \<rparr>)"

subsection \<open>Saving, verification and the edit session\<close>

text \<open>\<^verbatim>\<open>FormController::getPlainTextFromValue\<close>\<close>

definition getPlainTextFromValue :: "Value \<Rightarrow> error + string" where
  "getPlainTextFromValue value =
     (if \<not> (v_type value = Phone \<or> v_type value = Email) then Inl ExpectsFailed
      else
        (case map_of (parsedInEdit (v_data value)) ''value'' of
           None \<Rightarrow> Inl AssertFailed
         | Some text \<Rightarrow> Inr text))"

text \<open>\<^verbatim>\<open>FormController::getPhoneFromValue\<close> and \<^verbatim>\<open>getEmailFromValue\<close>\<close>

definition getPhoneFromValue :: "Value \<Rightarrow> error + string" where
  "getPhoneFromValue value =
     (if v_type value \<noteq> Phone then Inl ExpectsFailed else getPlainTextFromValue value)"

definition getEmailFromValue :: "Value \<Rightarrow> error + string" where
  "getEmailFromValue value =
     (if v_type value \<noteq> Email then Inl ExpectsFailed else getPlainTextFromValue value)"

text \<open>\<^verbatim>\<open>FormController::savePlainTextValue\<close>\<close>

definition savePlainTextValue :: "Type \<Rightarrow> FormController \<Rightarrow> error + FormController" where
  "savePlainTextValue t s =
     (case form_values (c_form s) t of
        None \<Rightarrow> Inl AssertFailed
      | Some value \<Rightarrow>
          (if isEncryptedValue (v_type value) then Inl ExpectsFailed
           else
             (case getPlainTextFromValue value of
                Inl e \<Rightarrow> Inl e
              | Inr text \<Rightarrow>
                  (case v_type value of
                     Phone \<Rightarrow>
                       sendSaveRequest t
                         \<lparr> flag_data = False, flag_files = False, flag_selfie = False,
                           flag_plain_data = True, isv_type = MTP_secureValueTypePhone,
                           isv_data = None, isv_files = [],
                           isv_plain_data = Some (MTP_securePlainPhone text),
                           isv_selfie = None \<rparr> s
                   | Email \<Rightarrow>
                       sendSaveRequest t
                         \<lparr> flag_data = False, flag_files = False, flag_selfie = False,
                           flag_plain_data = True, isv_type = MTP_secureValueTypeEmail,
                           isv_data = None, isv_files = [],
                           isv_plain_data = Some (MTP_securePlainEmail text),
                           isv_selfie = None \<rparr> s
                   | _ \<Rightarrow> Inl UnexpectedCase))))"

text \<open>\<^verbatim>\<open>FormController::clearValueEdit\<close>, on the value.\<close>

definition clearValueEdit :: "Value \<Rightarrow> Value" where
  "clearValueEdit value =
     (if savingValue value then value
      else value\<lparr> scansInEdit := [], selfieInEdit := None,
             v_data := (v_data value)\<lparr> encryptedSecretInEdit := [], hashInEdit := [],
               parsedInEdit := [] \<rparr> \<rparr>)"

text \<open>\<^verbatim>\<open>FormController::valueEditFailed\<close>, on the value.\<close>

definition valueEditFailed :: "Value \<Rightarrow> error + Value" where
  "valueEditFailed value =
     (if savingValue value then Inl ExpectsFailed
      else if editScreens value = 0 then Inr (clearValueEdit value)
      else Inr value)"

text \<open>
  \<^verbatim>\<open>FormController::valueSaveFailed\<close>: the error is shown in a box, the edit is closed
  if no edit screen is open, and the end of the save is announced.
\<close>

definition valueSaveFailed :: "Type \<Rightarrow> string \<Rightarrow> FormController \<Rightarrow> error + FormController" where
  "valueSaveFailed t errorType s =
     (case form_values (c_form s) t of
        None \<Rightarrow> Inl AssertFailed
      | Some value \<Rightarrow>
          (let s1 = fire (E_showBox (''Error saving value:'' @ [CHR 0x0A] @ errorType)) s
           in case valueEditFailed value of
                Inl e \<Rightarrow> Inl e
              | Inr value' \<Rightarrow> Inr (fire (E_valueSaveFinished t) (set_value t value' s1))))"

text \<open>
  \<^verbatim>\<open>FormController::startPhoneVerification\<close> and \<^verbatim>\<open>startEmailVerification\<close>, up to
  the moment the request is sent, and their \<^verbatim>\<open>fail\<close> closures.
\<close>

definition startPhoneVerification :: "Type \<Rightarrow> FormController \<Rightarrow> error + FormController" where
  "startPhoneVerification t s =
     (case form_values (c_form s) t of
        None \<Rightarrow> Inl AssertFailed
      | Some value \<Rightarrow>
          (case getPhoneFromValue value of
             Inl e \<Rightarrow> Inl e
           | Inr phone \<Rightarrow>
               (case send_request (MTPaccount_SendVerifyPhoneCode phone)
                       (H_startPhoneVerification t) s of
                  (i, s1) \<Rightarrow>
                    Inr (set_value t
                      (value\<lparr> verification := (verification value)\<lparr> requestId := i \<rparr> \<rparr>) s1))))"

definition startPhoneVerification_fail ::
  "Type \<Rightarrow> string \<Rightarrow> FormController \<Rightarrow> error + FormController" where
  "startPhoneVerification_fail t errorType s =
     (case form_values (c_form s) t of
        None \<Rightarrow> Inl AssertFailed
      | Some value \<Rightarrow>
          valueSaveFailed t errorType
            (set_value t
               (value\<lparr> verification := (verification value)\<lparr> requestId := 0 \<rparr> \<rparr>) s))"

definition startEmailVerification :: "Type \<Rightarrow> FormController \<Rightarrow> error + FormController" where
  "startEmailVerification t s =
     (case form_values (c_form s) t of
        None \<Rightarrow> Inl AssertFailed
      | Some value \<Rightarrow>
          (case getEmailFromValue value of
             Inl e \<Rightarrow> Inl e
           | Inr email \<Rightarrow>
               (case send_request (MTPaccount_SendVerifyEmailCode email)
                       (H_startEmailVerification t) s of
                  (i, s1) \<Rightarrow>
                    Inr (set_value t
                      (value\<lparr> verification := (verification value)\<lparr> requestId := i \<rparr> \<rparr>) s1))))"

definition startEmailVerification_fail ::
  "Type \<Rightarrow> string \<Rightarrow> FormController \<Rightarrow> error + FormController" where
  "startEmailVerification_fail t errorType s = valueSaveFailed t errorType s"

text \<open>The \<^verbatim>\<open>fail\<close> closure of \<^verbatim>\<open>sendSaveRequest\<close>.\<close>

definition sendSaveRequest_fail ::
  "Type \<Rightarrow> string \<Rightarrow> FormController \<Rightarrow> error + FormController" where
  "sendSaveRequest_fail t errorType s =
     (case form_values (c_form s) t of
        None \<Rightarrow> Inl AssertFailed
      | Some value \<Rightarrow>
          (let s1 = set_value t (value\<lparr> saveRequestId := 0 \<rparr>) s
           in if errorType = ''PHONE_VERIFICATION_NEEDED'' \<and> v_type value = Phone
              then startPhoneVerification t s1
              else if errorType \<noteq> ''PHONE_VERIFICATION_NEEDED''
                      \<and> errorType = ''EMAIL_VERIFICATION_NEEDED'' \<and> v_type value = Email
              then startEmailVerification t s1
              else valueSaveFailed t errorType s1))"

text \<open>\<^verbatim>\<open>FormController::verificationError\<close>\<close>

definition verificationError :: "Type \<Rightarrow> string \<Rightarrow> FormController \<Rightarrow> error + FormController" where
  "verificationError t text s =
     (case form_values (c_form s) t of
        None \<Rightarrow> Inl AssertFailed
      | Some value \<Rightarrow>
          Inr (fire (E_verificationUpdate t)
                 (set_value t
                    (value\<lparr> verification := (verification value)\<lparr> ver_error := text \<rparr> \<rparr>) s)))"

text \<open>
  \<^verbatim>\<open>FormController::verify\<close>, up to the moment the request is sent. The text of the
  "wrong code" message is \<^verbatim>\<open>lang(lng_signin_wrong_code)\<close>.
\<close>

definition verify :: "Env \<Rightarrow> Type \<Rightarrow> string \<Rightarrow> FormController \<Rightarrow> error + FormController" where
  "verify env t code s =
     (case form_values (c_form s) t of
        None \<Rightarrow> Inl AssertFailed
      | Some value0 \<Rightarrow>
          (if requestId (verification value0) \<noteq> 0 then Inr s
           else
             (case findValue s t of
                Inl e \<Rightarrow> Inl e
              | Inr nonconst \<Rightarrow>
                  (let prepared = trimmed code
                   in if codeLength (verification nonconst) = 0 then Inl AssertFailed
                      else
                        (case verificationError t [] s of
                           Inl e \<Rightarrow> Inl e
                         | Inr s1 \<Rightarrow>
                             (if codeLength (verification nonconst) > 0
                                 \<and> codeLength (verification nonconst) \<noteq> int (length prepared)
                              then verificationError t (lang env lng_signin_wrong_code) s1
                              else if prepared = []
                              then verificationError t (lang env lng_signin_wrong_code) s1
                              else
                                (case form_values (c_form s1) t of
                                   None \<Rightarrow> Inl AssertFailed
                                 | Some value \<Rightarrow>
                                     (case v_type value of
                                        Phone \<Rightarrow>
                                          (case getPhoneFromValue value of
                                             Inl e \<Rightarrow> Inl e
                                           | Inr phone \<Rightarrow>
                                               (case send_request
                                                       (MTPaccount_VerifyPhone phone
                                                          (phoneCodeHash (verification value))
                                                          prepared)
                                                       (H_verify t) s1 of
                                                  (i, s2) \<Rightarrow>
                                                    Inr (set_value t
                                                      (value\<lparr> verification :=
                                                         (verification value)\<lparr> requestId := i \<rparr> \<rparr>)
                                                      s2)))
                                      | Email \<Rightarrow>
                                          (case getEmailFromValue value of
                                             Inl e \<Rightarrow> Inl e
                                           | Inr email \<Rightarrow>
                                               (case send_request
                                                       (MTPaccount_VerifyEmail email prepared)
                                                       (H_verify t) s1 of
                                                  (i, s2) \<Rightarrow>
                                                    Inr (set_value t
                                                      (value\<lparr> verification :=
                                                         (verification value)\<lparr> requestId := i \<rparr> \<rparr>)
                                                      s2)))
                                      | _ \<Rightarrow> Inl UnexpectedCase))))))))"

text \<open>\<^verbatim>\<open>FormController::editFileChanged\<close>\<close>

definition editFileChanged :: "EditFile \<Rightarrow> bool" where
  "editFileChanged file =
     (case uploadData file of
        Some _ \<Rightarrow> \<not> deleted file
      | None \<Rightarrow> deleted file)"

text \<open>
  The loop of \<^verbatim>\<open>editValueChanged\<close> over the new fields; \<open>existing\<close> is the copy of the
  committed fields, from which the loop erases what it has matched. The result is
  \<^term>\<open>None\<close> when the loop returns \<^verbatim>\<open>true\<close>, and the rest of \<open>existing\<close> otherwise.
\<close>

fun fieldsChanged_loop :: "ValueMap \<Rightarrow> ValueMap \<Rightarrow> ValueMap option" where
  "fieldsChanged_loop [] existing = Some existing"
| "fieldsChanged_loop ((key, text) # rest) existing =
     (case map_of existing key of
        Some old \<Rightarrow>
          (if old \<noteq> text then None
           else fieldsChanged_loop rest (filter (\<lambda>(k, v). k \<noteq> key) existing))
      | None \<Rightarrow>
          (if text \<noteq> [] then None else fieldsChanged_loop rest existing))"

text \<open>\<^verbatim>\<open>FormController::editValueChanged\<close>\<close>

definition editValueChanged :: "Value \<Rightarrow> ValueMap \<Rightarrow> bool" where
  "editValueChanged value data' =
     (if list_ex editFileChanged (scansInEdit value) then True
      else if (case selfieInEdit value of None \<Rightarrow> False | Some file \<Rightarrow> editFileChanged file)
      then True
      else
        (case fieldsChanged_loop data' (parsed (v_data value)) of
           None \<Rightarrow> True
         | Some existing \<Rightarrow> existing \<noteq> []))"

text \<open>
  \<^verbatim>\<open>FormController::saveValueEdit\<close>. Without a change the save request identifier is
  set to \<open>-1\<close> and the rest is posted to the main loop.
\<close>

definition saveValueEdit :: "Env \<Rightarrow> Type \<Rightarrow> ValueMap \<Rightarrow> FormController \<Rightarrow> error + FormController" where
  "saveValueEdit env t data' s =
     (case form_values (c_form s) t of
        None \<Rightarrow> Inl AssertFailed
      | Some value \<Rightarrow>
          (if savingValue value \<or> submitRequestId s \<noteq> 0 then Inr s
           else
             (case findValue s t of
                Inl e \<Rightarrow> Inl e
              | Inr nonconst \<Rightarrow>
                  (if \<not> editValueChanged nonconst data'
                   then Inr ((set_value t (nonconst\<lparr> saveRequestId := - 1 \<rparr>) s)
                               \<lparr> mainTasks := mainTasks s @ [T_saveValueEdit_unchanged t] \<rparr>)
                   else
                     (let s1 = set_value t
                            (nonconst\<lparr> v_data := (v_data nonconst)\<lparr> parsedInEdit := data' \<rparr> \<rparr>) s
                      in if isEncryptedValue (v_type nonconst)
                         then saveEncryptedValue env t s1
                         else savePlainTextValue t s1)))))"

text \<open>
  The closure that \<^verbatim>\<open>saveValueEdit\<close> posts when nothing changed: \<^verbatim>\<open>base::take\<close>
  empties each edit-scoped member and the error, then the end of the save is fired.
\<close>

definition saveValueEdit_unchanged :: "Type \<Rightarrow> FormController \<Rightarrow> error + FormController" where
  "saveValueEdit_unchanged t s =
     (case form_values (c_form s) t of
        None \<Rightarrow> Inl AssertFailed
      | Some nonconst \<Rightarrow>
          Inr (fire (E_valueSaveFinished t)
                 (set_value t
                    (nonconst\<lparr> scansInEdit := [], selfieInEdit := None,
                       v_data := (v_data nonconst)\<lparr> encryptedSecretInEdit := [],
                         hashInEdit := [], parsedInEdit := [] \<rparr>,
                       v_error := [], saveRequestId := 0 \<rparr>) s)))"

text \<open>\<^verbatim>\<open>FormController::deleteValueEdit\<close>, up to the moment the request is sent.\<close>

definition deleteValueEdit :: "Type \<Rightarrow> FormController \<Rightarrow> error + FormController" where
  "deleteValueEdit t s =
     (case form_values (c_form s) t of
        None \<Rightarrow> Inl AssertFailed
      | Some value \<Rightarrow>
          (if savingValue value \<or> submitRequestId s \<noteq> 0 then Inr s
           else
             (case findValue s t of
                Inl e \<Rightarrow> Inl e
              | Inr nonconst \<Rightarrow>
                  (case send_request
                          (MTPaccount_DeleteSecureValue [ConvertTypeMTP (v_type nonconst)])
                          (H_deleteValueEdit t) s of
                     (i, s1) \<Rightarrow> Inr (set_value t (nonconst\<lparr> saveRequestId := i \<rparr>) s1)))))"

subsection \<open>Staging scans\<close>

definition kDocumentScansLimit :: nat where
  "kDocumentScansLimit = 20"

text \<open>\<^verbatim>\<open>FormController::canAddScan\<close>\<close>

definition canAddScan :: "Value \<Rightarrow> bool" where
  "canAddScan value =
     (length (filter (\<lambda>scan. \<not> deleted scan) (scansInEdit value)) < kDocumentScansLimit)"

text \<open>
  \<^verbatim>\<open>FormController::prepareFile\<close> on the staged file: the identifier and the file
  secret are read from the random source.
\<close>

definition prepareFile :: "Env \<Rightarrow> nat \<Rightarrow> bytes \<Rightarrow> EditFile \<Rightarrow> EditFile" where
  "prepareFile env seed content file =
     file\<lparr> e_fields := (e_fields file)\<lparr>
       f_size := int (length content),
       f_id := rand_value env seed,
       f_dcId := maindc env,
       f_secret := GenerateSecretBytes env (seed + 1),
       f_date := unixtime env,
       f_image := ReadImage env content,
       f_downloadOffset := int (length content) \<rparr> \<rparr>"

text \<open>
  \<^verbatim>\<open>FormController::uploadScan\<close> with \<^verbatim>\<open>encryptFile\<close> inlined: after the cap is
  checked, an empty \<^verbatim>\<open>EditFile\<close> is appended, prepared and announced, and the
  encryption is started in the background with the index of the scan, the file
  identifier, the content and the file secret.
\<close>

definition uploadScan :: "Env \<Rightarrow> Type \<Rightarrow> bytes \<Rightarrow> FormController \<Rightarrow> error + FormController" where
  "uploadScan env t content s =
     (case form_values (c_form s) t of
        None \<Rightarrow> Inl AssertFailed
      | Some value \<Rightarrow>
          (if \<not> canAddScan value
           then Inr (fire (E_showToast (lang env lng_passport_scans_limit_reached)) s)
           else
             (case findValue s t of
                Inl e \<Rightarrow> Inl e
              | Inr nonconst \<Rightarrow>
                  (let scanIndex = length (scansInEdit nonconst);
                       scan = prepareFile env (rng s) content (EditFile_init t File_init None);
                       s1 = set_value t
                         (nonconst\<lparr> scansInEdit := scansInEdit nonconst @ [scan] \<rparr>)
                         (s\<lparr> rng := rng s + 2 \<rparr>);
                       s2 = fire (E_scanUpdated t (Some scanIndex)) s1
                   in Inr (s2\<lparr> asyncTasks := asyncTasks s2 @
                         [A_encryptFile t scanIndex (f_id (e_fields scan)) content
                            (f_secret (e_fields scan))] \<rparr>)))))"

text \<open>\<^verbatim>\<open>FormController::scanDeleteRestore\<close>\<close>

definition scanDeleteRestore :: "Env \<Rightarrow> Type \<Rightarrow> int \<Rightarrow> bool \<Rightarrow> FormController \<Rightarrow> error + FormController" where
  "scanDeleteRestore env t scanIndex deleted' s =
     (case form_values (c_form s) t of
        None \<Rightarrow> Inl AssertFailed
      | Some value \<Rightarrow>
          (if \<not> (scanIndex \<ge> 0 \<and> scanIndex < int (length (scansInEdit value)))
           then Inl ExpectsFailed
           else
             (case findValue s t of
                Inl e \<Rightarrow> Inl e
              | Inr nonconst \<Rightarrow>
                  (let scan = scansInEdit nonconst ! nat scanIndex
                   in if deleted scan \<and> \<not> deleted' \<and> \<not> canAddScan value
                      then Inr (fire (E_showToast (lang env lng_passport_scans_limit_reached)) s)
                      else
                        Inr (fire (E_scanUpdated t (Some (nat scanIndex)))
                               (set_value t
                                  (nonconst\<lparr> scansInEdit := (scansInEdit nonconst)
                                     [nat scanIndex := scan\<lparr> deleted := deleted' \<rparr>] \<rparr>) s))))))"

text \<open>\<^verbatim>\<open>FormController::deleteScan\<close> and \<^verbatim>\<open>restoreScan\<close>\<close>

definition deleteScan :: "Env \<Rightarrow> Type \<Rightarrow> int \<Rightarrow> FormController \<Rightarrow> error + FormController" where
  "deleteScan env t scanIndex s = scanDeleteRestore env t scanIndex True s"

definition restoreScan :: "Env \<Rightarrow> Type \<Rightarrow> int \<Rightarrow> FormController \<Rightarrow> error + FormController" where
  "restoreScan env t scanIndex s = scanDeleteRestore env t scanIndex False s"

subsection \<open>Submission\<close>

text \<open>
  \<^verbatim>\<open>QJsonObject::insert\<close>: the value of an existing key is replaced. The object is kept
  in insertion order; \<^verbatim>\<open>QJsonObject\<close> orders its keys, which changes the written
  document and not what it contains.
\<close>

fun json_insert :: "string \<Rightarrow> QJson \<Rightarrow> (string \<times> QJson) list \<Rightarrow> (string \<times> QJson) list" where
  "json_insert key v [] = [(key, v)]"
| "json_insert key v ((k, old) # rest) =
     (if k = key then (k, v) # rest else (k, old) # json_insert key v rest)"

text \<open>\<^verbatim>\<open>GetJSONFromMap\<close>: every value is written in base 64.\<close>

definition GetJSONFromMap :: "Env \<Rightarrow> (string \<times> bytes) list \<Rightarrow> QJson" where
  "GetJSONFromMap env m =
     JObject (foldl (\<lambda>result (key, v). json_insert key (JString (toBase64 env v)) result) [] m)"

text \<open>\<^verbatim>\<open>GetJSONFromFile\<close>\<close>

definition GetJSONFromFile :: "Env \<Rightarrow> File \<Rightarrow> QJson" where
  "GetJSONFromFile env file =
     GetJSONFromMap env [(''file_hash'', f_hash file), (''secret'', f_secret file)]"

text \<open>\<^verbatim>\<open>ValueCredentialsKey\<close>\<close>

fun ValueCredentialsKey :: "Type \<Rightarrow> string" where
  "ValueCredentialsKey PersonalDetails = ''personal_details''"
| "ValueCredentialsKey Passport = ''passport''"
| "ValueCredentialsKey DriverLicense = ''driver_license''"
| "ValueCredentialsKey IdentityCard = ''identity_card''"
| "ValueCredentialsKey Address = ''address''"
| "ValueCredentialsKey UtilityBill = ''utility_bill''"
| "ValueCredentialsKey BankStatement = ''bank_statement''"
| "ValueCredentialsKey RentalAgreement = ''rental_agreement''"
| "ValueCredentialsKey Phone = []"
| "ValueCredentialsKey Email = []"

text \<open>
  The accumulators of \<^verbatim>\<open>prepareFinalData\<close>: the hash list, the object
  \<^verbatim>\<open>secureData\<close> and the flag \<^verbatim>\<open>hasErrors\<close>.
\<close>

record Prepared =
  hashes :: "(MTPSecureValueType \<times> bytes) list"
  secureData :: "(string \<times> QJson) list"
  hasErrors :: bool

text \<open>The lambda \<^verbatim>\<open>addValueToJSON\<close> of \<^verbatim>\<open>prepareFinalData\<close>.\<close>

definition addValueToJSON ::
  "Env \<Rightarrow> Form \<Rightarrow> string \<Rightarrow> Value \<Rightarrow> (string \<times> QJson) list \<Rightarrow> (string \<times> QJson) list" where
  "addValueToJSON env form key value secure =
     (let object0 = [];
          object1 = (if parsed (v_data value) \<noteq> []
                     then json_insert ''data''
                            (GetJSONFromMap env [(''data_hash'', d_hash (v_data value)),
                               (''secret'', d_secret (v_data value))]) object0
                     else object0);
          object2 = (if scans value \<noteq> []
                     then json_insert ''files''
                            (JArray (map (GetJSONFromFile env) (scans value))) object1
                     else object1);
          object3 = (case selfie value of
                       Some file \<Rightarrow>
                         if identitySelfieRequired form
                         then json_insert ''selfie'' (GetJSONFromFile env file) object2
                         else object2
                     | None \<Rightarrow> object2)
      in json_insert key (JObject object3) secure)"

text \<open>The lambda \<^verbatim>\<open>addValue\<close> of \<^verbatim>\<open>prepareFinalData\<close>.\<close>

definition addValue :: "Env \<Rightarrow> Form \<Rightarrow> Value \<Rightarrow> Prepared \<Rightarrow> Prepared" where
  "addValue env form value acc =
     (let acc1 = acc\<lparr> hashes := hashes acc @ [(ConvertTypeMTP (v_type value), submitHash value)] \<rparr>;
          key = ValueCredentialsKey (v_type value)
      in if key \<noteq> []
         then acc1\<lparr> secureData := addValueToJSON env form key value (secureData acc1) \<rparr>
         else acc1)"

text \<open>
  The inner loop over \<^verbatim>\<open>scope.documents\<close>: the first document with a scan is added
  and the loop ends.
\<close>

fun addFirstDocument :: "Env \<Rightarrow> Form \<Rightarrow> Type list \<Rightarrow> Prepared \<Rightarrow> error + Prepared" where
  "addFirstDocument env form [] acc = Inr acc"
| "addFirstDocument env form (d # ds) acc =
     (case form_values form d of
        None \<Rightarrow> Inl AssertFailed
      | Some document \<Rightarrow>
          (if scans document \<noteq> [] then Inr (addValue env form document acc)
           else addFirstDocument env form ds acc))"

text \<open>
  The loop of \<^verbatim>\<open>prepareFinalData\<close> over the scopes. A scope that is not ready sets
  \<^verbatim>\<open>hasErrors\<close> and clears the error of its value through \<^verbatim>\<open>findValue\<close>.
\<close>

fun prepareScopes ::
  "Env \<Rightarrow> Scope list \<Rightarrow> FormController \<Rightarrow> Prepared \<Rightarrow> error + (Prepared \<times> FormController)" where
  "prepareScopes env [] s acc = Inr (acc, s)"
| "prepareScopes env (sc # rest) s acc =
     (if ComputeScopeRowReadyString env (c_form s) sc = []
      then
        (case findValue s (sc_fields sc) of
           Inl e \<Rightarrow> Inl e
         | Inr value \<Rightarrow>
             prepareScopes env rest (set_value (sc_fields sc) (value\<lparr> v_error := [] \<rparr>) s)
               (acc\<lparr> hasErrors := True \<rparr>))
      else
        (case form_values (c_form s) (sc_fields sc) of
           None \<Rightarrow> Inl AssertFailed
         | Some value \<Rightarrow>
             (case addFirstDocument env (c_form s) (documents sc)
                     (addValue env (c_form s) value acc) of
                Inl e \<Rightarrow> Inl e
              | Inr acc' \<Rightarrow> prepareScopes env rest s acc')))"

text \<open>
  \<^verbatim>\<open>FinalData\<close>. The credentials are the compact writing of the JSON document; the
  document itself is kept beside them.
\<close>

record FinalData =
  fd_hashes :: "(MTPSecureValueType \<times> bytes) list"
  fd_credentials :: bytes
  fd_document :: "QJson option"

text \<open>\<^verbatim>\<open>FormController::prepareFinalData\<close>\<close>

definition prepareFinalData :: "Env \<Rightarrow> FormController \<Rightarrow> error + (FinalData \<times> FormController)" where
  "prepareFinalData env s =
     (case prepareScopes env (ComputeScopes env (c_form s)) s
             \<lparr> hashes = [], secureData = [], hasErrors = False \<rparr> of
        Inl e \<Rightarrow> Inl e
      | Inr (acc, s1) \<Rightarrow>
          (if hasErrors acc
           then Inr (\<lparr> fd_hashes = [], fd_credentials = [], fd_document = None \<rparr>, s1)
           else
             (let json = JObject (json_insert ''payload'' (JString (payload (c_request s1)))
                           (json_insert ''secure_data'' (JObject (secureData acc)) []))
              in Inr (\<lparr> fd_hashes = hashes acc, fd_credentials = toJson env json,
                         fd_document = Some json \<rparr>, s1))))"

text \<open>
  \<^verbatim>\<open>FormController::submit\<close>, up to the moment the request is sent. Modelled from the
  spec: \<^verbatim>\<open>EncryptData\<close> with one argument is not defined in the controller; the
  document is encrypted with a fresh one-time secret.
\<close>

definition submit :: "Env \<Rightarrow> FormController \<Rightarrow> error + (bool \<times> FormController)" where
  "submit env s =
     (if submitRequestId s \<noteq> 0 then Inr (True, s)
      else
        (case prepareFinalData env s of
           Inl e \<Rightarrow> Inl e
         | Inr (prepared, s1) \<Rightarrow>
             (if fd_hashes prepared = [] then Inr (False, s1)
              else
                (let credentialsEncryptedData = EncryptData env (fd_credentials prepared)
                       (GenerateSecretBytes env (rng s1));
                     credentialsEncryptedSecret = EncryptCredentialsSecret env
                       (ed_secret credentialsEncryptedData)
                       (toUtf8 (publicKey (c_request s1)))
                 in case send_request
                           (MTPaccount_AcceptAuthorization (botId (c_request s1))
                              (scope (c_request s1)) (publicKey (c_request s1))
                              (fd_hashes prepared)
                              (ed_bytes credentialsEncryptedData)
                              (ed_hash credentialsEncryptedData)
                              credentialsEncryptedSecret)
                           H_submit (s1\<lparr> rng := rng s1 + 1 \<rparr>) of
                      (i, s2) \<Rightarrow> Inr (True, s2\<lparr> submitRequestId := i \<rparr>)))))"

subsection \<open>What the credentials may hold\<close>

text \<open>
  Following the claim about the credentials, not the source: the object of an item
  holds its content hash under the given key and its secret, both in base 64, and
  nothing else; the object of a value holds such an object for the field data, for each
  scan and for the selfie.
\<close>

definition hashAndSecret :: "Env \<Rightarrow> string \<Rightarrow> bytes \<Rightarrow> bytes \<Rightarrow> QJson" where
  "hashAndSecret env hashKey h sec =
     JObject [(hashKey, JString (toBase64 env h)), (''secret'', JString (toBase64 env sec))]"

definition valueCredentials :: "Env \<Rightarrow> bool \<Rightarrow> Value \<Rightarrow> QJson" where
  "valueCredentials env selfieRequired value =
     JObject
       ((if parsed (v_data value) \<noteq> []
         then [(''data'', hashAndSecret env ''data_hash'' (d_hash (v_data value))
                  (d_secret (v_data value)))]
         else [])
        @ (if scans value \<noteq> []
           then [(''files'', JArray (map (\<lambda>file. hashAndSecret env ''file_hash'' (f_hash file)
                    (f_secret file)) (scans value)))]
           else [])
        @ (case selfie value of
             Some file \<Rightarrow>
               if selfieRequired
               then [(''selfie'', hashAndSecret env ''file_hash'' (f_hash file) (f_secret file))]
               else []
           | None \<Rightarrow> []))"

text \<open>
  Following the claim: the controller state with the text of the decrypted fields of
  every value replaced, \<open>g\<close> giving the fields for each type.
\<close>

definition withFields :: "(Type \<Rightarrow> ValueMap) \<Rightarrow> FormController \<Rightarrow> FormController" where
  "withFields g s = s\<lparr> c_form := (c_form s)\<lparr> form_values :=
     (\<lambda>t. map_option (\<lambda>v. v\<lparr> v_data := (v_data v)\<lparr> parsed := g t \<rparr> \<rparr>)
            (form_values (c_form s) t)) \<rparr> \<rparr>"

subsection \<open>A small instance of the collaborators\<close>

text \<open>
  Concrete runs need concrete collaborators. This instance is not the cryptography of
  the application: it keeps only what the controller relies on, namely that unwrapping
  and decrypting check the content hash and the key and return no bytes when the check
  fails, and that each primitive is a function of its arguments.
\<close>

definition demo_hash :: "bytes \<Rightarrow> bytes" where
  "demo_hash bs = [of_nat (length bs), sum_list bs]"

definition demo_unwrap :: "bytes \<Rightarrow> bytes \<Rightarrow> bytes \<Rightarrow> bytes" where
  "demo_unwrap encrypted secret hash =
     (if take (length (hash @ secret)) encrypted = hash @ secret
      then drop (length (hash @ secret)) encrypted else [])"

definition demo_decrypt :: "bytes \<Rightarrow> bytes \<Rightarrow> bytes \<Rightarrow> bytes" where
  "demo_decrypt encrypted hash secret =
     (if hash = demo_hash encrypted \<and> take (length secret) encrypted = secret
      then drop (length secret) encrypted else [])"

definition demo_encrypt :: "bytes \<Rightarrow> bytes \<Rightarrow> EncryptedData" where
  "demo_encrypt plain secret =
     \<lparr> ed_secret = secret, ed_hash = demo_hash (secret @ plain), ed_bytes = secret @ plain \<rparr>"

text \<open>Field maps are written as \<^verbatim>\<open>{key=text;key=text;}\<close>.\<close>

definition demo_serialize :: "ValueMap \<Rightarrow> bytes" where
  "demo_serialize m =
     of_char CHR ''{'' #
       concat (map (\<lambda>(k, v). map of_char k @ [of_char CHR ''=''] @ map of_char v
                 @ [of_char CHR '';'']) m)
       @ [of_char CHR ''}'']"

fun demo_fields :: "string \<Rightarrow> string \<Rightarrow> string \<Rightarrow> bool \<Rightarrow> ValueMap" where
  "demo_fields [] key text in_text = []"
| "demo_fields (c # cs) key text in_text =
     (if c = CHR '';'' then (key, text) # demo_fields cs [] [] False
      else if c = CHR ''='' \<and> \<not> in_text then demo_fields cs key text True
      else if in_text then demo_fields cs key (text @ [c]) in_text
      else demo_fields cs (key @ [c]) text in_text)"

definition demo_deserialize :: "bytes \<Rightarrow> ValueMap" where
  "demo_deserialize bs =
     (if 2 \<le> length bs \<and> hd bs = of_char CHR ''{'' \<and> last bs = of_char CHR ''}''
      then demo_fields (map (\<lambda>b. char_of (unat b)) (butlast (tl bs))) [] [] False else [])"

fun demo_toJson :: "QJson \<Rightarrow> string" where
  "demo_toJson (JString s) = CHR 0x22 # s @ [CHR 0x22]"
| "demo_toJson (JArray xs) = ''['' @ concat (map demo_toJson xs) @ '']''"
| "demo_toJson (JObject kvs) =
     ''{'' @ concat (map (\<lambda>(k, v). k @ '':'' @ demo_toJson v @ '','') kvs) @ ''}''"

definition demo_lang :: "LangKey \<Rightarrow> string" where
  "demo_lang k =
     (case k of
        lng_passport_scans_limit_reached \<Rightarrow> ''Scans limit reached''
      | lng_signin_wrong_code \<Rightarrow> ''You have entered an invalid code''
      | lng_flood_error \<Rightarrow> ''Too many tries''
      | lng_passport_password_wrong \<Rightarrow> ''Wrong password''
      | lng_passport_form_error \<Rightarrow> ''Form error'')"

text \<open>
  One scope per required personal-details, address, phone or email value; the required
  document types of the same group are its documents. A row is ready when its fields
  are filled and, if it has documents, one of them has a scan.
\<close>

definition demo_documents :: "Type \<Rightarrow> Type list" where
  "demo_documents t =
     (case t of
        PersonalDetails \<Rightarrow> [Passport, DriverLicense, IdentityCard]
      | Address \<Rightarrow> [UtilityBill, BankStatement, RentalAgreement]
      | _ \<Rightarrow> [])"

definition demo_scopes :: "Form \<Rightarrow> Scope list" where
  "demo_scopes form =
     map (\<lambda>t. \<lparr> sc_fields = t,
               documents = filter (\<lambda>d. d \<in> set (request form)) (demo_documents t) \<rparr>)
       (filter (\<lambda>t. t \<in> set [PersonalDetails, Address, Phone, Email]) (request form))"

definition demo_ready :: "Form \<Rightarrow> Scope \<Rightarrow> string" where
  "demo_ready form sc =
     (case form_values form (sc_fields sc) of
        None \<Rightarrow> []
      | Some value \<Rightarrow>
          (if parsed (v_data value) = [] then []
           else if documents sc = [] then ''ready''
           else if list_ex (\<lambda>d. case form_values form d of None \<Rightarrow> False
                                 | Some doc \<Rightarrow> scans doc \<noteq> []) (documents sc)
           then ''ready'' else []))"

definition demo_env :: Env where
  "demo_env = \<lparr>
     DecryptSecureSecret = (\<lambda>salt encrypted password. demo_unwrap encrypted password salt),
     EncryptSecureSecret = (\<lambda>salt secret password. salt @ password @ secret),
     CountSecureSecretHash = (\<lambda>secret. of_nat (length secret) + 1),
     DecryptValueSecret = demo_unwrap,
     EncryptValueSecret = (\<lambda>valueSecret secret hash. hash @ secret @ valueSecret),
     DecryptData = demo_decrypt,
     EncryptData = demo_encrypt,
     SerializeData = demo_serialize,
     DeserializeData = demo_deserialize,
     EncryptCredentialsSecret = (\<lambda>secret key. key @ secret),
     GenerateSecretBytes = (\<lambda>n. [of_nat n + 1, 2, 3]),
     set_random = (\<lambda>n size. replicate size (of_nat n)),
     rand_value = (\<lambda>n. of_nat n + 100),
     Sha256 = demo_hash,
     toBase64 = map (\<lambda>b. char_of (unat b)),
     toJson = (\<lambda>json. map of_char (demo_toJson json)),
     ReadImage = (\<lambda>content. if content = [] then NullImage else Image content),
     lang = demo_lang,
     maindc = 2,
     unixtime = 1530000000,
     ComputeScopes = demo_scopes,
     ComputeScopeRowReadyString = demo_ready \<rparr>"

subsection \<open>A small form\<close>

text \<open>
  The concrete states of the runs below. The master secret is \<open>[1]\<close>. The personal
  details are stored under the value secret \<open>[7]\<close> and open in one edit screen, the
  passport has twenty staged scans and a deleted one, and a code of length 5 was sent
  for the phone number.
\<close>

definition demo_details_data :: EncryptedData where
  "demo_details_data = demo_encrypt (demo_serialize [(''first_name'', ''Ann'')]) [7]"

definition demo_details :: Value where
  "demo_details = (Value_init PersonalDetails)\<lparr>
     v_data := \<lparr> original = ed_bytes demo_details_data, d_secret = [7],
       parsed = [(''first_name'', ''Ann'')], d_hash = ed_hash demo_details_data,
       d_encryptedSecret = ed_hash demo_details_data @ [1] @ [7],
       parsedInEdit = [(''first_name'', ''Ann'')], hashInEdit = [],
       encryptedSecretInEdit = [] \<rparr>,
     submitHash := [5, 5], editScreens := 1, v_error := ''Please check the name'' \<rparr>"

definition demo_scan :: EditFile where
  "demo_scan = EditFile_init Passport
     (File_init\<lparr> f_id := 7, f_accessHash := 8, f_size := 3, f_hash := [3, 6],
        f_secret := [9], f_encryptedSecret := [3, 6, 1, 9] \<rparr>) None"

definition demo_passport :: Value where
  "demo_passport = (Value_init Passport)\<lparr>
     scans := [e_fields demo_scan],
     scansInEdit := demo_scan\<lparr> deleted := True \<rparr> # replicate 20 demo_scan,
     submitHash := [6, 6], editScreens := 1 \<rparr>"

definition demo_phone :: Value where
  "demo_phone = (Value_init Phone)\<lparr>
     v_data := ValueData_init\<lparr> parsedInEdit := [(''value'', ''15551234'')] \<rparr>,
     editScreens := 1,
     verification := Verification_init\<lparr> codeLength := 5, phoneCodeHash := ''hash'' \<rparr> \<rparr>"

definition demo_controller :: FormController where
  "demo_controller = \<lparr>
     c_request = \<lparr> botId = 42, scope = ''scope'', callbackUrl = ''https://bot.example/cb'',
       publicKey = ''key'', payload = ''nonce'' \<rparr>,
     c_password = \<lparr> salt = [1, 2], newSalt = [3], newSecureSalt = [4], hint = ''hint'',
       unconfirmedPattern = [], confirmedEmail = [], hasRecovery = False \<rparr>,
     c_form = \<lparr> form_values = [PersonalDetails \<mapsto> demo_details, Passport \<mapsto> demo_passport,
         Phone \<mapsto> demo_phone],
       request = [PersonalDetails, Passport, Phone], identitySelfieRequired = False,
       privacyPolicyUrl = [] \<rparr>,
     c_secret = [1], c_secretId = 2, secretCallbacks = [], passwordCheckRequestId = 0,
     saveSecretRequestId = 0, submitRequestId = 0, sent = [], events = [], mainTasks = [],
     asyncTasks = [], rng = 0 \<rparr>"

text \<open>
  Two values as the remote authority returns them, not yet decrypted: a utility bill
  with one scan, whose payload is the encryption of an empty field map, and the
  personal details.
\<close>

definition demo_bill :: Value where
  "demo_bill = (Value_init UtilityBill)\<lparr>
     v_data := ValueData_init\<lparr> original := [7, 123, 125], d_hash := [3, 255],
       d_encryptedSecret := [3, 255, 1, 7] \<rparr>,
     scans := [File_init\<lparr> f_id := 7, f_accessHash := 8, f_size := 3, f_hash := [3, 6],
        f_encryptedSecret := [3, 6, 1, 9] \<rparr>],
     submitHash := [8, 8] \<rparr>"

definition demo_stored_details :: Value where
  "demo_stored_details = (Value_init PersonalDetails)\<lparr>
     v_data := ValueData_init\<lparr> original := ed_bytes demo_details_data,
       d_hash := ed_hash demo_details_data,
       d_encryptedSecret := ed_hash demo_details_data @ [1] @ [7] \<rparr>,
     submitHash := [5, 5] \<rparr>"

text \<open>A form whose only required value, the personal details, has a save in flight.\<close>

definition demo_saving :: FormController where
  "demo_saving = demo_controller\<lparr> c_form := \<lparr>
       form_values = [PersonalDetails \<mapsto> demo_details\<lparr> saveRequestId := 3 \<rparr>],
       request = [PersonalDetails], identitySelfieRequired = False, privacyPolicyUrl = [] \<rparr> \<rparr>"

text \<open>The credentials document of that form.\<close>

definition demo_document :: QJson where
  "demo_document =
     JObject
       [(''secure_data'',
         JObject
           [(''personal_details'',
             JObject
               [(''data'',
                 JObject
                   [(''data_hash'', JString [CHR 0x12, CHR 0xBC]),
                    (''secret'', JString [CHR 0x07])])])]),
        (''payload'', JString ''nonce'')]"

text \<open>
  The state of \<^term>\<open>demo_controller\<close> after the stored secret failed to unwrap
  under the password \<open>[6]\<close>: the secret is absent, the personal details, which were
  stored, are forgotten, the request that stores the fresh secret \<open>[1, 2, 3]\<close> is
  outstanding and nothing is queued. Then the same state after the personal details
  were edited to the first name \<open>name\<close>, with the queue \<open>queue\<close> of saves that wait for
  the secret.
\<close>

definition demo_generating :: FormController where
  "demo_generating = demo_controller\<lparr>
     c_form := (c_form demo_controller)\<lparr> form_values := (form_values (c_form demo_controller))
       (PersonalDetails \<mapsto> Value_init PersonalDetails) \<rparr>,
     c_secret := [], c_secretId := 0, saveSecretRequestId := 1,
     sent := [(1, MTPaccount_UpdatePasswordSettings [5, 12] [4, 1, 1, 1, 1, 1, 1, 1, 1]
                    [4, 1, 1, 1, 1, 1, 1, 1, 1, 6, 1, 2, 3] 4,
               H_generateSecret [1, 2, 3] 4)],
     events := [E_secretReady], rng := 2 \<rparr>"

definition demo_queued :: "string \<Rightarrow> Type list \<Rightarrow> FormController" where
  "demo_queued name queue = demo_generating\<lparr>
     c_form := (c_form demo_generating)\<lparr> form_values := (form_values (c_form demo_generating))
       (PersonalDetails \<mapsto> (Value_init PersonalDetails)\<lparr>
          v_data := ValueData_init\<lparr> parsedInEdit := [(''first_name'', name)] \<rparr> \<rparr>) \<rparr>,
     secretCallbacks := queue \<rparr>"

text \<open>
  A form that asks for a phone number and an e-mail address, neither given yet, the
  phone number open in one edit screen. Then the same form with the save of the phone
  number \<open>15551234\<close> in flight.
\<close>

definition demo_idle :: FormController where
  "demo_idle = demo_controller\<lparr> c_form := \<lparr>
       form_values = [Phone \<mapsto> (Value_init Phone)\<lparr> editScreens := 1 \<rparr>,
         Email \<mapsto> Value_init Email],
       request = [Phone, Email], identitySelfieRequired = False, privacyPolicyUrl = [] \<rparr> \<rparr>"

definition demo_phone_saving :: FormController where
  "demo_phone_saving = demo_idle\<lparr>
     c_form := (c_form demo_idle)\<lparr> form_values := (form_values (c_form demo_idle))
       (Phone \<mapsto> (Value_init Phone)\<lparr>
          v_data := ValueData_init\<lparr> parsedInEdit := [(''value'', ''15551234'')] \<rparr>,
          editScreens := 1, saveRequestId := 1 \<rparr>) \<rparr>,
     sent := [(1, MTPaccount_SaveSecureValue
                    \<lparr> flag_data = False, flag_files = False, flag_selfie = False,
                      flag_plain_data = True, isv_type = MTP_secureValueTypePhone,
                      isv_data = None, isv_files = [],
                      isv_plain_data = Some (MTP_securePlainPhone ''15551234''),
                      isv_selfie = None \<rparr> 2,
               H_sendSaveRequest Phone)] \<rparr>"

text \<open>
  A form in which every required value is filled, its credentials document, and other
  texts for the decrypted fields.
\<close>

definition demo_complete :: FormController where
  "demo_complete = demo_controller\<lparr> c_form := (c_form demo_controller)\<lparr> form_values :=
     (form_values (c_form demo_controller))(Phone \<mapsto> (Value_init Phone)\<lparr>
        v_data := ValueData_init\<lparr> parsed := [(''value'', ''15551234'')] \<rparr>,
        submitHash := [7, 7] \<rparr>) \<rparr> \<rparr>"

definition demo_complete_document :: QJson where
  "demo_complete_document =
     JObject
       [(''secure_data'',
         JObject
           [(''personal_details'',
             JObject
               [(''data'',
                 JObject
                   [(''data_hash'', JString [CHR 0x12, CHR 0xBC]),
                    (''secret'', JString [CHR 0x07])])]),
            (''passport'',
             JObject
               [(''files'',
                 JArray
                   [JObject
                      [(''file_hash'', JString [CHR 0x03, CHR 0x06]),
                       (''secret'', JString [CHR 0x09])]])])]),
        (''payload'', JString ''nonce'')]"

definition demo_other_fields :: "Type \<Rightarrow> ValueMap" where
  "demo_other_fields t =
     (case t of
        PersonalDetails \<Rightarrow> [(''first_name'', ''Eve'')]
      | Phone \<Rightarrow> [(''value'', ''15559999'')]
      | _ \<Rightarrow> [])"

section \<open>Properties\<close>

subsection \<open>The small form\<close>

lemma demo_details_hash: "ed_hash demo_details_data = [18, 188]"
  by (simp add: demo_details_data_def demo_encrypt_def demo_serialize_def demo_hash_def)

subsection \<open>Decrypting a value\<close>

lemma validateValueSecrets_type:
  "validateValueSecrets env secret v = (ok, v') \<Longrightarrow> v_type v' = v_type v"
  by (auto simp: validateValueSecrets_def Let_def
      split: prod.splits if_splits bool.splits option.splits)

text \<open>With the master secret present, decrypting a value always returns.\<close>

lemma decryptValue_returns:
  "secret \<noteq> [] \<Longrightarrow> \<exists>v'. decryptValue env secret v = Inr v'"
  by (auto simp: decryptValue_def split: prod.splits bool.splits)

text \<open>A wrapped secret that does not unwrap resets the value.\<close>

lemma decryptValue_unwrap_failure:
  "secret \<noteq> [] \<Longrightarrow> \<not> fst (validateValueSecrets env secret v) \<Longrightarrow>
     decryptValue env secret v = Inr (Value_init (v_type v))"
  by (auto simp: decryptValue_def resetValue_def dest: validateValueSecrets_type
      split: prod.splits bool.splits)

lemma decryptValue_data_secret_failure:
  "secret \<noteq> [] \<Longrightarrow> original (v_data v) \<noteq> [] \<Longrightarrow>
   DecryptValueSecret env (d_encryptedSecret (v_data v)) secret (d_hash (v_data v)) = [] \<Longrightarrow>
     decryptValue env secret v = Inr (Value_init (v_type v))"
  by (rule decryptValue_unwrap_failure) (simp_all add: validateValueSecrets_def)

text \<open>
  A payload that does not decrypt, after all secrets unwrapped: the value keeps its
  stored bytes and gets the fields that \<^verbatim>\<open>DeserializeData\<close> makes of no bytes; it is
  not reset.
\<close>

lemma decryptValue_payload_failure:
  assumes "secret \<noteq> []" and "original (v_data v) \<noteq> []"
    and "validateValueSecrets env secret v = (True, v1)"
    and "DecryptData env (original (v_data v1)) (d_hash (v_data v1)) (d_secret (v_data v1)) = []"
    and "DeserializeData env [] = []"
  shows "\<exists>v'. decryptValue env secret v = Inr v' \<and> parsed (v_data v') = []
           \<and> original (v_data v') = original (v_data v) \<and> v' \<noteq> resetValue v"
proof -
  have o: "original (v_data v1) = original (v_data v)"
    using assms(3)
    by (auto simp: validateValueSecrets_def Let_def
        split: prod.splits if_splits bool.splits option.splits)
  have "decryptValue env secret v = Inr (v1\<lparr> v_data := (v_data v1)\<lparr> parsed := [] \<rparr> \<rparr>)"
    using assms o by (simp add: decryptValue_def)
  moreover have "v1\<lparr> v_data := (v_data v1)\<lparr> parsed := [] \<rparr> \<rparr> \<noteq> resetValue v"
  proof
    assume "v1\<lparr> v_data := (v_data v1)\<lparr> parsed := [] \<rparr> \<rparr> = resetValue v"
    then have "original (v_data (v1\<lparr> v_data := (v_data v1)\<lparr> parsed := [] \<rparr> \<rparr>))
        = original (v_data (resetValue v))"
      by (rule arg_cong)
    then show False
      using o assms(2) by (simp add: resetValue_def Value_init_def ValueData_init_def)
  qed
  ultimately show ?thesis using o by simp
qed

lemma validateScanSecrets_ok:
  "\<forall>file \<in> set files.
      DecryptValueSecret env (f_encryptedSecret file) secret (f_hash file) \<noteq> [] \<Longrightarrow>
   validateScanSecrets env secret files =
     (True, map (\<lambda>file. file\<lparr> f_secret :=
        DecryptValueSecret env (f_encryptedSecret file) secret (f_hash file) \<rparr>) files)"
  by (induction files) (simp_all add: validateFileSecret_def Let_def)

lemma validateScanSecrets_fails:
  "\<exists>file \<in> set files.
      DecryptValueSecret env (f_encryptedSecret file) secret (f_hash file) = [] \<Longrightarrow>
   \<not> fst (validateScanSecrets env secret files)"
proof (induction files)
  case Nil
  then show ?case by simp
next
  case (Cons a files)
  show ?case
  proof (cases "DecryptValueSecret env (f_encryptedSecret a) secret (f_hash a) = []")
    case True
    then show ?thesis by (simp add: validateFileSecret_def)
  next
    case False
    with Cons.prems have "\<exists>file \<in> set files.
      DecryptValueSecret env (f_encryptedSecret file) secret (f_hash file) = []"
      by auto
    from Cons.IH [OF this] False show ?thesis
      by (cases "validateScanSecrets env secret files") (simp add: validateFileSecret_def)
  qed
qed

lemma validateValueSecrets_ok:
  assumes "original (v_data v) \<noteq> [] \<longrightarrow>
      DecryptValueSecret env (d_encryptedSecret (v_data v)) secret (d_hash (v_data v)) \<noteq> []"
    and "\<forall>file \<in> set (scans v).
      DecryptValueSecret env (f_encryptedSecret file) secret (f_hash file) \<noteq> []"
    and "\<forall>file. selfie v = Some file \<longrightarrow>
      DecryptValueSecret env (f_encryptedSecret file) secret (f_hash file) \<noteq> []"
  shows "validateValueSecrets env secret v =
     (True, v\<lparr> v_data := (v_data v)\<lparr> d_secret :=
                 (if original (v_data v) \<noteq> []
                  then DecryptValueSecret env (d_encryptedSecret (v_data v)) secret
                         (d_hash (v_data v))
                  else d_secret (v_data v)) \<rparr>,
              scans := map (\<lambda>file. file\<lparr> f_secret :=
                 DecryptValueSecret env (f_encryptedSecret file) secret (f_hash file) \<rparr>)
                 (scans v),
              selfie := map_option (\<lambda>file. file\<lparr> f_secret :=
                 DecryptValueSecret env (f_encryptedSecret file) secret (f_hash file) \<rparr>)
                 (selfie v) \<rparr>)"
  using assms validateScanSecrets_ok [of "scans v" env secret]
  by (cases "selfie v")
    (simp_all add: validateValueSecrets_def validateFileSecret_def Let_def)

lemma validateValueSecrets_fails:
  assumes "(original (v_data v) \<noteq> [] \<and>
      DecryptValueSecret env (d_encryptedSecret (v_data v)) secret (d_hash (v_data v)) = [])
    \<or> (\<exists>file \<in> set (scans v).
      DecryptValueSecret env (f_encryptedSecret file) secret (f_hash file) = [])
    \<or> (\<exists>file. selfie v = Some file \<and>
      DecryptValueSecret env (f_encryptedSecret file) secret (f_hash file) = [])"
  shows "\<not> fst (validateValueSecrets env secret v)"
proof (cases "\<exists>file \<in> set (scans v).
      DecryptValueSecret env (f_encryptedSecret file) secret (f_hash file) = []")
  case True
  from validateScanSecrets_fails [OF this]
  show ?thesis
    by (auto simp: validateValueSecrets_def Let_def split: prod.splits bool.splits)
next
  case False
  then have "\<forall>file \<in> set (scans v).
      DecryptValueSecret env (f_encryptedSecret file) secret (f_hash file) \<noteq> []"
    by simp
  from validateScanSecrets_ok [OF this] assms False
  show ?thesis
    by (cases "selfie v")
      (auto simp: validateValueSecrets_def validateFileSecret_def Let_def)
qed

lemma demo_roundtrip:
  "demo_deserialize (demo_serialize [(''first_name'', ''Ann'')]) = [(''first_name'', ''Ann'')]"
  by code_simp

lemma demo_roundtrip_empty: "demo_deserialize (demo_serialize []) = []"
  by code_simp

lemma demo_bill_secrets:
  "DecryptValueSecret demo_env [3, 255, 1, 7] [1] [3, 255] = [7]"
  "DecryptValueSecret demo_env [3, 6, 1, 9] [1] [3, 6] = [9]"
  "DecryptData demo_env [7, 123, 125] [3, 255] [7] = [123, 125]"
  "DeserializeData demo_env [123, 125] = []"
  by (simp_all add: demo_env_def demo_unwrap_def demo_decrypt_def demo_hash_def
      demo_deserialize_def)

text \<open>
  C1, as stated, fails: a stored value whose payload holds no field is kept with an
  empty field map. The utility bill \<^term>\<open>demo_bill\<close> stores a scan and the encryption
  of the empty field map. Under the master secret \<open>[1]\<close> its secrets unwrap and its
  payload decrypts; \<^verbatim>\<open>decryptValue\<close> returns the value with its stored bytes, the
  unwrapped secrets and an empty field map, which is not the reset value.
\<close>

theorem decryptValue_empty_fields_not_reset:
  "original (v_data demo_bill) \<noteq> []
   \<and> decryptValue demo_env [1] demo_bill =
       Inr (demo_bill\<lparr> v_data := (v_data demo_bill)\<lparr> d_secret := [7], parsed := [] \<rparr>,
              scans := [File_init\<lparr> f_id := 7, f_accessHash := 8, f_size := 3,
                 f_hash := [3, 6], f_secret := [9], f_encryptedSecret := [3, 6, 1, 9] \<rparr>] \<rparr>)
   \<and> DecryptData demo_env (original (v_data demo_bill)) (d_hash (v_data demo_bill)) [7]
        = [123, 125]
   \<and> demo_bill\<lparr> v_data := (v_data demo_bill)\<lparr> d_secret := [7], parsed := [] \<rparr>,
              scans := [File_init\<lparr> f_id := 7, f_accessHash := 8, f_size := 3,
                 f_hash := [3, 6], f_secret := [9], f_encryptedSecret := [3, 6, 1, 9] \<rparr>] \<rparr>
        \<noteq> resetValue demo_bill"
  by (simp add: decryptValue_def validateValueSecrets_def validateFileSecret_def
      demo_bill_def Value_init_def ValueData_init_def File_init_def demo_bill_secrets
      resetValue_def)

text \<open>
  C1, amended. With the master secret present and a non-empty \<^verbatim>\<open>data.original\<close>,
  decrypting a value always returns. If the wrapped secret of the data, of a scan or of
  the selfie does not unwrap, the value is reset to the unset value of its type. If
  every wrapped secret unwraps and the payload decrypts, the value keeps its stored
  data, holds the unwrapped secrets, and its field map is replaced as a whole by what
  \<^verbatim>\<open>DeserializeData\<close> makes of the decrypted payload, which may be an empty map.
\<close>

theorem decryptValue_outcomes:
  assumes "secret \<noteq> []" and "original (v_data v) \<noteq> []"
  shows "(\<exists>v'. decryptValue env secret v = Inr v')
    \<and> (DecryptValueSecret env (d_encryptedSecret (v_data v)) secret (d_hash (v_data v)) = []
        \<or> (\<exists>file \<in> set (scans v).
              DecryptValueSecret env (f_encryptedSecret file) secret (f_hash file) = [])
        \<or> (\<exists>file. selfie v = Some file
              \<and> DecryptValueSecret env (f_encryptedSecret file) secret (f_hash file) = [])
       \<longrightarrow> decryptValue env secret v = Inr (Value_init (v_type v)))
    \<and> (DecryptValueSecret env (d_encryptedSecret (v_data v)) secret (d_hash (v_data v)) \<noteq> []
        \<and> (\<forall>file \<in> set (scans v).
              DecryptValueSecret env (f_encryptedSecret file) secret (f_hash file) \<noteq> [])
        \<and> (\<forall>file. selfie v = Some file
              \<longrightarrow> DecryptValueSecret env (f_encryptedSecret file) secret (f_hash file) \<noteq> [])
        \<and> DecryptData env (original (v_data v)) (d_hash (v_data v))
             (DecryptValueSecret env (d_encryptedSecret (v_data v)) secret (d_hash (v_data v)))
             \<noteq> []
       \<longrightarrow> decryptValue env secret v =
             Inr (v\<lparr> v_data := (v_data v)\<lparr>
                     d_secret := DecryptValueSecret env (d_encryptedSecret (v_data v)) secret
                       (d_hash (v_data v)),
                     parsed := DeserializeData env
                       (DecryptData env (original (v_data v)) (d_hash (v_data v))
                          (DecryptValueSecret env (d_encryptedSecret (v_data v)) secret
                             (d_hash (v_data v)))) \<rparr>,
                   scans := map (\<lambda>file. file\<lparr> f_secret :=
                      DecryptValueSecret env (f_encryptedSecret file) secret (f_hash file) \<rparr>)
                      (scans v),
                   selfie := map_option (\<lambda>file. file\<lparr> f_secret :=
                      DecryptValueSecret env (f_encryptedSecret file) secret (f_hash file) \<rparr>)
                      (selfie v) \<rparr>))"
proof (intro conjI impI)
  show "\<exists>v'. decryptValue env secret v = Inr v'"
    using assms(1) by (rule decryptValue_returns)
next
  assume "DecryptValueSecret env (d_encryptedSecret (v_data v)) secret (d_hash (v_data v)) = []
        \<or> (\<exists>file \<in> set (scans v).
              DecryptValueSecret env (f_encryptedSecret file) secret (f_hash file) = [])
        \<or> (\<exists>file. selfie v = Some file
              \<and> DecryptValueSecret env (f_encryptedSecret file) secret (f_hash file) = [])"
  with assms(2) have "\<not> fst (validateValueSecrets env secret v)"
    by (intro validateValueSecrets_fails) blast
  with assms(1) show "decryptValue env secret v = Inr (Value_init (v_type v))"
    by (rule decryptValue_unwrap_failure)
next
  assume a: "DecryptValueSecret env (d_encryptedSecret (v_data v)) secret (d_hash (v_data v)) \<noteq> []
        \<and> (\<forall>file \<in> set (scans v).
              DecryptValueSecret env (f_encryptedSecret file) secret (f_hash file) \<noteq> [])
        \<and> (\<forall>file. selfie v = Some file
              \<longrightarrow> DecryptValueSecret env (f_encryptedSecret file) secret (f_hash file) \<noteq> [])
        \<and> DecryptData env (original (v_data v)) (d_hash (v_data v))
             (DecryptValueSecret env (d_encryptedSecret (v_data v)) secret (d_hash (v_data v)))
             \<noteq> []"
  then have "validateValueSecrets env secret v =
     (True, v\<lparr> v_data := (v_data v)\<lparr> d_secret :=
                 (if original (v_data v) \<noteq> []
                  then DecryptValueSecret env (d_encryptedSecret (v_data v)) secret
                         (d_hash (v_data v))
                  else d_secret (v_data v)) \<rparr>,
              scans := map (\<lambda>file. file\<lparr> f_secret :=
                 DecryptValueSecret env (f_encryptedSecret file) secret (f_hash file) \<rparr>)
                 (scans v),
              selfie := map_option (\<lambda>file. file\<lparr> f_secret :=
                 DecryptValueSecret env (f_encryptedSecret file) secret (f_hash file) \<rparr>)
                 (selfie v) \<rparr>)"
    by (intro validateValueSecrets_ok) simp_all
  with assms show "decryptValue env secret v =
             Inr (v\<lparr> v_data := (v_data v)\<lparr>
                     d_secret := DecryptValueSecret env (d_encryptedSecret (v_data v)) secret
                       (d_hash (v_data v)),
                     parsed := DeserializeData env
                       (DecryptData env (original (v_data v)) (d_hash (v_data v))
                          (DecryptValueSecret env (d_encryptedSecret (v_data v)) secret
                             (d_hash (v_data v)))) \<rparr>,
                   scans := map (\<lambda>file. file\<lparr> f_secret :=
                      DecryptValueSecret env (f_encryptedSecret file) secret (f_hash file) \<rparr>)
                      (scans v),
                   selfie := map_option (\<lambda>file. file\<lparr> f_secret :=
                      DecryptValueSecret env (f_encryptedSecret file) secret (f_hash file) \<rparr>)
                      (selfie v) \<rparr>)"
    by (simp add: decryptValue_def)
qed

lemma demo_details_bytes:
  "ed_bytes demo_details_data = 7 # demo_serialize [(''first_name'', ''Ann'')]"
  "ed_hash demo_details_data = demo_hash (7 # demo_serialize [(''first_name'', ''Ann'')])"
  by (simp_all add: demo_details_data_def demo_encrypt_def)

theorem decryptValue_outcomes_witness:
  "[2] \<noteq> ([] :: bytes) \<and> [1] \<noteq> ([] :: bytes)
   \<and> original (v_data demo_stored_details) \<noteq> []
   \<and> DecryptValueSecret demo_env (d_encryptedSecret (v_data demo_stored_details)) [2]
        (d_hash (v_data demo_stored_details)) = []
   \<and> decryptValue demo_env [2] demo_stored_details = Inr (Value_init PersonalDetails)
   \<and> DecryptValueSecret demo_env (d_encryptedSecret (v_data demo_stored_details)) [1]
        (d_hash (v_data demo_stored_details)) = [7]
   \<and> DecryptData demo_env (original (v_data demo_stored_details))
        (d_hash (v_data demo_stored_details)) [7] = demo_serialize [(''first_name'', ''Ann'')]
   \<and> decryptValue demo_env [1] demo_stored_details =
       Inr (demo_stored_details\<lparr> v_data := (v_data demo_stored_details)\<lparr>
              d_secret := [7], parsed := [(''first_name'', ''Ann'')] \<rparr> \<rparr>)"
proof -
  have o: "original (v_data demo_stored_details) \<noteq> []"
    by (simp add: demo_stored_details_def demo_details_bytes)
  have t: "v_type demo_stored_details = PersonalDetails" "scans demo_stored_details = []"
    "selfie demo_stored_details = None"
    by (simp_all add: demo_stored_details_def Value_init_def)
  have u2: "DecryptValueSecret demo_env (d_encryptedSecret (v_data demo_stored_details)) [2]
        (d_hash (v_data demo_stored_details)) = []"
    by (simp add: demo_stored_details_def demo_env_def demo_unwrap_def demo_details_hash)
  have u1: "DecryptValueSecret demo_env (d_encryptedSecret (v_data demo_stored_details)) [1]
        (d_hash (v_data demo_stored_details)) = [7]"
    by (simp add: demo_stored_details_def demo_env_def demo_unwrap_def demo_details_hash)
  have d: "DecryptData demo_env (original (v_data demo_stored_details))
        (d_hash (v_data demo_stored_details)) [7] = demo_serialize [(''first_name'', ''Ann'')]"
    by (simp add: demo_stored_details_def demo_env_def demo_decrypt_def demo_details_bytes)
  have n: "demo_serialize [(''first_name'', ''Ann'')] \<noteq> []"
    by (simp add: demo_serialize_def)
  have r: "DeserializeData demo_env (demo_serialize [(''first_name'', ''Ann'')])
      = [(''first_name'', ''Ann'')]"
    using demo_roundtrip by (simp add: demo_env_def)
  have two: "[2] \<noteq> ([] :: bytes)" and one: "[1] \<noteq> ([] :: bytes)"
    by simp_all
  from decryptValue_outcomes [OF two o, of demo_env] u2 t
  have a: "decryptValue demo_env [2] demo_stored_details = Inr (Value_init PersonalDetails)"
    by simp
  from decryptValue_outcomes [OF one o, of demo_env] u1 d n r t
  have b: "decryptValue demo_env [1] demo_stored_details =
       Inr (demo_stored_details\<lparr> v_data := (v_data demo_stored_details)\<lparr>
              d_secret := [7], parsed := [(''first_name'', ''Ann'')] \<rparr> \<rparr>)"
    by simp
  from two one o u2 a u1 d b show ?thesis by simp
qed

subsection \<open>Recovering the master secret\<close>

lemma resetStoredValues_eq:
  "resetStoredValues ts s =
     s\<lparr> c_form := (c_form s)\<lparr> form_values :=
          (\<lambda>t. if t \<in> set ts
                then map_option (\<lambda>v. if original (v_data v) \<noteq> [] then Value_init (v_type v) else v)
                       (form_values (c_form s) t)
                else form_values (c_form s) t) \<rparr> \<rparr>"
proof (induction ts arbitrary: s)
  case Nil
  show ?case by simp
next
  case (Cons a ts)
  show ?case
  proof (cases "form_values (c_form s) a")
    case None
    then show ?thesis
      by (auto simp: Cons.IH
          intro!: arg_cong [where f = "\<lambda>f. s\<lparr> c_form := (c_form s)\<lparr> form_values := f \<rparr> \<rparr>"])
  next
    case (Some v)
    then show ?thesis
      by (auto simp: Cons.IH set_value_def resetValue_def Value_init_def ValueData_init_def
          fun_eq_iff
          intro!: arg_cong [where f = "\<lambda>f. s\<lparr> c_form := (c_form s)\<lparr> form_values := f \<rparr> \<rparr>"])
  qed
qed

lemma all_types_complete: "t \<in> set all_types"
  by (cases t) (simp_all add: all_types_def)

lemma generateSecret_in_flight: "saveSecretRequestId (generateSecret env password s) \<noteq> 0"
  by (simp add: generateSecret_def send_request_def Let_def)

lemma generateSecret_keeps:
  "c_secret (generateSecret env password s) = c_secret s"
  "c_secretId (generateSecret env password s) = c_secretId s"
  "c_form (generateSecret env password s) = c_form s"
  "events (generateSecret env password s) = events s"
  by (simp_all add: generateSecret_def send_request_def Let_def)

lemma generateSecret_sends:
  "saveSecretRequestId s = 0 \<Longrightarrow>
   sent (generateSecret env password s) = sent s @ [(int (length (sent s)) + 1,
     MTPaccount_UpdatePasswordSettings
       (Sha256 env (salt (c_password s) @ password @ salt (c_password s)))
       (newSecureSalt (c_password s) @ set_random env (rng s + 1) 8)
       (EncryptSecureSecret env (newSecureSalt (c_password s) @ set_random env (rng s + 1) 8)
          (GenerateSecretBytes env (rng s)) password)
       (CountSecureSecretHash env (GenerateSecretBytes env (rng s))),
     H_generateSecret (GenerateSecretBytes env (rng s))
       (CountSecureSecretHash env (GenerateSecretBytes env (rng s))))]"
  by (simp add: generateSecret_def send_request_def Let_def)

text \<open>
  C3. When a recovery salt and a wrapped master secret are both supplied and the
  unwrapping fails, \<^verbatim>\<open>validateSecureSecret\<close> returns with the master secret empty and
  its identifier zero; every value with a non-empty \<^verbatim>\<open>data.original\<close> is the unset
  value of its type and every other value is as before; the generation of a fresh
  secret is in flight, its request being sent by this call unless one was already
  outstanding; the secret-ready event is fired.
\<close>

theorem validateSecureSecret_unwrap_failure:
  assumes "salt' \<noteq> []" and "encryptedSecret \<noteq> []"
    and "DecryptSecureSecret env salt' encryptedSecret password = []"
  shows "\<exists>s'. validateSecureSecret env salt' encryptedSecret password s = Inr s'
     \<and> c_secret s' = [] \<and> c_secretId s' = 0
     \<and> form_values (c_form s') =
         (\<lambda>t. map_option (\<lambda>v. if original (v_data v) \<noteq> [] then Value_init (v_type v) else v)
                (form_values (c_form s) t))
     \<and> saveSecretRequestId s' \<noteq> 0
     \<and> (saveSecretRequestId s = 0 \<longrightarrow>
          sent s' = sent s @ [(int (length (sent s)) + 1,
            MTPaccount_UpdatePasswordSettings
              (Sha256 env (salt (c_password s) @ password @ salt (c_password s)))
              (newSecureSalt (c_password s) @ set_random env (rng s + 1) 8)
              (EncryptSecureSecret env
                 (newSecureSalt (c_password s) @ set_random env (rng s + 1) 8)
                 (GenerateSecretBytes env (rng s)) password)
              (CountSecureSecretHash env (GenerateSecretBytes env (rng s))),
            H_generateSecret (GenerateSecretBytes env (rng s))
              (CountSecureSecretHash env (GenerateSecretBytes env (rng s))))])
     \<and> events s' = events s @ [E_secretReady]"
proof -
  define s2 where "s2 = resetStoredValues all_types (s\<lparr> c_secret := [], c_secretId := 0 \<rparr>)"
  have s2: "s2 = s\<lparr> c_secret := [], c_secretId := 0,
      c_form := (c_form s)\<lparr> form_values :=
        (\<lambda>t. map_option (\<lambda>v. if original (v_data v) \<noteq> [] then Value_init (v_type v) else v)
               (form_values (c_form s) t)) \<rparr> \<rparr>"
    unfolding s2_def by (simp add: resetStoredValues_eq all_types_complete)
  have run: "validateSecureSecret env salt' encryptedSecret password s =
      Inr (fire E_secretReady (generateSecret env password s2))"
    using assms by (simp add: validateSecureSecret_def s2_def resetStoredValues_eq Let_def)
  have a: "saveSecretRequestId s2 = saveSecretRequestId s" "sent s2 = sent s"
      "c_password s2 = c_password s" "rng s2 = rng s" "events s2 = events s"
    by (simp_all add: s2)
  show ?thesis
    unfolding run
    apply (intro exI [of _ "fire E_secretReady (generateSecret env password s2)"] conjI impI)
          apply simp
         apply (simp add: fire_def generateSecret_keeps s2)
        apply (simp add: fire_def generateSecret_keeps s2)
       apply (simp add: fire_def generateSecret_keeps s2)
      apply (simp add: fire_def generateSecret_in_flight)
     apply (simp add: fire_def generateSecret_sends a)
    apply (simp add: fire_def generateSecret_keeps a)
    done
qed

theorem validateSecureSecret_unwrap_failure_witness:
  "[9] \<noteq> ([] :: bytes) \<and> [8] \<noteq> ([] :: bytes)
   \<and> DecryptSecureSecret demo_env [9] [8] [6] = []
   \<and> original (v_data demo_details) \<noteq> []
   \<and> saveSecretRequestId demo_controller = 0
   \<and> (\<exists>s'. validateSecureSecret demo_env [9] [8] [6] demo_controller = Inr s'
        \<and> c_secret s' = [] \<and> c_secretId s' = 0
        \<and> form_values (c_form s') PersonalDetails = Some (Value_init PersonalDetails)
        \<and> form_values (c_form s') Phone = Some demo_phone
        \<and> saveSecretRequestId s' \<noteq> 0
        \<and> sent s' = [(1, MTPaccount_UpdatePasswordSettings [5, 12] [4, 1, 1, 1, 1, 1, 1, 1, 1]
                           [4, 1, 1, 1, 1, 1, 1, 1, 1, 6, 1, 2, 3] 4,
                       H_generateSecret [1, 2, 3] 4)]
        \<and> events s' = [E_secretReady])"
proof -
  have d: "DecryptSecureSecret demo_env [9] [8] [6] = []"
    by (simp add: demo_env_def demo_unwrap_def)
  have o: "original (v_data demo_details) \<noteq> []"
    by (simp add: demo_details_def demo_details_data_def demo_encrypt_def Value_init_def)
  have p: "original (v_data demo_phone) = []"
    by (simp add: demo_phone_def ValueData_init_def Value_init_def)
  have t: "v_type demo_details = PersonalDetails"
    by (simp add: demo_details_def Value_init_def)
  have q: "saveSecretRequestId demo_controller = 0"
    "form_values (c_form demo_controller) PersonalDetails = Some demo_details"
    "form_values (c_form demo_controller) Phone = Some demo_phone"
    "sent demo_controller = []" "events demo_controller = []" "rng demo_controller = 0"
    "salt (c_password demo_controller) = [1, 2]" "newSecureSalt (c_password demo_controller) = [4]"
    by (simp_all add: demo_controller_def)
  have g: "GenerateSecretBytes demo_env 0 = [1, 2, 3]"
    "set_random demo_env (Suc 0) 8 = [1, 1, 1, 1, 1, 1, 1, 1]"
    "Sha256 demo_env [1, 2, 6, 1, 2] = [5, 12]"
    "CountSecureSecretHash demo_env [1, 2, 3] = 4"
    "EncryptSecureSecret demo_env [4, 1, 1, 1, 1, 1, 1, 1, 1] [1, 2, 3] [6]
       = [4, 1, 1, 1, 1, 1, 1, 1, 1, 6, 1, 2, 3]"
    by (simp_all add: demo_env_def demo_hash_def eval_nat_numeral)
  from validateSecureSecret_unwrap_failure [of "[9]" "[8]" demo_env "[6]" demo_controller] d
  obtain s' where s': "validateSecureSecret demo_env [9] [8] [6] demo_controller = Inr s'"
     "c_secret s' = []" "c_secretId s' = 0"
     "form_values (c_form s') =
         (\<lambda>t. map_option (\<lambda>v. if original (v_data v) \<noteq> [] then Value_init (v_type v) else v)
                (form_values (c_form demo_controller) t))"
     "saveSecretRequestId s' \<noteq> 0"
     "sent s' = sent demo_controller @ [(int (length (sent demo_controller)) + 1,
            MTPaccount_UpdatePasswordSettings
              (Sha256 demo_env (salt (c_password demo_controller) @ [6] @ salt (c_password demo_controller)))
              (newSecureSalt (c_password demo_controller) @ set_random demo_env (rng demo_controller + 1) 8)
              (EncryptSecureSecret demo_env
                 (newSecureSalt (c_password demo_controller) @ set_random demo_env (rng demo_controller + 1) 8)
                 (GenerateSecretBytes demo_env (rng demo_controller)) [6])
              (CountSecureSecretHash demo_env (GenerateSecretBytes demo_env (rng demo_controller))),
            H_generateSecret (GenerateSecretBytes demo_env (rng demo_controller))
              (CountSecureSecretHash demo_env (GenerateSecretBytes demo_env (rng demo_controller))))]"
     "events s' = events demo_controller @ [E_secretReady]"
    using q(1) by auto
  show ?thesis
    apply (intro conjI exI [of _ s'])
                apply simp
               apply simp
              apply (rule d)
             apply (rule o)
            apply (rule q(1))
           apply (rule s'(1))
          apply (rule s'(2))
         apply (rule s'(3))
        apply (simp add: s'(4) q o t)
       apply (simp add: s'(4) q p)
      apply (rule s'(5))
     apply (simp add: s'(6) q g)
    apply (simp add: s'(7) q)
    done
qed

subsection \<open>Password entry\<close>

text \<open>
  C10. With a password salt known (the precondition of \<^verbatim>\<open>submitPassword\<close>) and no
  password check outstanding, an empty password fires the empty message on the
  password-error stream and the password-check request is sent all the same, computed
  over the empty password.
\<close>

theorem submitPassword_empty_password:
  assumes "salt (c_password s) \<noteq> []" and "passwordCheckRequestId s = 0"
  shows "submitPassword env [] s =
    Inr (s\<lparr> events := events s @ [E_passwordError []],
           sent := sent s @ [(int (length (sent s)) + 1,
             MTPaccount_GetPasswordSettings
               (Sha256 env (salt (c_password s) @ [] @ salt (c_password s))),
             H_submitPassword [])],
           passwordCheckRequestId := int (length (sent s)) + 1 \<rparr>)"
  using assms
  by (simp add: submitPassword_def fire_def send_request_def passwordHashForAuth_def
      toUtf8_def Let_def)

theorem submitPassword_empty_password_witness:
  "salt (c_password demo_controller) \<noteq> [] \<and> passwordCheckRequestId demo_controller = 0 \<and>
   submitPassword demo_env [] demo_controller =
     Inr (demo_controller\<lparr> events := [E_passwordError []],
       sent := [(1, MTPaccount_GetPasswordSettings [4, 6], H_submitPassword [])],
       passwordCheckRequestId := 1 \<rparr>)"
  using submitPassword_empty_password [of demo_controller demo_env]
  by (simp add: demo_controller_def demo_env_def demo_hash_def)

subsection \<open>Verification\<close>

text \<open>
  C4. For a value of the form with no verification request outstanding and a code sent
  (\<^verbatim>\<open>codeLength\<close> is not zero, which \<^verbatim>\<open>verify\<close> asserts): if the trimmed code is empty,
  or \<^verbatim>\<open>codeLength\<close> is positive and differs from the length of the trimmed code, then
  \<^verbatim>\<open>verify\<close> stores the "wrong code" message as the verification error, fires the
  verification update, and sends no request.
\<close>

theorem verify_wrong_code:
  assumes "findValue s t = Inr value"
    and "requestId (verification value) = 0"
    and "codeLength (verification value) \<noteq> 0"
    and "trimmed code = [] \<or>
         (0 < codeLength (verification value)
          \<and> codeLength (verification value) \<noteq> int (length (trimmed code)))"
  shows "verify env t code s =
    Inr (s\<lparr> c_form := (c_form s)\<lparr> form_values := (form_values (c_form s))
              (t \<mapsto> value\<lparr> verification := (verification value)
                 \<lparr> ver_error := lang env lng_signin_wrong_code \<rparr> \<rparr>) \<rparr>,
            events := events s @ [E_verificationUpdate t, E_verificationUpdate t] \<rparr>)"
proof -
  from assms(1) have v: "form_values (c_form s) t = Some value"
    by (auto simp: findValue_def split: option.splits if_splits)
  have e1: "verificationError t [] s =
     Inr (fire (E_verificationUpdate t)
       (set_value t (value\<lparr> verification := (verification value)\<lparr> ver_error := [] \<rparr> \<rparr>) s))"
    by (simp add: verificationError_def v)
  show ?thesis
    using assms v
    by (auto simp: verify_def e1 verificationError_def fire_def set_value_def Let_def)
qed

theorem verify_wrong_code_witness:
  "findValue demo_controller Phone = Inr demo_phone
   \<and> requestId (verification demo_phone) = 0
   \<and> codeLength (verification demo_phone) \<noteq> 0
   \<and> trimmed '' 12 '' = ''12''
   \<and> 0 < codeLength (verification demo_phone)
   \<and> codeLength (verification demo_phone) \<noteq> int (length (trimmed '' 12 ''))
   \<and> verify demo_env Phone '' 12 '' demo_controller =
       Inr (demo_controller\<lparr> c_form := (c_form demo_controller)\<lparr> form_values :=
              (form_values (c_form demo_controller))
                (Phone \<mapsto> demo_phone\<lparr> verification := (verification demo_phone)
                   \<lparr> ver_error := ''You have entered an invalid code'' \<rparr> \<rparr>) \<rparr>,
            events := [E_verificationUpdate Phone, E_verificationUpdate Phone] \<rparr>)"
proof -
  have f: "findValue demo_controller Phone = Inr demo_phone"
    by (simp add: findValue_def demo_controller_def demo_phone_def Value_init_def)
  have r: "requestId (verification demo_phone) = 0"
    and c: "codeLength (verification demo_phone) \<noteq> 0"
    and p: "0 < codeLength (verification demo_phone)"
    by (simp_all add: demo_phone_def Value_init_def Verification_init_def)
  have t: "trimmed '' 12 '' = ''12''"
    by (simp add: trimmed_def isSpace_def)
  have n: "codeLength (verification demo_phone) \<noteq> int (length (trimmed '' 12 ''))"
    by (simp add: t demo_phone_def Value_init_def Verification_init_def)
  have e: "events demo_controller = []"
    "lang demo_env lng_signin_wrong_code = ''You have entered an invalid code''"
    by (simp_all add: demo_controller_def demo_env_def demo_lang_def)
  from verify_wrong_code [OF f r c, of "'' 12 ''" demo_env] p n f r c t e
  show ?thesis by simp
qed

subsection \<open>The cap on scans\<close>

text \<open>
  C5. When the staged scans of a value that are not deleted number 20 or more,
  \<^verbatim>\<open>uploadScan\<close> only shows the notice: the controller state, and with it the list of
  staged scans, is unchanged. Restoring a deleted scan of that value likewise only
  shows the notice and leaves the scan deleted.
\<close>

theorem scans_limit_rejects:
  assumes "form_values (c_form s) t = Some value"
    and "kDocumentScansLimit \<le> length (filter (\<lambda>scan. \<not> deleted scan) (scansInEdit value))"
  shows "uploadScan env t content s =
           Inr (s\<lparr> events := events s @ [E_showToast (lang env lng_passport_scans_limit_reached)] \<rparr>)
         \<and> (\<forall>i. 0 \<le> i \<and> i < int (length (scansInEdit value)) \<and> v_type value = t
                \<and> deleted (scansInEdit value ! nat i) \<longrightarrow>
              restoreScan env t i s =
                Inr (s\<lparr> events := events s
                       @ [E_showToast (lang env lng_passport_scans_limit_reached)] \<rparr>))"
  using assms
  by (auto simp: uploadScan_def restoreScan_def scanDeleteRestore_def canAddScan_def fire_def
      findValue_def Let_def)

theorem scans_limit_rejects_witness:
  "form_values (c_form demo_controller) Passport = Some demo_passport
   \<and> kDocumentScansLimit \<le> length (filter (\<lambda>scan. \<not> deleted scan) (scansInEdit demo_passport))
   \<and> uploadScan demo_env Passport [1, 2, 3] demo_controller =
       Inr (demo_controller\<lparr> events := [E_showToast ''Scans limit reached''] \<rparr>)
   \<and> restoreScan demo_env Passport 0 demo_controller =
       Inr (demo_controller\<lparr> events := [E_showToast ''Scans limit reached''] \<rparr>)"
proof -
  have v: "form_values (c_form demo_controller) Passport = Some demo_passport"
    by (simp add: demo_controller_def)
  have n: "kDocumentScansLimit
      \<le> length (filter (\<lambda>scan. \<not> deleted scan) (scansInEdit demo_passport))"
    by (simp add: demo_passport_def demo_scan_def EditFile_init_def Value_init_def
        kDocumentScansLimit_def)
  have r: "0 \<le> (0::int) \<and> (0::int) < int (length (scansInEdit demo_passport))
     \<and> v_type demo_passport = Passport \<and> deleted (scansInEdit demo_passport ! nat 0)"
    by (simp add: demo_passport_def Value_init_def)
  have e: "events demo_controller = []"
    "lang demo_env lng_passport_scans_limit_reached = ''Scans limit reached''"
    by (simp_all add: demo_controller_def demo_env_def demo_lang_def)
  from scans_limit_rejects [OF v n, of demo_env "[1, 2, 3]"] r v n e
  show ?thesis by simp
qed

subsection \<open>Saving an edit without a change\<close>

lemma map_of_erase:
  "map_of (filter (\<lambda>(k, v). k \<noteq> key) xs) k' = (if k' = key then None else map_of xs k')"
  by (induction xs) auto

lemma fieldsChanged_loop_eq:
  "distinct (map fst data') \<Longrightarrow>
   fieldsChanged_loop data' existing =
     (if \<forall>(k, v) \<in> set data'.
           (case map_of existing k of Some old \<Rightarrow> old = v | None \<Rightarrow> v = [])
      then Some (filter (\<lambda>(k, v). k \<notin> fst ` set data') existing)
      else None)"
proof (induction data' arbitrary: existing)
  case Nil
  show ?case by simp
next
  case (Cons kv rest)
  obtain key tx where kv: "kv = (key, tx)" by (cases kv)
  from Cons.prems kv have d: "distinct (map fst rest)" and n: "key \<notin> fst ` set rest"
    by simp_all
  show ?case
  proof (cases "map_of existing key")
    case None
    then have "key \<notin> fst ` set existing"
      by (simp add: map_of_eq_None_iff)
    then have "filter (\<lambda>(k, v). k \<notin> fst ` set rest) existing
        = filter (\<lambda>(k, v). k \<notin> fst ` set ((key, tx) # rest)) existing"
      by (intro filter_cong) (auto simp: rev_image_eqI)
    with None kv Cons.IH [OF d, of existing] show ?thesis
      by (auto split: option.splits)
  next
    case (Some old)
    let ?e = "filter (\<lambda>(k, v). k \<noteq> key) existing"
    have f: "filter (\<lambda>(k, v). k \<notin> fst ` set rest) ?e
        = filter (\<lambda>(k, v). k \<notin> fst ` set ((key, tx) # rest)) existing"
      by (induction existing) auto
    have c: "(\<forall>(k, v) \<in> set rest.
           (case map_of ?e k of Some old \<Rightarrow> old = v | None \<Rightarrow> v = []))
        = (\<forall>(k, v) \<in> set rest.
           (case map_of existing k of Some old \<Rightarrow> old = v | None \<Rightarrow> v = []))"
      using n by (intro ball_cong refl) (auto simp: map_of_erase image_iff)
    from Some kv Cons.IH [OF d, of ?e] f c show ?thesis
      by (simp split: option.splits)
  qed
qed

text \<open>
  What \<^verbatim>\<open>editValueChanged\<close> decides, for new fields in which every key occurs once (as
  in a \<^verbatim>\<open>std::map\<close>): nothing changed exactly when no staged scan and no staged selfie
  is uploaded anew or deleted, every new field equals the committed field of its key,
  or is empty when its key has no committed field, and every committed key is among
  the new keys.
\<close>

lemma editValueChanged_iff:
  assumes "distinct (map fst data')"
  shows "(\<not> editValueChanged value data') =
     ((\<forall>scan \<in> set (scansInEdit value). \<not> editFileChanged scan)
      \<and> (\<forall>file. selfieInEdit value = Some file \<longrightarrow> \<not> editFileChanged file)
      \<and> (\<forall>(k, v) \<in> set data'.
            (case map_of (parsed (v_data value)) k of Some old \<Rightarrow> old = v | None \<Rightarrow> v = []))
      \<and> (\<forall>(k, v) \<in> set (parsed (v_data value)). k \<in> fst ` set data'))"
proof -
  have e: "(filter (\<lambda>(k, v). k \<notin> fst ` set data') (parsed (v_data value)) = [])
      = (\<forall>(k, v) \<in> set (parsed (v_data value)). k \<in> fst ` set data')"
    by (auto simp: filter_empty_conv)
  show ?thesis
    unfolding editValueChanged_def fieldsChanged_loop_eq [OF assms]
    by (cases "selfieInEdit value") (auto simp: list_ex_iff e)
qed

text \<open>
  C6. For a value of the form that is not saving, with no submission in flight, and new
  fields for which \<^verbatim>\<open>editValueChanged\<close> finds no change: \<^verbatim>\<open>saveValueEdit\<close> sends no
  request and fires nothing; it posts one closure to the main loop. That closure
  empties the staged scans, the staged selfie, the in-edit hash, secret and fields and
  the error of the value, sets the save request identifier to zero and fires the
  save-finished event; it sends no request either.
\<close>

theorem saveValueEdit_without_change:
  assumes "findValue s t = Inr value"
    and "\<not> savingValue value"
    and "submitRequestId s = 0"
    and "\<not> editValueChanged value data'"
  shows "\<exists>s1. saveValueEdit env t data' s = Inr s1
           \<and> sent s1 = sent s
           \<and> events s1 = events s
           \<and> mainTasks s1 = mainTasks s @ [T_saveValueEdit_unchanged t]
           \<and> saveValueEdit_unchanged t s1 =
               Inr (s1\<lparr> c_form := (c_form s)\<lparr> form_values := (form_values (c_form s))
                          (t \<mapsto> value\<lparr> scansInEdit := [], selfieInEdit := None,
                             v_data := (v_data value)\<lparr> encryptedSecretInEdit := [],
                               hashInEdit := [], parsedInEdit := [] \<rparr>,
                             v_error := [], saveRequestId := 0 \<rparr>) \<rparr>,
                        events := events s @ [E_valueSaveFinished t] \<rparr>)"
proof -
  from assms(1) have v: "form_values (c_form s) t = Some value"
    by (auto simp: findValue_def split: option.splits if_splits)
  show ?thesis
    using assms v
    by (simp add: saveValueEdit_def saveValueEdit_unchanged_def set_value_def fire_def)
qed

theorem saveValueEdit_without_change_witness:
  "findValue demo_controller PersonalDetails = Inr demo_details
   \<and> \<not> savingValue demo_details
   \<and> submitRequestId demo_controller = 0
   \<and> \<not> editValueChanged demo_details [(''first_name'', ''Ann''), (''middle_name'', [])]
   \<and> (\<exists>s1. saveValueEdit demo_env PersonalDetails
              [(''first_name'', ''Ann''), (''middle_name'', [])] demo_controller = Inr s1
          \<and> sent s1 = [] \<and> events s1 = []
          \<and> mainTasks s1 = [T_saveValueEdit_unchanged PersonalDetails]
          \<and> saveValueEdit_unchanged PersonalDetails s1 =
              Inr (s1\<lparr> c_form := (c_form demo_controller)\<lparr> form_values :=
                     (form_values (c_form demo_controller))
                       (PersonalDetails \<mapsto> demo_details\<lparr> scansInEdit := [], selfieInEdit := None,
                          v_data := (v_data demo_details)\<lparr> encryptedSecretInEdit := [],
                            hashInEdit := [], parsedInEdit := [] \<rparr>,
                          v_error := [], saveRequestId := 0 \<rparr>) \<rparr>,
                     events := [E_valueSaveFinished PersonalDetails] \<rparr>))"
proof -
  have f: "findValue demo_controller PersonalDetails = Inr demo_details"
    by (simp add: findValue_def demo_controller_def demo_details_def Value_init_def)
  have n: "\<not> savingValue demo_details"
    by (simp add: savingValue_def demo_details_def Value_init_def Verification_init_def)
  have q: "submitRequestId demo_controller = 0"
    by (simp add: demo_controller_def)
  have u: "\<not> editValueChanged demo_details [(''first_name'', ''Ann''), (''middle_name'', [])]"
    by (simp add: editValueChanged_def demo_details_def Value_init_def)
  have e: "events demo_controller = []" "sent demo_controller = []" "mainTasks demo_controller = []"
    by (simp_all add: demo_controller_def)
  from saveValueEdit_without_change [OF f n q u, of demo_env] f n q u e
  show ?thesis by simp
qed

subsection \<open>Sending a save request\<close>

lemma sendSaveRequest_cases:
  "sendSaveRequest t d s =
     (case form_values (c_form s) t of
        None \<Rightarrow> Inl AssertFailed
      | Some value \<Rightarrow>
          if saveRequestId value \<noteq> 0 then Inl ExpectsFailed
          else Inr (s\<lparr> sent := sent s @ [(int (length (sent s)) + 1,
                         MTPaccount_SaveSecureValue d (c_secretId s), H_sendSaveRequest t)],
                       c_form := (c_form s)\<lparr> form_values := (form_values (c_form s))
                         (t \<mapsto> value\<lparr> saveRequestId := int (length (sent s)) + 1 \<rparr>) \<rparr> \<rparr>))"
  by (simp add: sendSaveRequest_def send_request_def set_value_def Let_def split: option.splits)

lemma encryptedValueType_ok:
  "isEncryptedValue t \<Longrightarrow> \<exists>w. encryptedValueType t = Inr w"
  by (cases t) (simp_all add: encryptedValueType_def isEncryptedValue_def)

lemma findValue_Inr:
  "findValue s t = Inr x \<Longrightarrow> form_values (c_form s) t = Some x \<and> v_type x = t"
  by (auto simp: findValue_def split: option.splits if_splits)

text \<open>
  What a save that reaches the transport leaves behind: the value carries the
  identifier of the request, and its verification state, its count of edit screens and
  the fields being saved are those it had.
\<close>

lemma saveEncryptedValue_sent:
  assumes "saveEncryptedValue env t s = Inr s1" and "sent s1 \<noteq> sent s"
    and "form_values (c_form s) t = Some value"
  shows "\<exists>value1. form_values (c_form s1) t = Some value1
           \<and> saveRequestId value1 = int (length (sent s)) + 1
           \<and> verification value1 = verification value
           \<and> v_type value1 = v_type value
           \<and> editScreens value1 = editScreens value
           \<and> parsedInEdit (v_data value1) = parsedInEdit (v_data value)
           \<and> length (sent s1) = length (sent s) + 1
           \<and> events s1 = events s"
  using assms
  by (auto simp: saveEncryptedValue_def sendSaveRequest_cases set_value_def Let_def
      split: option.splits if_splits sum.splits)

lemma savePlainTextValue_sent:
  assumes "savePlainTextValue t s = Inr s1"
    and "form_values (c_form s) t = Some value"
  shows "map_of (parsedInEdit (v_data value)) ''value'' \<noteq> None
           \<and> form_values (c_form s1) t
               = Some (value\<lparr> saveRequestId := int (length (sent s)) + 1 \<rparr>)
           \<and> length (sent s1) = length (sent s) + 1
           \<and> events s1 = events s"
  using assms
  by (cases "v_type value")
    (auto simp: savePlainTextValue_def getPlainTextFromValue_def sendSaveRequest_cases
      isEncryptedValue_def split: option.splits if_splits)

lemma saveValueEdit_sent:
  assumes "form_values (c_form s) t = Some value"
    and "\<not> savingValue value" and "submitRequestId s = 0"
    and "saveValueEdit env t data' s = Inr s1" and "sent s1 \<noteq> sent s"
  shows "\<exists>value1. form_values (c_form s1) t = Some value1
           \<and> saveRequestId value1 = int (length (sent s)) + 1
           \<and> verification value1 = verification value
           \<and> v_type value1 = v_type value
           \<and> editScreens value1 = editScreens value
           \<and> parsedInEdit (v_data value1) = data'
           \<and> (\<not> isEncryptedValue (v_type value) \<longrightarrow> map_of data' ''value'' \<noteq> None)
           \<and> length (sent s1) = length (sent s) + 1
           \<and> events s1 = events s"
proof -
  let ?v = "value\<lparr> v_data := (v_data value)\<lparr> parsedInEdit := data' \<rparr> \<rparr>"
  let ?s = "set_value t ?v s"
  have f: "form_values (c_form ?s) t = Some ?v" "sent ?s = sent s" "events ?s = events s"
    by (simp_all add: set_value_def)
  from assms have fv: "findValue s t = Inr value"
    by (auto simp: saveValueEdit_def split: sum.splits dest: findValue_Inr)
  from assms fv have ch: "editValueChanged value data'"
    by (auto simp: saveValueEdit_def set_value_def split: if_splits)
  show ?thesis
  proof (cases "isEncryptedValue (v_type value)")
    case True
    with assms fv ch have "saveEncryptedValue env t ?s = Inr s1"
      by (simp add: saveValueEdit_def)
    from saveEncryptedValue_sent [OF this _ f(1)] assms(5) f True show ?thesis
      by auto
  next
    case False
    with assms fv ch have "savePlainTextValue t ?s = Inr s1"
      by (simp add: saveValueEdit_def)
    from savePlainTextValue_sent [OF this f(1)] f False show ?thesis
      by auto
  qed
qed

subsection \<open>Saves and the submission in flight\<close>

lemma demo_saving_prepared:
  "prepareFinalData demo_env demo_saving =
     Inr (\<lparr> fd_hashes = [(MTP_secureValueTypePersonalDetails, [5, 5])],
            fd_credentials = toJson demo_env demo_document,
            fd_document = Some demo_document \<rparr>, demo_saving)"
  by (simp add: prepareFinalData_def demo_saving_def demo_controller_def demo_env_def
      demo_scopes_def demo_documents_def demo_ready_def demo_details_def Value_init_def
      addValue_def addValueToJSON_def GetJSONFromMap_def demo_document_def demo_details_hash
      char_of_def bit_0)

lemma demo_idle_save_phone:
  "saveValueEdit demo_env Phone [(''value'', ''15551234'')] demo_idle = Inr demo_phone_saving"
  by (simp add: saveValueEdit_def findValue_def editValueChanged_def savePlainTextValue_def
      getPlainTextFromValue_def sendSaveRequest_cases set_value_def savingValue_def
      isEncryptedValue_def demo_phone_saving_def demo_idle_def demo_controller_def
      Value_init_def ValueData_init_def Verification_init_def)

text \<open>
  C8, as stated, fails, in two ways. A save in flight does not hold the submission
  back: in the form \<^term>\<open>demo_saving\<close> the personal details have a save request
  outstanding and no submission is in flight; \<^verbatim>\<open>submit\<close> prepares the final data,
  sends the request that accepts the authorization and records its identifier. And a
  failed save does not always surface its error and reopen the value: in the form
  \<^term>\<open>demo_phone_saving\<close> the save of the phone number is in flight and nothing was
  shown; when it fails with \<^verbatim>\<open>PHONE_VERIFICATION_NEEDED\<close>, still nothing is shown, the
  verification code is requested, and the value stays saving under the identifier of
  that request.
\<close>

theorem submit_while_saving:
  "form_values (c_form demo_saving) PersonalDetails = Some (demo_details\<lparr> saveRequestId := 3 \<rparr>)
   \<and> savingValue (demo_details\<lparr> saveRequestId := 3 \<rparr>)
   \<and> submitRequestId demo_saving = 0
   \<and> submit demo_env demo_saving =
       Inr (True, demo_saving\<lparr>
         sent := [(1, MTPaccount_AcceptAuthorization 42 ''scope'' ''key''
                        [(MTP_secureValueTypePersonalDetails, [5, 5])]
                        ([1, 2, 3] @ toJson demo_env demo_document)
                        (demo_hash ([1, 2, 3] @ toJson demo_env demo_document))
                        [107, 101, 121, 1, 2, 3],
                   H_submit)],
         submitRequestId := 1, rng := 1 \<rparr>)
   \<and> form_values (c_form demo_phone_saving) Phone =
       Some ((Value_init Phone)\<lparr>
          v_data := ValueData_init\<lparr> parsedInEdit := [(''value'', ''15551234'')] \<rparr>,
          editScreens := 1, saveRequestId := 1 \<rparr>)
   \<and> events demo_phone_saving = []
   \<and> sendSaveRequest_fail Phone ''PHONE_VERIFICATION_NEEDED'' demo_phone_saving =
       Inr (demo_phone_saving\<lparr>
         c_form := (c_form demo_phone_saving)\<lparr> form_values :=
           (form_values (c_form demo_phone_saving))
             (Phone \<mapsto> (Value_init Phone)\<lparr>
                v_data := ValueData_init\<lparr> parsedInEdit := [(''value'', ''15551234'')] \<rparr>,
                editScreens := 1,
                verification := Verification_init\<lparr> requestId := 2 \<rparr> \<rparr>) \<rparr>,
         sent := sent demo_phone_saving @
           [(2, MTPaccount_SendVerifyPhoneCode ''15551234'', H_startPhoneVerification Phone)] \<rparr>)
   \<and> savingValue ((Value_init Phone)\<lparr>
          v_data := ValueData_init\<lparr> parsedInEdit := [(''value'', ''15551234'')] \<rparr>,
          editScreens := 1,
          verification := Verification_init\<lparr> requestId := 2 \<rparr> \<rparr>)"
proof -
  have a: "submitRequestId demo_saving = 0" "rng demo_saving = 0" "sent demo_saving = []"
    "botId (c_request demo_saving) = 42" "scope (c_request demo_saving) = ''scope''"
    "publicKey (c_request demo_saving) = ''key''"
    by (simp_all add: demo_saving_def demo_controller_def)
  have e: "GenerateSecretBytes demo_env 0 = [1, 2, 3]" "EncryptData demo_env = demo_encrypt"
    "EncryptCredentialsSecret demo_env [1, 2, 3] (toUtf8 ''key'') = [107, 101, 121, 1, 2, 3]"
    by (simp_all add: demo_env_def toUtf8_def utf8_char_def)
  have "submit demo_env demo_saving =
       Inr (True, demo_saving\<lparr>
         sent := [(1, MTPaccount_AcceptAuthorization 42 ''scope'' ''key''
                        [(MTP_secureValueTypePersonalDetails, [5, 5])]
                        ([1, 2, 3] @ toJson demo_env demo_document)
                        (demo_hash ([1, 2, 3] @ toJson demo_env demo_document))
                        [107, 101, 121, 1, 2, 3],
                   H_submit)],
         submitRequestId := 1, rng := 1 \<rparr>)"
    by (simp add: submit_def demo_saving_prepared a e demo_encrypt_def send_request_def Let_def)
  moreover have "form_values (c_form demo_saving) PersonalDetails
      = Some (demo_details\<lparr> saveRequestId := 3 \<rparr>)"
    by (simp add: demo_saving_def)
  moreover have "savingValue (demo_details\<lparr> saveRequestId := 3 \<rparr>)"
    by (simp add: savingValue_def)
  moreover have "form_values (c_form demo_phone_saving) Phone =
       Some ((Value_init Phone)\<lparr>
          v_data := ValueData_init\<lparr> parsedInEdit := [(''value'', ''15551234'')] \<rparr>,
          editScreens := 1, saveRequestId := 1 \<rparr>)"
    "events demo_phone_saving = []"
    by (simp_all add: demo_phone_saving_def demo_idle_def demo_controller_def)
  moreover have "sendSaveRequest_fail Phone ''PHONE_VERIFICATION_NEEDED'' demo_phone_saving =
       Inr (demo_phone_saving\<lparr>
         c_form := (c_form demo_phone_saving)\<lparr> form_values :=
           (form_values (c_form demo_phone_saving))
             (Phone \<mapsto> (Value_init Phone)\<lparr>
                v_data := ValueData_init\<lparr> parsedInEdit := [(''value'', ''15551234'')] \<rparr>,
                editScreens := 1,
                verification := Verification_init\<lparr> requestId := 2 \<rparr> \<rparr>) \<rparr>,
         sent := sent demo_phone_saving @
           [(2, MTPaccount_SendVerifyPhoneCode ''15551234'', H_startPhoneVerification Phone)] \<rparr>)"
    by (simp add: sendSaveRequest_fail_def startPhoneVerification_def getPhoneFromValue_def
        getPlainTextFromValue_def send_request_def set_value_def demo_phone_saving_def
        demo_idle_def demo_controller_def Value_init_def Let_def)
  moreover have "savingValue ((Value_init Phone)\<lparr>
          v_data := ValueData_init\<lparr> parsedInEdit := [(''value'', ''15551234'')] \<rparr>,
          editScreens := 1,
          verification := Verification_init\<lparr> requestId := 2 \<rparr> \<rparr>)"
    by (simp add: savingValue_def)
  ultimately show ?thesis using a(1) by simp
qed

text \<open>
  What the \<^verbatim>\<open>fail\<close> closure of \<^verbatim>\<open>sendSaveRequest\<close> does when the error asks for
  a verification of the value's own kind: the save request is forgotten and the request
  for the code is sent.
\<close>

lemma phone_verification_started:
  assumes "form_values (c_form s1) t = Some value1" and "v_type value1 = Phone"
    and "map_of (parsedInEdit (v_data value1)) ''value'' = Some phone"
  shows "sendSaveRequest_fail t ''PHONE_VERIFICATION_NEEDED'' s1 =
           Inr (s1\<lparr> c_form := (c_form s1)\<lparr> form_values := (form_values (c_form s1))
                    (t \<mapsto> value1\<lparr> saveRequestId := 0,
                       verification := (verification value1)
                         \<lparr> requestId := int (length (sent s1)) + 1 \<rparr> \<rparr>) \<rparr>,
                  sent := sent s1 @ [(int (length (sent s1)) + 1,
                    MTPaccount_SendVerifyPhoneCode phone, H_startPhoneVerification t)] \<rparr>)"
  using assms
  by (simp add: sendSaveRequest_fail_def startPhoneVerification_def getPhoneFromValue_def
      getPlainTextFromValue_def send_request_def set_value_def Let_def)

lemma email_verification_started:
  assumes "form_values (c_form s1) t = Some value1" and "v_type value1 = Email"
    and "map_of (parsedInEdit (v_data value1)) ''value'' = Some email"
  shows "sendSaveRequest_fail t ''EMAIL_VERIFICATION_NEEDED'' s1 =
           Inr (s1\<lparr> c_form := (c_form s1)\<lparr> form_values := (form_values (c_form s1))
                    (t \<mapsto> value1\<lparr> saveRequestId := 0,
                       verification := (verification value1)
                         \<lparr> requestId := int (length (sent s1)) + 1 \<rparr> \<rparr>) \<rparr>,
                  sent := sent s1 @ [(int (length (sent s1)) + 1,
                    MTPaccount_SendVerifyEmailCode email, H_startEmailVerification t)] \<rparr>)"
  using assms
  by (simp add: sendSaveRequest_fail_def startEmailVerification_def getEmailFromValue_def
      getPlainTextFromValue_def send_request_def set_value_def Let_def)

text \<open>
  The two \<^verbatim>\<open>fail\<close> closures of the requests for a code differ. That of
  \<^verbatim>\<open>startPhoneVerification\<close> resets \<^verbatim>\<open>verification.requestId\<close> before it calls
  \<^verbatim>\<open>valueSaveFailed\<close>; that of \<^verbatim>\<open>startEmailVerification\<close> does not, so the value
  still counts as saving and \<^verbatim>\<open>Expects(!savingValue(value))\<close> in
  \<^verbatim>\<open>valueEditFailed\<close> fails: the error of a failed request for an e-mail code is never
  reported through the end of the save. The amended claim below leaves this case out.
\<close>

lemma email_code_failed_aborts:
  assumes "form_values (c_form s2) t = Some value2"
    and "requestId (verification value2) \<noteq> 0"
  shows "startEmailVerification_fail t errorType s2 = Inl ExpectsFailed"
  using assms
  by (simp add: startEmailVerification_fail_def valueSaveFailed_def valueEditFailed_def
      savingValue_def Let_def)

lemma email_code_failed_after_save:
  assumes "form_values (c_form s1) t = Some value1" and "v_type value1 = Email"
    and "map_of (parsedInEdit (v_data value1)) ''value'' = Some email"
    and "sendSaveRequest_fail t ''EMAIL_VERIFICATION_NEEDED'' s1 = Inr s2"
  shows "startEmailVerification_fail t errorType s2 = Inl ExpectsFailed"
proof -
  from assms(4) email_verification_started [OF assms(1-3)]
  have "form_values (c_form s2) t =
          Some (value1\<lparr> saveRequestId := 0,
                  verification := (verification value1)
                    \<lparr> requestId := int (length (sent s1)) + 1 \<rparr> \<rparr>)"
    by auto
  then show ?thesis
    by (rule email_code_failed_aborts) simp
qed

text \<open>
  C8, amended. While a value is saving (a save request or a verification is
  outstanding for it), a further save or delete of that value changes nothing. While
  the submission is in flight, a save or a delete of any value and a further submission
  change nothing. When \<^verbatim>\<open>saveValueEdit\<close> of a value that is not saving, with no
  submission in flight, sends a request, the value is saving from then on. If that
  save fails with an error other than \<^verbatim>\<open>PHONE_VERIFICATION_NEEDED\<close> for a phone number
  or \<^verbatim>\<open>EMAIL_VERIFICATION_NEEDED\<close> for an e-mail address, the error is shown in a box,
  the edit-scoped members are emptied if no edit screen is open, the end of the save is
  fired, and the value is no longer saving, so that it can be saved again. If the save
  of a phone number fails with \<^verbatim>\<open>PHONE_VERIFICATION_NEEDED\<close>, nothing is shown and the
  code is requested for the number being saved; if that request fails, the error is
  shown and the value reopened in the same way. If the save of an e-mail address fails
  with \<^verbatim>\<open>EMAIL_VERIFICATION_NEEDED\<close>, nothing is shown and the code is requested for
  the address being saved.
\<close>

theorem saves_blocked_while_in_flight:
  assumes "form_values (c_form s) t = Some value"
  shows "(savingValue value \<longrightarrow>
            saveValueEdit env t data' s = Inr s \<and> deleteValueEdit t s = Inr s)
       \<and> (submitRequestId s \<noteq> 0 \<longrightarrow>
            saveValueEdit env t data' s = Inr s \<and> deleteValueEdit t s = Inr s
            \<and> submit env s = Inr (True, s))
       \<and> (\<not> savingValue value \<and> submitRequestId s = 0
            \<and> saveValueEdit env t data' s = Inr s1 \<and> sent s1 \<noteq> sent s \<longrightarrow>
            (\<exists>value1 value'.
                form_values (c_form s1) t = Some value1 \<and> savingValue value1
              \<and> value' = (if editScreens value1 = 0
                           then value1\<lparr> saveRequestId := 0, scansInEdit := [],
                                  selfieInEdit := None,
                                  v_data := (v_data value1)\<lparr> encryptedSecretInEdit := [],
                                    hashInEdit := [], parsedInEdit := [] \<rparr> \<rparr>
                           else value1\<lparr> saveRequestId := 0 \<rparr>)
              \<and> \<not> savingValue value'
              \<and> (\<not> (errorType = ''PHONE_VERIFICATION_NEEDED'' \<and> v_type value = Phone)
                  \<and> \<not> (errorType = ''EMAIL_VERIFICATION_NEEDED'' \<and> v_type value = Email) \<longrightarrow>
                  sendSaveRequest_fail t errorType s1 =
                    Inr (s1\<lparr> c_form := (c_form s1)\<lparr> form_values :=
                             (form_values (c_form s1))(t \<mapsto> value') \<rparr>,
                           events := events s1 @
                             [E_showBox (''Error saving value:'' @ [CHR 0x0A] @ errorType),
                              E_valueSaveFinished t] \<rparr>))
              \<and> (v_type value = Phone \<longrightarrow>
                  (\<exists>s2 phone. map_of data' ''value'' = Some phone
                     \<and> sendSaveRequest_fail t ''PHONE_VERIFICATION_NEEDED'' s1 = Inr s2
                     \<and> sent s2 = sent s1 @ [(int (length (sent s1)) + 1,
                          MTPaccount_SendVerifyPhoneCode phone, H_startPhoneVerification t)]
                     \<and> events s2 = events s1
                     \<and> startPhoneVerification_fail t errorType s2 =
                         Inr (s2\<lparr> c_form := (c_form s2)\<lparr> form_values :=
                                  (form_values (c_form s2))(t \<mapsto> value') \<rparr>,
                                events := events s2 @
                                  [E_showBox (''Error saving value:'' @ [CHR 0x0A] @ errorType),
                                   E_valueSaveFinished t] \<rparr>)))
              \<and> (v_type value = Email \<longrightarrow>
                  (\<exists>s2 email. map_of data' ''value'' = Some email
                     \<and> sendSaveRequest_fail t ''EMAIL_VERIFICATION_NEEDED'' s1 = Inr s2
                     \<and> sent s2 = sent s1 @ [(int (length (sent s1)) + 1,
                          MTPaccount_SendVerifyEmailCode email, H_startEmailVerification t)]
                     \<and> events s2 = events s1))))"
proof (intro conjI impI)
  assume "savingValue value"
  then show "saveValueEdit env t data' s = Inr s" "deleteValueEdit t s = Inr s"
    using assms by (simp_all add: saveValueEdit_def deleteValueEdit_def)
next
  assume "submitRequestId s \<noteq> 0"
  then show "saveValueEdit env t data' s = Inr s" "deleteValueEdit t s = Inr s"
    "submit env s = Inr (True, s)"
    using assms by (simp_all add: saveValueEdit_def deleteValueEdit_def submit_def)
next
  assume a: "\<not> savingValue value \<and> submitRequestId s = 0
            \<and> saveValueEdit env t data' s = Inr s1 \<and> sent s1 \<noteq> sent s"
  then have idle: "requestId (verification value) = 0" "codeLength (verification value) = 0"
    by (simp_all add: savingValue_def)
  from a saveValueEdit_sent [OF assms, of env data' s1]
  obtain value1 where v1: "form_values (c_form s1) t = Some value1"
    "saveRequestId value1 = int (length (sent s)) + 1"
    "verification value1 = verification value" "v_type value1 = v_type value"
    "parsedInEdit (v_data value1) = data'"
    "\<not> isEncryptedValue (v_type value) \<longrightarrow> map_of data' ''value'' \<noteq> None"
    by auto
  let ?r = "if editScreens value1 = 0
            then value1\<lparr> saveRequestId := 0, scansInEdit := [], selfieInEdit := None,
                   v_data := (v_data value1)\<lparr> encryptedSecretInEdit := [],
                     hashInEdit := [], parsedInEdit := [] \<rparr> \<rparr>
            else value1\<lparr> saveRequestId := 0 \<rparr>"
  have sv: "savingValue value1"
    using v1(2) by (simp add: savingValue_def)
  have nr: "\<not> savingValue ?r"
    using idle v1(3) by (simp add: savingValue_def)
  have plain: "sendSaveRequest_fail t errorType s1 =
                    Inr (s1\<lparr> c_form := (c_form s1)\<lparr> form_values :=
                             (form_values (c_form s1))(t \<mapsto> ?r) \<rparr>,
                           events := events s1 @
                             [E_showBox (''Error saving value:'' @ [CHR 0x0A] @ errorType),
                              E_valueSaveFinished t] \<rparr>)"
    if "\<not> (errorType = ''PHONE_VERIFICATION_NEEDED'' \<and> v_type value = Phone)
        \<and> \<not> (errorType = ''EMAIL_VERIFICATION_NEEDED'' \<and> v_type value = Email)"
    using that v1(1,3,4) idle
    by (auto simp: sendSaveRequest_fail_def valueSaveFailed_def valueEditFailed_def
        clearValueEdit_def savingValue_def set_value_def fire_def Let_def)
  have phone: "\<exists>s2 phone. map_of data' ''value'' = Some phone
                     \<and> sendSaveRequest_fail t ''PHONE_VERIFICATION_NEEDED'' s1 = Inr s2
                     \<and> sent s2 = sent s1 @ [(int (length (sent s1)) + 1,
                          MTPaccount_SendVerifyPhoneCode phone, H_startPhoneVerification t)]
                     \<and> events s2 = events s1
                     \<and> startPhoneVerification_fail t errorType s2 =
                         Inr (s2\<lparr> c_form := (c_form s2)\<lparr> form_values :=
                                  (form_values (c_form s2))(t \<mapsto> ?r) \<rparr>,
                                events := events s2 @
                                  [E_showBox (''Error saving value:'' @ [CHR 0x0A] @ errorType),
                                   E_valueSaveFinished t] \<rparr>)"
    if p: "v_type value = Phone"
  proof -
    from p v1(6) obtain phone where ph: "map_of data' ''value'' = Some phone"
      by (auto simp: isEncryptedValue_def)
    let ?s2 = "s1\<lparr> c_form := (c_form s1)\<lparr> form_values := (form_values (c_form s1))
                    (t \<mapsto> value1\<lparr> saveRequestId := 0,
                       verification := (verification value1)
                         \<lparr> requestId := int (length (sent s1)) + 1 \<rparr> \<rparr>) \<rparr>,
                  sent := sent s1 @ [(int (length (sent s1)) + 1,
                    MTPaccount_SendVerifyPhoneCode phone, H_startPhoneVerification t)] \<rparr>"
    have one: "sendSaveRequest_fail t ''PHONE_VERIFICATION_NEEDED'' s1 = Inr ?s2"
      using phone_verification_started [OF v1(1), of phone] p v1(4,5) ph by simp
    have two: "startPhoneVerification_fail t errorType ?s2 =
                 Inr (?s2\<lparr> c_form := (c_form ?s2)\<lparr> form_values :=
                          (form_values (c_form ?s2))(t \<mapsto> ?r) \<rparr>,
                        events := events ?s2 @
                          [E_showBox (''Error saving value:'' @ [CHR 0x0A] @ errorType),
                           E_valueSaveFinished t] \<rparr>)"
      using idle v1(3)
      by (cases value1; cases "verification value";
          auto simp: startPhoneVerification_fail_def valueSaveFailed_def valueEditFailed_def
            clearValueEdit_def savingValue_def set_value_def fire_def Let_def)
    show ?thesis
      using ph one two by (intro exI [of _ ?s2] exI [of _ phone]) simp
  qed
  have email: "\<exists>s2 email. map_of data' ''value'' = Some email
                     \<and> sendSaveRequest_fail t ''EMAIL_VERIFICATION_NEEDED'' s1 = Inr s2
                     \<and> sent s2 = sent s1 @ [(int (length (sent s1)) + 1,
                          MTPaccount_SendVerifyEmailCode email, H_startEmailVerification t)]
                     \<and> events s2 = events s1"
    if p: "v_type value = Email"
  proof -
    from p v1(6) obtain email where em: "map_of data' ''value'' = Some email"
      by (auto simp: isEncryptedValue_def)
    show ?thesis
      using email_verification_started [OF v1(1), of email] p v1(4,5) em by simp
  qed
  show "\<exists>value1 value'.
                form_values (c_form s1) t = Some value1 \<and> savingValue value1
              \<and> value' = (if editScreens value1 = 0
                           then value1\<lparr> saveRequestId := 0, scansInEdit := [],
                                  selfieInEdit := None,
                                  v_data := (v_data value1)\<lparr> encryptedSecretInEdit := [],
                                    hashInEdit := [], parsedInEdit := [] \<rparr> \<rparr>
                           else value1\<lparr> saveRequestId := 0 \<rparr>)
              \<and> \<not> savingValue value'
              \<and> (\<not> (errorType = ''PHONE_VERIFICATION_NEEDED'' \<and> v_type value = Phone)
                  \<and> \<not> (errorType = ''EMAIL_VERIFICATION_NEEDED'' \<and> v_type value = Email) \<longrightarrow>
                  sendSaveRequest_fail t errorType s1 =
                    Inr (s1\<lparr> c_form := (c_form s1)\<lparr> form_values :=
                             (form_values (c_form s1))(t \<mapsto> value') \<rparr>,
                           events := events s1 @
                             [E_showBox (''Error saving value:'' @ [CHR 0x0A] @ errorType),
                              E_valueSaveFinished t] \<rparr>))
              \<and> (v_type value = Phone \<longrightarrow>
                  (\<exists>s2 phone. map_of data' ''value'' = Some phone
                     \<and> sendSaveRequest_fail t ''PHONE_VERIFICATION_NEEDED'' s1 = Inr s2
                     \<and> sent s2 = sent s1 @ [(int (length (sent s1)) + 1,
                          MTPaccount_SendVerifyPhoneCode phone, H_startPhoneVerification t)]
                     \<and> events s2 = events s1
                     \<and> startPhoneVerification_fail t errorType s2 =
                         Inr (s2\<lparr> c_form := (c_form s2)\<lparr> form_values :=
                                  (form_values (c_form s2))(t \<mapsto> value') \<rparr>,
                                events := events s2 @
                                  [E_showBox (''Error saving value:'' @ [CHR 0x0A] @ errorType),
                                   E_valueSaveFinished t] \<rparr>)))
              \<and> (v_type value = Email \<longrightarrow>
                  (\<exists>s2 email. map_of data' ''value'' = Some email
                     \<and> sendSaveRequest_fail t ''EMAIL_VERIFICATION_NEEDED'' s1 = Inr s2
                     \<and> sent s2 = sent s1 @ [(int (length (sent s1)) + 1,
                          MTPaccount_SendVerifyEmailCode email, H_startEmailVerification t)]
                     \<and> events s2 = events s1))"
    apply (rule exI [of _ value1], rule exI [of _ ?r])
    using v1(1) sv nr plain phone email by blast
qed

theorem saves_blocked_while_in_flight_witness:
  "form_values (c_form (demo_saving\<lparr> submitRequestId := 4 \<rparr>)) PersonalDetails
     = Some (demo_details\<lparr> saveRequestId := 3 \<rparr>)
   \<and> savingValue (demo_details\<lparr> saveRequestId := 3 \<rparr>)
   \<and> submitRequestId (demo_saving\<lparr> submitRequestId := 4 \<rparr>) \<noteq> 0
   \<and> saveValueEdit demo_env PersonalDetails [(''first_name'', ''Bob'')]
         (demo_saving\<lparr> submitRequestId := 4 \<rparr>) = Inr (demo_saving\<lparr> submitRequestId := 4 \<rparr>)
   \<and> deleteValueEdit PersonalDetails (demo_saving\<lparr> submitRequestId := 4 \<rparr>)
         = Inr (demo_saving\<lparr> submitRequestId := 4 \<rparr>)
   \<and> submit demo_env (demo_saving\<lparr> submitRequestId := 4 \<rparr>)
         = Inr (True, demo_saving\<lparr> submitRequestId := 4 \<rparr>)
   \<and> form_values (c_form demo_idle) Phone = Some ((Value_init Phone)\<lparr> editScreens := 1 \<rparr>)
   \<and> \<not> savingValue ((Value_init Phone)\<lparr> editScreens := 1 \<rparr>)
   \<and> submitRequestId demo_idle = 0
   \<and> saveValueEdit demo_env Phone [(''value'', ''15551234'')] demo_idle = Inr demo_phone_saving
   \<and> sent demo_phone_saving \<noteq> sent demo_idle
   \<and> sendSaveRequest_fail Phone ''PHONE_NUMBER_INVALID'' demo_phone_saving =
       Inr (demo_phone_saving\<lparr>
         c_form := (c_form demo_phone_saving)\<lparr> form_values :=
           (form_values (c_form demo_phone_saving))
             (Phone \<mapsto> (Value_init Phone)\<lparr>
                v_data := ValueData_init\<lparr> parsedInEdit := [(''value'', ''15551234'')] \<rparr>,
                editScreens := 1 \<rparr>) \<rparr>,
         events := [E_showBox (''Error saving value:'' @ [CHR 0x0A] @ ''PHONE_NUMBER_INVALID''),
                    E_valueSaveFinished Phone] \<rparr>)
   \<and> (\<exists>s2. sendSaveRequest_fail Phone ''PHONE_VERIFICATION_NEEDED'' demo_phone_saving = Inr s2
         \<and> sent s2 = sent demo_phone_saving @
             [(2, MTPaccount_SendVerifyPhoneCode ''15551234'', H_startPhoneVerification Phone)]
         \<and> events s2 = []
         \<and> startPhoneVerification_fail Phone ''PHONE_NUMBER_INVALID'' s2 =
             Inr (s2\<lparr>
               c_form := (c_form s2)\<lparr> form_values := (form_values (c_form s2))
                 (Phone \<mapsto> (Value_init Phone)\<lparr>
                    v_data := ValueData_init\<lparr> parsedInEdit := [(''value'', ''15551234'')] \<rparr>,
                    editScreens := 1 \<rparr>) \<rparr>,
               events := [E_showBox (''Error saving value:'' @ [CHR 0x0A]
                            @ ''PHONE_NUMBER_INVALID''),
                          E_valueSaveFinished Phone] \<rparr>))
   \<and> form_values (c_form demo_idle) Email = Some (Value_init Email)
   \<and> \<not> savingValue (Value_init Email)
   \<and> (\<exists>s1 s2. saveValueEdit demo_env Email [(''value'', ''ann@example.org'')] demo_idle = Inr s1
         \<and> sent s1 \<noteq> sent demo_idle
         \<and> sendSaveRequest_fail Email ''EMAIL_INVALID'' s1 =
             Inr (s1\<lparr>
               c_form := (c_form s1)\<lparr> form_values := (form_values (c_form s1))
                 (Email \<mapsto> Value_init Email) \<rparr>,
               events := [E_showBox (''Error saving value:'' @ [CHR 0x0A] @ ''EMAIL_INVALID''),
                          E_valueSaveFinished Email] \<rparr>)
         \<and> sendSaveRequest_fail Email ''EMAIL_VERIFICATION_NEEDED'' s1 = Inr s2
         \<and> sent s2 = sent s1 @
             [(2, MTPaccount_SendVerifyEmailCode ''ann@example.org'',
               H_startEmailVerification Email)]
         \<and> events s2 = [])"
proof -
  let ?s = "demo_saving\<lparr> submitRequestId := 4 \<rparr>"
  let ?v = "demo_details\<lparr> saveRequestId := 3 \<rparr>"
  let ?p = "(Value_init Phone)\<lparr> editScreens := 1 \<rparr>"
  let ?p1 = "(Value_init Phone)\<lparr>
          v_data := ValueData_init\<lparr> parsedInEdit := [(''value'', ''15551234'')] \<rparr>,
          editScreens := 1, saveRequestId := 1 \<rparr>"
  let ?m1 = "(Value_init Email)\<lparr>
          v_data := ValueData_init\<lparr> parsedInEdit := [(''value'', ''ann@example.org'')] \<rparr>,
          saveRequestId := 1 \<rparr>"
  have v: "form_values (c_form ?s) PersonalDetails = Some ?v"
    by (simp add: demo_saving_def)
  have sv: "savingValue ?v"
    by (simp add: savingValue_def)
  have q: "submitRequestId ?s \<noteq> 0"
    by simp
  have blocked: "saveValueEdit demo_env PersonalDetails [(''first_name'', ''Bob'')] ?s = Inr ?s"
    "deleteValueEdit PersonalDetails ?s = Inr ?s" "submit demo_env ?s = Inr (True, ?s)"
    using saves_blocked_while_in_flight [OF v, of demo_env "[(''first_name'', ''Bob'')]"] sv q
    by simp_all
  have i: "form_values (c_form demo_idle) Phone = Some ?p"
    "form_values (c_form demo_idle) Email = Some (Value_init Email)"
    "submitRequestId demo_idle = 0" "sent demo_idle = []" "events demo_idle = []"
    by (simp_all add: demo_idle_def demo_controller_def)
  have n: "\<not> savingValue ?p" "\<not> savingValue (Value_init Email)"
    "v_type ?p = Phone" "v_type (Value_init Email) = Email"
    by (simp_all add: savingValue_def Value_init_def Verification_init_def)
  have ps: "form_values (c_form demo_phone_saving) Phone = Some ?p1"
    "sent demo_phone_saving \<noteq> sent demo_idle" "events demo_phone_saving = []"
    "length (sent demo_phone_saving) = 1"
    by (simp_all add: demo_phone_saving_def i)
  have r: "editScreens ?p1 = 1"
    "?p1\<lparr> saveRequestId := 0 \<rparr> = (Value_init Phone)\<lparr>
          v_data := ValueData_init\<lparr> parsedInEdit := [(''value'', ''15551234'')] \<rparr>,
          editScreens := 1 \<rparr>"
    by (simp_all add: Value_init_def)
  note phone = saves_blocked_while_in_flight [OF i(1), of demo_env "[(''value'', ''15551234'')]"
      demo_phone_saving "''PHONE_NUMBER_INVALID''"]
  have phone_plain: "sendSaveRequest_fail Phone ''PHONE_NUMBER_INVALID'' demo_phone_saving =
       Inr (demo_phone_saving\<lparr>
         c_form := (c_form demo_phone_saving)\<lparr> form_values :=
           (form_values (c_form demo_phone_saving))
             (Phone \<mapsto> (Value_init Phone)\<lparr>
                v_data := ValueData_init\<lparr> parsedInEdit := [(''value'', ''15551234'')] \<rparr>,
                editScreens := 1 \<rparr>) \<rparr>,
         events := [E_showBox (''Error saving value:'' @ [CHR 0x0A] @ ''PHONE_NUMBER_INVALID''),
                    E_valueSaveFinished Phone] \<rparr>)"
    using phone n i(3) demo_idle_save_phone ps r by simp
  have phone_code:
    "\<exists>s2. sendSaveRequest_fail Phone ''PHONE_VERIFICATION_NEEDED'' demo_phone_saving = Inr s2
         \<and> sent s2 = sent demo_phone_saving @
             [(2, MTPaccount_SendVerifyPhoneCode ''15551234'', H_startPhoneVerification Phone)]
         \<and> events s2 = []
         \<and> startPhoneVerification_fail Phone ''PHONE_NUMBER_INVALID'' s2 =
             Inr (s2\<lparr>
               c_form := (c_form s2)\<lparr> form_values := (form_values (c_form s2))
                 (Phone \<mapsto> (Value_init Phone)\<lparr>
                    v_data := ValueData_init\<lparr> parsedInEdit := [(''value'', ''15551234'')] \<rparr>,
                    editScreens := 1 \<rparr>) \<rparr>,
               events := [E_showBox (''Error saving value:'' @ [CHR 0x0A]
                            @ ''PHONE_NUMBER_INVALID''),
                          E_valueSaveFinished Phone] \<rparr>)"
    using phone n i(3) demo_idle_save_phone ps r by auto
  let ?e1 = "demo_idle\<lparr>
     c_form := (c_form demo_idle)\<lparr> form_values := (form_values (c_form demo_idle))
       (Email \<mapsto> ?m1) \<rparr>,
     sent := [(1, MTPaccount_SaveSecureValue
                    \<lparr> flag_data = False, flag_files = False, flag_selfie = False,
                      flag_plain_data = True, isv_type = MTP_secureValueTypeEmail,
                      isv_data = None, isv_files = [],
                      isv_plain_data = Some (MTP_securePlainEmail ''ann@example.org''),
                      isv_selfie = None \<rparr> 2,
               H_sendSaveRequest Email)] \<rparr>"
  have es: "saveValueEdit demo_env Email [(''value'', ''ann@example.org'')] demo_idle = Inr ?e1"
    by (simp add: saveValueEdit_def findValue_def editValueChanged_def savePlainTextValue_def
        getPlainTextFromValue_def sendSaveRequest_cases set_value_def savingValue_def
        isEncryptedValue_def demo_idle_def demo_controller_def
        Value_init_def ValueData_init_def Verification_init_def)
  have e1: "form_values (c_form ?e1) Email = Some ?m1"
    "sent ?e1 \<noteq> sent demo_idle" "events ?e1 = []" "length (sent ?e1) = 1"
    by (simp_all add: i)
  have er: "editScreens ?m1 = 0"
    "?m1\<lparr> saveRequestId := 0, scansInEdit := [], selfieInEdit := None,
          v_data := (v_data ?m1)\<lparr> encryptedSecretInEdit := [], hashInEdit := [],
            parsedInEdit := [] \<rparr> \<rparr> = Value_init Email"
    by (simp_all add: Value_init_def ValueData_init_def)
  note email = saves_blocked_while_in_flight [OF i(2), of demo_env
      "[(''value'', ''ann@example.org'')]" ?e1 "''EMAIL_INVALID''"]
  have email_all:
    "\<exists>s1 s2. saveValueEdit demo_env Email [(''value'', ''ann@example.org'')] demo_idle = Inr s1
         \<and> sent s1 \<noteq> sent demo_idle
         \<and> sendSaveRequest_fail Email ''EMAIL_INVALID'' s1 =
             Inr (s1\<lparr>
               c_form := (c_form s1)\<lparr> form_values := (form_values (c_form s1))
                 (Email \<mapsto> Value_init Email) \<rparr>,
               events := [E_showBox (''Error saving value:'' @ [CHR 0x0A] @ ''EMAIL_INVALID''),
                          E_valueSaveFinished Email] \<rparr>)
         \<and> sendSaveRequest_fail Email ''EMAIL_VERIFICATION_NEEDED'' s1 = Inr s2
         \<and> sent s2 = sent s1 @
             [(2, MTPaccount_SendVerifyEmailCode ''ann@example.org'',
               H_startEmailVerification Email)]
         \<and> events s2 = []"
  proof -
    from email n i(3) es e1 er
    obtain s2 where
      "sendSaveRequest_fail Email ''EMAIL_INVALID'' ?e1 =
         Inr (?e1\<lparr>
           c_form := (c_form ?e1)\<lparr> form_values := (form_values (c_form ?e1))
             (Email \<mapsto> Value_init Email) \<rparr>,
           events := events ?e1 @
             [E_showBox (''Error saving value:'' @ [CHR 0x0A] @ ''EMAIL_INVALID''),
              E_valueSaveFinished Email] \<rparr>)"
      "sendSaveRequest_fail Email ''EMAIL_VERIFICATION_NEEDED'' ?e1 = Inr s2"
      "sent s2 = sent ?e1 @
         [(int (length (sent ?e1)) + 1, MTPaccount_SendVerifyEmailCode ''ann@example.org'',
           H_startEmailVerification Email)]"
      "events s2 = events ?e1"
      by auto
    with e1 es show ?thesis
      by (intro exI [of _ ?e1] exI [of _ s2]) simp
  qed
  from v sv q blocked i n demo_idle_save_phone ps(2) phone_plain phone_code email_all
  show ?thesis by simp
qed

subsection \<open>The queue of saves that wait for the master secret\<close>

text \<open>
  While the master secret is absent, \<^verbatim>\<open>saveEncryptedValue\<close> appends the save to the
  queue and does nothing else: the value is not marked as saving. With the secret
  present it sends one save request for the value.
\<close>

lemma saveEncryptedValue_queues:
  assumes "form_values (c_form s) t = Some value" and "isEncryptedValue (v_type value)"
    and "c_secret s = []"
  shows "saveEncryptedValue env t s = Inr (s\<lparr> secretCallbacks := secretCallbacks s @ [t] \<rparr>)"
  using assms by (simp add: saveEncryptedValue_def)

lemma saveEncryptedValue_step:
  assumes "saveEncryptedValue env t s = Inr s1" and "c_secret s \<noteq> []"
  shows "(\<exists>i r. sent s1 = sent s @ [(i, r, H_sendSaveRequest t)])
       \<and> c_secret s1 = c_secret s \<and> secretCallbacks s1 = secretCallbacks s
       \<and> (\<forall>t'. t' \<noteq> t \<longrightarrow> form_values (c_form s1) t' = form_values (c_form s) t')
       \<and> (\<exists>value1. form_values (c_form s1) t = Some value1 \<and> saveRequestId value1 \<noteq> 0)"
  using assms
  by (auto simp: saveEncryptedValue_def sendSaveRequest_cases set_value_def Let_def
      split: option.splits if_splits sum.splits)

lemma saveEncryptedValue_returns:
  assumes "c_secret s \<noteq> []" and "form_values (c_form s) t = Some value"
    and "isEncryptedValue (v_type value)" and "saveRequestId value = 0"
    and "scansInEdit value \<noteq> [] \<or> parsedInEdit (v_data value) \<noteq> []
         \<or> (\<exists>file. selfieInEdit value = Some file \<and> \<not> deleted file)"
  shows "\<exists>s1. saveEncryptedValue env t s = Inr s1"
proof -
  from assms(3) obtain w where w: "encryptedValueType (v_type value) = Inr w"
    using encryptedValueType_ok by blast
  show ?thesis
    using assms w
    by (auto simp: saveEncryptedValue_def sendSaveRequest_cases set_value_def Let_def)
qed

text \<open>
  A replay that returns has sent one save request for each queued save, in the order of
  the queue, and it returns when the queued values are distinct and each meets the
  preconditions of a save.
\<close>

lemma runSecretCallbacks_sent:
  "runSecretCallbacks env ts s = Inr s' \<Longrightarrow> c_secret s \<noteq> [] \<Longrightarrow>
     map (\<lambda>(i, r, h). h) (sent s') = map (\<lambda>(i, r, h). h) (sent s) @ map H_sendSaveRequest ts
     \<and> secretCallbacks s' = secretCallbacks s \<and> c_secret s' = c_secret s"
proof (induction ts arbitrary: s)
  case Nil
  then show ?case by simp
next
  case (Cons t ts)
  from Cons.prems(1) obtain s1 where s1: "saveEncryptedValue env t s = Inr s1"
    and rest: "runSecretCallbacks env ts s1 = Inr s'"
    by (auto split: sum.splits)
  from saveEncryptedValue_step [OF s1 Cons.prems(2)]
  obtain i r where step: "sent s1 = sent s @ [(i, r, H_sendSaveRequest t)]"
    "c_secret s1 = c_secret s" "secretCallbacks s1 = secretCallbacks s"
    by auto
  from Cons.IH [OF rest] step Cons.prems(2) show ?case by simp
qed

lemma runSecretCallbacks_returns:
  assumes "c_secret s \<noteq> []" and "distinct ts"
    and "\<forall>t \<in> set ts. \<exists>value. form_values (c_form s) t = Some value
           \<and> isEncryptedValue (v_type value) \<and> saveRequestId value = 0
           \<and> (scansInEdit value \<noteq> [] \<or> parsedInEdit (v_data value) \<noteq> []
               \<or> (\<exists>file. selfieInEdit value = Some file \<and> \<not> deleted file))"
  shows "\<exists>s'. runSecretCallbacks env ts s = Inr s'"
  using assms
proof (induction ts arbitrary: s)
  case Nil
  then show ?case by simp
next
  case (Cons t ts)
  from Cons.prems(3) obtain v where v: "form_values (c_form s) t = Some v"
    "isEncryptedValue (v_type v)" "saveRequestId v = 0"
    "scansInEdit v \<noteq> [] \<or> parsedInEdit (v_data v) \<noteq> []
       \<or> (\<exists>file. selfieInEdit v = Some file \<and> \<not> deleted file)"
    by auto
  from saveEncryptedValue_returns [OF Cons.prems(1) v]
  obtain s1 where s1: "saveEncryptedValue env t s = Inr s1" by blast
  from saveEncryptedValue_step [OF s1 Cons.prems(1)]
  have keep: "c_secret s1 = c_secret s"
    "\<forall>t'. t' \<noteq> t \<longrightarrow> form_values (c_form s1) t' = form_values (c_form s) t'"
    by auto
  have "\<forall>t' \<in> set ts. \<exists>value. form_values (c_form s1) t' = Some value
           \<and> isEncryptedValue (v_type value) \<and> saveRequestId value = 0
           \<and> (scansInEdit value \<noteq> [] \<or> parsedInEdit (v_data value) \<noteq> []
               \<or> (\<exists>file. selfieInEdit value = Some file \<and> \<not> deleted file))"
  proof
    fix t' assume t': "t' \<in> set ts"
    with Cons.prems(2) have "t' \<noteq> t" by auto
    with keep(2) have "form_values (c_form s1) t' = form_values (c_form s) t'" by simp
    with Cons.prems(3) t' show "\<exists>value. form_values (c_form s1) t' = Some value
           \<and> isEncryptedValue (v_type value) \<and> saveRequestId value = 0
           \<and> (scansInEdit value \<noteq> [] \<or> parsedInEdit (v_data value) \<noteq> []
               \<or> (\<exists>file. selfieInEdit value = Some file \<and> \<not> deleted file))"
      by simp
  qed
  moreover have "c_secret s1 \<noteq> []" using keep(1) Cons.prems(1) by simp
  moreover have "distinct ts" using Cons.prems(2) by simp
  ultimately obtain s' where "runSecretCallbacks env ts s1 = Inr s'"
    using Cons.IH by blast
  with s1 show ?case by simp
qed

text \<open>
  The replay of a value whose save request is outstanding stops at
  \<^verbatim>\<open>Expects(value->saveRequestId == 0)\<close> in \<^verbatim>\<open>sendSaveRequest\<close>, and the replay of a
  value with nothing left in edit stops at \<^verbatim>\<open>Assert(flags != MTPDinputSecureValue::Flags(0))\<close>.
\<close>

lemma saveEncryptedValue_in_flight:
  assumes "c_secret s \<noteq> []" and "form_values (c_form s) t = Some value"
    and "isEncryptedValue (v_type value)" and "saveRequestId value \<noteq> 0"
    and "parsedInEdit (v_data value) \<noteq> []"
  shows "saveEncryptedValue env t s = Inl ExpectsFailed"
proof -
  from assms(3) obtain w where w: "encryptedValueType (v_type value) = Inr w"
    using encryptedValueType_ok by blast
  show ?thesis
    using assms w
    by (auto simp: saveEncryptedValue_def sendSaveRequest_cases set_value_def Let_def)
qed

lemma saveEncryptedValue_nothing_in_edit:
  assumes "c_secret s \<noteq> []" and "form_values (c_form s) t = Some value"
    and "isEncryptedValue (v_type value)"
    and "scansInEdit value = []" and "parsedInEdit (v_data value) = []"
    and "selfieInEdit value = None"
  shows "saveEncryptedValue env t s = Inl AssertFailed"
proof -
  from assms(3) obtain w where w: "encryptedValueType (v_type value) = Inr w"
    using encryptedValueType_ok by blast
  show ?thesis
    using assms w
    by (auto simp: saveEncryptedValue_def sendSaveRequest_cases set_value_def Let_def)
qed

text \<open>
  A value queued twice: whatever the collaborators and the secret, the first replay
  sends the save request and the second stops at the precondition of
  \<^verbatim>\<open>sendSaveRequest\<close>, so the \<^verbatim>\<open>done\<close> closure of \<^verbatim>\<open>generateSecret\<close> does not
  return.
\<close>

lemma double_queue_aborts:
  assumes "secret \<noteq> []" and "secretCallbacks s = [t, t]"
    and "form_values (c_form s) t = Some value"
    and "isEncryptedValue (v_type value)" and "saveRequestId value = 0"
    and "parsedInEdit (v_data value) \<noteq> []"
  shows "generateSecret_done env secret secureSecretId s = Inl ExpectsFailed"
proof -
  let ?s2 = "s\<lparr> saveSecretRequestId := 0, c_secret := secret, c_secretId := secureSecretId,
                secretCallbacks := [] \<rparr>"
  have f: "c_secret ?s2 \<noteq> []" "form_values (c_form ?s2) t = Some value"
    using assms by simp_all
  from saveEncryptedValue_returns [OF f assms(4,5), of env] assms(6)
  obtain s3 where s3: "saveEncryptedValue env t ?s2 = Inr s3" by blast
  from saveEncryptedValue_step [OF s3 f(1)]
  have k: "c_secret s3 \<noteq> []" "sent s3 \<noteq> sent ?s2"
    using assms(1) by auto
  from saveEncryptedValue_sent [OF s3 k(2) f(2)]
  obtain value1 where v1: "form_values (c_form s3) t = Some value1"
    "saveRequestId value1 = int (length (sent ?s2)) + 1" "v_type value1 = v_type value"
    "parsedInEdit (v_data value1) = parsedInEdit (v_data value)"
    by auto
  have "saveEncryptedValue env t s3 = Inl ExpectsFailed"
    using k(1) v1 assms(4,6) by (intro saveEncryptedValue_in_flight [of _ _ value1]) simp_all
  with s3 show ?thesis
    using assms(2) by (simp add: generateSecret_done_def Let_def)
qed

text \<open>
  The other way in which the secret becomes present, the unwrapping of the stored
  secret in \<^verbatim>\<open>validateSecureSecret\<close>, does not touch the queue: the saves queued
  before it stay queued and no request is sent for them.
\<close>

lemma set_value_keeps:
  "sent (set_value t v s) = sent s" "secretCallbacks (set_value t v s) = secretCallbacks s"
  "c_secret (set_value t v s) = c_secret s"
  by (simp_all add: set_value_def)

lemma decryptValues_loop_keeps:
  "decryptValues_loop env ts s = Inr s' \<Longrightarrow>
     sent s' = sent s \<and> secretCallbacks s' = secretCallbacks s \<and> c_secret s' = c_secret s"
proof (induction ts arbitrary: s)
  case Nil
  then show ?case by simp
next
  case (Cons t ts)
  show ?case
  proof (cases "form_values (c_form s) t")
    case None
    with Cons show ?thesis by simp
  next
    case (Some v)
    with Cons.prems obtain v' where "decryptValue env (c_secret s) v = Inr v'"
      and "decryptValues_loop env ts (set_value t v' s) = Inr s'"
      by (auto split: sum.splits)
    from Cons.IH [OF this(2)] show ?thesis by (simp add: set_value_keeps)
  qed
qed

lemma validateSecureSecret_keeps_queue:
  assumes "salt' \<noteq> []" and "encryptedSecret \<noteq> []"
    and "DecryptSecureSecret env salt' encryptedSecret password \<noteq> []"
    and "validateSecureSecret env salt' encryptedSecret password s = Inr s'"
  shows "c_secret s' = DecryptSecureSecret env salt' encryptedSecret password
       \<and> secretCallbacks s' = secretCallbacks s \<and> sent s' = sent s"
proof -
  let ?s1 = "s\<lparr> c_secret := DecryptSecureSecret env salt' encryptedSecret password,
                c_secretId := CountSecureSecretHash env
                  (DecryptSecureSecret env salt' encryptedSecret password) \<rparr>"
  from assms obtain s2 where s2: "decryptValues_loop env all_types ?s1 = Inr s2"
    and s': "s' = fire E_secretReady (if c_secret s2 = [] then generateSecret env password s2 else s2)"
    by (auto simp: validateSecureSecret_def decryptValues_def Let_def split: sum.splits)
  from decryptValues_loop_keeps [OF s2] assms(3) s' show ?thesis
    by (simp add: fire_def)
qed

lemma demo_generating_reached:
  "validateSecureSecret demo_env [9] [8] [6] demo_controller = Inr demo_generating"
proof -
  have d: "DecryptSecureSecret demo_env [9] [8] [6] = []"
    by (simp add: demo_env_def demo_unwrap_def)
  have o: "original (v_data demo_details) \<noteq> []" "original (v_data demo_phone) = []"
    "original (v_data demo_passport) = []" "v_type demo_details = PersonalDetails"
    by (simp_all add: demo_details_def demo_details_data_def demo_encrypt_def Value_init_def
        demo_phone_def demo_passport_def ValueData_init_def)
  have g: "GenerateSecretBytes demo_env 0 = [1, 2, 3]"
    "set_random demo_env (Suc 0) 8 = [1, 1, 1, 1, 1, 1, 1, 1]"
    "Sha256 demo_env [1, 2, 6, 1, 2] = [5, 12]"
    "CountSecureSecretHash demo_env [1, 2, 3] = 4"
    "EncryptSecureSecret demo_env [4, 1, 1, 1, 1, 1, 1, 1, 1] [1, 2, 3] [6]
       = [4, 1, 1, 1, 1, 1, 1, 1, 1, 6, 1, 2, 3]"
    by (simp_all add: demo_env_def demo_hash_def eval_nat_numeral)
  have f: "(\<lambda>t. map_option (\<lambda>v. if original (v_data v) \<noteq> [] then Value_init (v_type v) else v)
                (form_values (c_form demo_controller) t))
           = (form_values (c_form demo_controller))
               (PersonalDetails \<mapsto> Value_init PersonalDetails)"
    using o by (auto simp: fun_eq_iff demo_controller_def)
  show ?thesis
    using d
    by (simp add: validateSecureSecret_def resetStoredValues_eq all_types_complete f
        generateSecret_def send_request_def fire_def Let_def g demo_generating_def)
      (simp add: demo_controller_def g)
qed

text \<open>
  C7 does not hold of the code. The password check of \<^term>\<open>demo_controller\<close> ends
  with a stored secret that does not unwrap under the password \<open>[6]\<close>:
  \<^verbatim>\<open>validateSecureSecret\<close> leaves the state \<^term>\<open>demo_generating\<close>, in which the
  request that stores the fresh secret is outstanding, the secret is absent and the
  queue is empty. The personal details are saved with the first name \<open>Bob\<close>: the save
  is queued, and since the value is not marked as saving, a second save, with the first
  name \<open>Bea\<close>, passes the guard of \<^verbatim>\<open>saveValueEdit\<close> and is queued too. When the
  request succeeds and the secret \<open>[1, 2, 3]\<close> becomes present, the \<^verbatim>\<open>done\<close> closure
  of \<^verbatim>\<open>generateSecret\<close> replays the queue: the first callback sends the save request,
  the second finds that request outstanding and stops at
  \<^verbatim>\<open>Expects(value->saveRequestId == 0)\<close>. So the two saves requested are not
  executed once each.
\<close>

theorem secret_callbacks_double_save:
  "validateSecureSecret demo_env [9] [8] [6] demo_controller = Inr demo_generating
   \<and> c_secret demo_generating = [] \<and> secretCallbacks demo_generating = []
   \<and> saveValueEdit demo_env PersonalDetails [(''first_name'', ''Bob'')] demo_generating
       = Inr (demo_queued ''Bob'' [PersonalDetails])
   \<and> saveValueEdit demo_env PersonalDetails [(''first_name'', ''Bea'')]
         (demo_queued ''Bob'' [PersonalDetails])
       = Inr (demo_queued ''Bea'' [PersonalDetails, PersonalDetails])
   \<and> generateSecret_done demo_env [1, 2, 3] 4
         (demo_queued ''Bea'' [PersonalDetails, PersonalDetails]) = Inl ExpectsFailed"
proof -
  let ?v = "Value_init PersonalDetails"
  have g: "c_secret demo_generating = []" "secretCallbacks demo_generating = []"
    "submitRequestId demo_generating = 0"
    "form_values (c_form demo_generating) PersonalDetails = Some ?v"
    by (simp_all add: demo_generating_def demo_controller_def)
  have d: "v_type ?v = PersonalDetails" "\<not> savingValue ?v"
    "scansInEdit ?v = []" "selfieInEdit ?v = None" "parsed (v_data ?v) = []"
    "saveRequestId ?v = 0" "v_data ?v = ValueData_init"
    by (simp_all add: Value_init_def ValueData_init_def Verification_init_def savingValue_def)
  have e: "isEncryptedValue PersonalDetails"
    by (simp add: isEncryptedValue_def)
  have one: "saveValueEdit demo_env PersonalDetails [(''first_name'', ''Bob'')] demo_generating
       = Inr (demo_queued ''Bob'' [PersonalDetails])"
    using g d e
    by (simp add: saveValueEdit_def findValue_def editValueChanged_def saveEncryptedValue_def
        set_value_def demo_queued_def)
  have q: "c_secret (demo_queued name queue) = []"
    "secretCallbacks (demo_queued name queue) = queue"
    "submitRequestId (demo_queued name queue) = 0"
    "form_values (c_form (demo_queued name queue)) PersonalDetails
       = Some (?v\<lparr> v_data := ValueData_init\<lparr>
          parsedInEdit := [(''first_name'', name)] \<rparr> \<rparr>)" for name queue
    using g by (simp_all add: demo_queued_def)
  have two: "saveValueEdit demo_env PersonalDetails [(''first_name'', ''Bea'')]
         (demo_queued ''Bob'' [PersonalDetails])
       = Inr (demo_queued ''Bea'' [PersonalDetails, PersonalDetails])"
    using q [of "''Bob''" "[PersonalDetails]"] d e
    by (simp add: saveValueEdit_def findValue_def editValueChanged_def saveEncryptedValue_def
        set_value_def savingValue_def demo_queued_def)
  have three: "generateSecret_done demo_env [1, 2, 3] 4
         (demo_queued ''Bea'' [PersonalDetails, PersonalDetails]) = Inl ExpectsFailed"
    using q [of "''Bea''" "[PersonalDetails, PersonalDetails]"] d e
    by (intro double_queue_aborts [of _ _ PersonalDetails
          "?v\<lparr> v_data := ValueData_init\<lparr>
             parsedInEdit := [(''first_name'', ''Bea'')] \<rparr> \<rparr>"]) simp_all
  from demo_generating_reached g one two three show ?thesis by simp
qed

subsection \<open>The credentials document\<close>

lemma json_insert_set: "set (json_insert k v xs) \<subseteq> insert (k, v) (set xs)"
  by (induction xs) (auto split: if_splits)

lemma GetJSONFromFile_shape:
  "GetJSONFromFile env file = hashAndSecret env ''file_hash'' (f_hash file) (f_secret file)"
  by (simp add: GetJSONFromFile_def GetJSONFromMap_def hashAndSecret_def)

lemma addValueToJSON_shape:
  "addValueToJSON env form key value secure =
     json_insert key (valueCredentials env (identitySelfieRequired form) value) secure"
  by (simp add: addValueToJSON_def valueCredentials_def GetJSONFromFile_shape [abs_def]
      GetJSONFromMap_def hashAndSecret_def Let_def split: option.splits)

lemma ValueCredentialsKey_empty:
  "(ValueCredentialsKey t = []) = (\<not> isEncryptedValue t)"
  by (cases t) (simp_all add: isEncryptedValue_def)

lemma addValue_plain:
  "\<not> isEncryptedValue (v_type value) \<Longrightarrow>
     addValue env form value acc =
       acc\<lparr> hashes := hashes acc @ [(ConvertTypeMTP (v_type value), submitHash value)] \<rparr>"
  by (simp add: addValue_def ValueCredentialsKey_empty Let_def)

lemma addValue_entries:
  "hasErrors (addValue env form v acc) = hasErrors acc"
  "e \<in> set (secureData (addValue env form v acc)) \<Longrightarrow>
     e \<in> set (secureData acc)
     \<or> (isEncryptedValue (v_type v)
        \<and> e = (ValueCredentialsKey (v_type v),
                valueCredentials env (identitySelfieRequired form) v))"
  using json_insert_set [of "ValueCredentialsKey (v_type v)"
      "valueCredentials env (identitySelfieRequired form) v" "secureData acc"]
  by (auto simp: addValue_def addValueToJSON_shape ValueCredentialsKey_empty Let_def
      split: if_splits)

lemma addFirstDocument_entries:
  "addFirstDocument env form ds acc = Inr acc' \<Longrightarrow>
     hasErrors acc' = hasErrors acc
     \<and> (\<forall>e \<in> set (secureData acc'). e \<in> set (secureData acc)
          \<or> (\<exists>t v. form_values form t = Some v \<and> isEncryptedValue (v_type v)
                \<and> e = (ValueCredentialsKey (v_type v),
                        valueCredentials env (identitySelfieRequired form) v)))"
proof (induction ds)
  case Nil
  then show ?case by simp
next
  case (Cons d ds)
  show ?case
  proof (cases "form_values form d")
    case None
    with Cons.prems show ?thesis by simp
  next
    case (Some document)
    show ?thesis
    proof (cases "scans document \<noteq> []")
      case True
      with Some Cons.prems have "acc' = addValue env form document acc" by simp
      with Some show ?thesis
        using addValue_entries [where env = env and form = form and v = document and acc = acc] by blast
    next
      case False
      with Some Cons.prems Cons.IH show ?thesis by simp
    qed
  qed
qed

lemma prepareScopes_entries:
  "prepareScopes env scs s acc = Inr (acc', s') \<Longrightarrow> \<not> hasErrors acc' \<Longrightarrow>
     s' = s \<and> \<not> hasErrors acc
     \<and> (\<forall>e \<in> set (secureData acc'). e \<in> set (secureData acc)
          \<or> (\<exists>t v. form_values (c_form s) t = Some v \<and> isEncryptedValue (v_type v)
                \<and> e = (ValueCredentialsKey (v_type v),
                        valueCredentials env (identitySelfieRequired (c_form s)) v)))"
proof (induction scs arbitrary: s acc)
  case Nil
  then show ?case by simp
next
  case (Cons sc scs)
  show ?case
  proof (cases "ComputeScopeRowReadyString env (c_form s) sc = []")
    case True
    with Cons.prems(1) obtain v where
      "prepareScopes env scs (set_value (sc_fields sc) (v\<lparr> v_error := [] \<rparr>) s)
         (acc\<lparr> hasErrors := True \<rparr>) = Inr (acc', s')"
      by (auto split: sum.splits)
    from Cons.IH [OF this Cons.prems(2)] show ?thesis by simp
  next
    case False
    with Cons.prems(1) obtain v acc1 where
      v: "form_values (c_form s) (sc_fields sc) = Some v"
      and doc: "addFirstDocument env (c_form s) (documents sc) (addValue env (c_form s) v acc)
          = Inr acc1"
      and rest: "prepareScopes env scs s acc1 = Inr (acc', s')"
      by (auto split: option.splits sum.splits)
    from Cons.IH [OF rest Cons.prems(2)]
    have ih: "s' = s" "\<not> hasErrors acc1"
      "\<forall>e \<in> set (secureData acc'). e \<in> set (secureData acc1)
          \<or> (\<exists>t v. form_values (c_form s) t = Some v \<and> isEncryptedValue (v_type v)
                \<and> e = (ValueCredentialsKey (v_type v),
                        valueCredentials env (identitySelfieRequired (c_form s)) v))"
      by auto
    from addFirstDocument_entries [OF doc]
    have d: "hasErrors acc1 = hasErrors (addValue env (c_form s) v acc)"
      "\<forall>e \<in> set (secureData acc1). e \<in> set (secureData (addValue env (c_form s) v acc))
          \<or> (\<exists>t v. form_values (c_form s) t = Some v \<and> isEncryptedValue (v_type v)
                \<and> e = (ValueCredentialsKey (v_type v),
                        valueCredentials env (identitySelfieRequired (c_form s)) v))"
      by auto
    have "\<not> hasErrors acc"
      using ih(2) d(1) addValue_entries(1) [where env = env and form = "c_form s" and v = v and acc = acc] by simp
    moreover have "\<forall>e \<in> set (secureData acc'). e \<in> set (secureData acc)
          \<or> (\<exists>t v. form_values (c_form s) t = Some v \<and> isEncryptedValue (v_type v)
                \<and> e = (ValueCredentialsKey (v_type v),
                        valueCredentials env (identitySelfieRequired (c_form s)) v))"
    proof
      fix e assume "e \<in> set (secureData acc')"
      with ih(3) d(2) addValue_entries(2) [where e = e and env = env and form = "c_form s" and v = v and acc = acc] v
      show "e \<in> set (secureData acc)
          \<or> (\<exists>t v. form_values (c_form s) t = Some v \<and> isEncryptedValue (v_type v)
                \<and> e = (ValueCredentialsKey (v_type v),
                        valueCredentials env (identitySelfieRequired (c_form s)) v))"
        by blast
    qed
    ultimately show ?thesis using ih(1) by simp
  qed
qed

lemma prepareFinalData_shape:
  assumes "prepareFinalData env s = Inr (fd, s')" and "fd_document fd = Some json"
  shows "\<exists>sd. json = JObject [(''secure_data'', JObject sd),
                              (''payload'', JString (payload (c_request s)))]
           \<and> fd_credentials fd = toJson env json
           \<and> (\<forall>e \<in> set sd. \<exists>t v. form_values (c_form s) t = Some v
                 \<and> isEncryptedValue (v_type v)
                 \<and> e = (ValueCredentialsKey (v_type v),
                         valueCredentials env (identitySelfieRequired (c_form s)) v))"
proof -
  from assms obtain acc where
    run: "prepareScopes env (ComputeScopes env (c_form s)) s
            \<lparr> hashes = [], secureData = [], hasErrors = False \<rparr> = Inr (acc, s')"
    and ok: "\<not> hasErrors acc"
    and fd: "fd = \<lparr> fd_hashes = hashes acc,
               fd_credentials = toJson env (JObject (json_insert ''payload''
                 (JString (payload (c_request s')))
                 (json_insert ''secure_data'' (JObject (secureData acc)) []))),
               fd_document = Some (JObject (json_insert ''payload''
                 (JString (payload (c_request s')))
                 (json_insert ''secure_data'' (JObject (secureData acc)) []))) \<rparr>"
    by (auto simp: prepareFinalData_def Let_def split: sum.splits prod.splits if_splits)
  from prepareScopes_entries [OF run ok]
  have "s' = s" and
    "\<forall>e \<in> set (secureData acc). \<exists>t v. form_values (c_form s) t = Some v
        \<and> isEncryptedValue (v_type v)
        \<and> e = (ValueCredentialsKey (v_type v),
                valueCredentials env (identitySelfieRequired (c_form s)) v)"
    by auto
  with fd assms(2) show ?thesis
    by (intro exI [of _ "secureData acc"]) auto
qed

lemma addValue_fields:
  assumes "(m = []) = (parsed (v_data v) = [])"
    and "identitySelfieRequired form' = identitySelfieRequired form"
  shows "addValue env form' (v\<lparr> v_data := (v_data v)\<lparr> parsed := m \<rparr> \<rparr>) acc
           = addValue env form v acc"
proof -
  have "addValueToJSON env form' k (v\<lparr> v_data := (v_data v)\<lparr> parsed := m \<rparr> \<rparr>) sd
      = addValueToJSON env form k v sd" for k sd
    unfolding addValueToJSON_def assms(2) using assms(1) by simp
  then show ?thesis by (simp add: addValue_def Let_def)
qed

lemma addFirstDocument_fields:
  assumes "\<forall>t v. form_values (c_form s) t = Some v \<longrightarrow> (g t = []) = (parsed (v_data v) = [])"
  shows "addFirstDocument env (c_form (withFields g s)) ds acc
           = addFirstDocument env (c_form s) ds acc"
proof (induction ds)
  case Nil
  show ?case by simp
next
  case (Cons d ds)
  show ?case
  proof (cases "form_values (c_form s) d")
    case None
    then show ?thesis by (simp add: withFields_def)
  next
    case (Some v)
    with assms have "(g d = []) = (parsed (v_data v) = [])" by simp
    from addValue_fields [OF this, of "c_form (withFields g s)" "c_form s" env acc]
    have "addValue env (c_form (withFields g s)) (v\<lparr> v_data := (v_data v)\<lparr> parsed := g d \<rparr> \<rparr>) acc
        = addValue env (c_form s) v acc"
      by (simp add: withFields_def)
    with Some Cons.IH show ?thesis by (simp add: withFields_def)
  qed
qed

lemma prepareScopes_fields:
  assumes "\<forall>t v. form_values (c_form s) t = Some v \<longrightarrow> (g t = []) = (parsed (v_data v) = [])"
    and "\<forall>sc \<in> set scs. ComputeScopeRowReadyString env (c_form s) sc \<noteq> []
           \<and> ComputeScopeRowReadyString env (c_form (withFields g s)) sc \<noteq> []"
  shows "prepareScopes env scs (withFields g s) acc
           = map_sum id (\<lambda>(a, s'). (a, withFields g s')) (prepareScopes env scs s acc)
         \<and> (\<forall>a s'. prepareScopes env scs s acc = Inr (a, s') \<longrightarrow> s' = s)"
  using assms(2)
proof (induction scs arbitrary: acc)
  case Nil
  show ?case by simp
next
  case (Cons sc scs)
  then have ready: "ComputeScopeRowReadyString env (c_form s) sc \<noteq> []"
    "ComputeScopeRowReadyString env (c_form (withFields g s)) sc \<noteq> []"
    and rest: "\<forall>sc \<in> set scs. ComputeScopeRowReadyString env (c_form s) sc \<noteq> []
           \<and> ComputeScopeRowReadyString env (c_form (withFields g s)) sc \<noteq> []"
    by simp_all
  note ih = Cons.IH [OF rest]
  show ?case
  proof (cases "form_values (c_form s) (sc_fields sc)")
    case None
    then have "form_values (c_form (withFields g s)) (sc_fields sc) = None"
      by (simp add: withFields_def)
    with None ready show ?thesis by simp
  next
    case (Some v)
    then have v': "form_values (c_form (withFields g s)) (sc_fields sc)
        = Some (v\<lparr> v_data := (v_data v)\<lparr> parsed := g (sc_fields sc) \<rparr> \<rparr>)"
      by (simp add: withFields_def)
    from Some assms(1) have "(g (sc_fields sc) = []) = (parsed (v_data v) = [])" by simp
    from addValue_fields [OF this, of "c_form (withFields g s)" "c_form s" env acc]
    have a: "addValue env (c_form (withFields g s))
               (v\<lparr> v_data := (v_data v)\<lparr> parsed := g (sc_fields sc) \<rparr> \<rparr>) acc
        = addValue env (c_form s) v acc"
      by (simp add: withFields_def)
    show ?thesis
    proof (cases "addFirstDocument env (c_form s) (documents sc) (addValue env (c_form s) v acc)")
      case (Inl e)
      with Some v' ready a addFirstDocument_fields [OF assms(1)] show ?thesis by simp
    next
      case (Inr acc1)
      with Some v' ready a addFirstDocument_fields [OF assms(1)] ih [of acc1]
      show ?thesis by simp
    qed
  qed
qed

lemma prepareFinalData_fields:
  assumes "\<forall>t v. form_values (c_form s) t = Some v \<longrightarrow> (g t = []) = (parsed (v_data v) = [])"
    and "ComputeScopes env (c_form (withFields g s)) = ComputeScopes env (c_form s)"
    and "\<forall>sc \<in> set (ComputeScopes env (c_form s)).
           ComputeScopeRowReadyString env (c_form s) sc \<noteq> []
           \<and> ComputeScopeRowReadyString env (c_form (withFields g s)) sc \<noteq> []"
  shows "map_sum id fst (prepareFinalData env (withFields g s))
           = map_sum id fst (prepareFinalData env s)"
proof -
  let ?acc0 = "\<lparr> hashes = [], secureData = [], hasErrors = False \<rparr>"
  from prepareScopes_fields [OF assms(1) assms(3), of ?acc0]
  have p: "prepareScopes env (ComputeScopes env (c_form s)) (withFields g s) ?acc0
           = map_sum id (\<lambda>(a, s'). (a, withFields g s'))
               (prepareScopes env (ComputeScopes env (c_form s)) s ?acc0)"
    and q: "\<forall>a s'. prepareScopes env (ComputeScopes env (c_form s)) s ?acc0 = Inr (a, s')
              \<longrightarrow> s' = s"
    by simp_all
  have r: "c_request (withFields g s) = c_request s"
    by (simp add: withFields_def)
  show ?thesis
  proof (cases "prepareScopes env (ComputeScopes env (c_form s)) s ?acc0")
    case (Inl e)
    with p show ?thesis by (simp add: prepareFinalData_def assms(2))
  next
    case (Inr res)
    obtain a s' where res: "res = (a, s')" by (cases res)
    with Inr q have "s' = s" by simp
    with Inr res p r show ?thesis
      by (simp add: prepareFinalData_def assms(2) Let_def)
  qed
qed

text \<open>
  C2. When \<^verbatim>\<open>prepareFinalData\<close> produces a credentials document, the document has the
  members \<^verbatim>\<open>secure_data\<close> and \<^verbatim>\<open>payload\<close>, and every member of \<^verbatim>\<open>secure_data\<close> is
  keyed by the fixed string of the type of a value of the form that is neither a phone
  nor an email and holds that value's hashes and secrets only: \<^verbatim>\<open>data_hash\<close> and
  \<^verbatim>\<open>secret\<close> for the field data, \<^verbatim>\<open>file_hash\<close> and \<^verbatim>\<open>secret\<close> for each scan and
  for the selfie. A phone or email value adds its submit hash to the hash list and
  nothing to the document. The final data do not depend on the text of the decrypted
  fields: a form that differs only there, with the same fields empty, the same scopes
  and every scope ready, gives the same hash list and the same document.
\<close>

theorem credentials_hold_only_hashes_and_secrets:
  "(prepareFinalData env s = Inr (fd, s') \<and> fd_document fd = Some json \<longrightarrow>
      (\<exists>sd. json = JObject [(''secure_data'', JObject sd),
                            (''payload'', JString (payload (c_request s)))]
         \<and> fd_credentials fd = toJson env json
         \<and> (\<forall>e \<in> set sd. \<exists>t v. form_values (c_form s) t = Some v
               \<and> isEncryptedValue (v_type v)
               \<and> e = (ValueCredentialsKey (v_type v),
                       valueCredentials env (identitySelfieRequired (c_form s)) v))))
   \<and> (\<not> isEncryptedValue (v_type plain) \<longrightarrow>
        addValue env form plain acc =
          acc\<lparr> hashes := hashes acc @ [(ConvertTypeMTP (v_type plain), submitHash plain)] \<rparr>)
   \<and> ((\<forall>t v. form_values (c_form s) t = Some v \<longrightarrow> (g t = []) = (parsed (v_data v) = []))
       \<and> ComputeScopes env (c_form (withFields g s)) = ComputeScopes env (c_form s)
       \<and> (\<forall>sc \<in> set (ComputeScopes env (c_form s)).
             ComputeScopeRowReadyString env (c_form s) sc \<noteq> []
             \<and> ComputeScopeRowReadyString env (c_form (withFields g s)) sc \<noteq> []) \<longrightarrow>
        map_sum id fst (prepareFinalData env (withFields g s))
          = map_sum id fst (prepareFinalData env s))"
  using prepareFinalData_shape [of env s fd s' json]
    addValue_plain [of plain env form acc]
    prepareFinalData_fields [of s g env]
  by blast

lemma demo_complete_values:
  "form_values (c_form demo_complete) =
     [PersonalDetails \<mapsto> demo_details, Passport \<mapsto> demo_passport,
      Phone \<mapsto> (Value_init Phone)\<lparr>
        v_data := ValueData_init\<lparr> parsed := [(''value'', ''15551234'')] \<rparr>,
        submitHash := [7, 7] \<rparr>]"
  "request (c_form demo_complete) = [PersonalDetails, Passport, Phone]"
  "identitySelfieRequired (c_form demo_complete) = False"
  "payload (c_request demo_complete) = ''nonce''"
  by (simp_all add: demo_complete_def demo_controller_def)

lemma demo_complete_scopes:
  "ComputeScopes demo_env (c_form demo_complete) =
     [\<lparr> sc_fields = PersonalDetails, documents = [Passport] \<rparr>,
      \<lparr> sc_fields = Phone, documents = [] \<rparr>]"
  "ComputeScopes demo_env (c_form (withFields g demo_complete)) =
     ComputeScopes demo_env (c_form demo_complete)"
  by (simp_all add: demo_env_def demo_scopes_def demo_documents_def demo_complete_values
      withFields_def)

lemma demo_complete_prepared:
  "prepareFinalData demo_env demo_complete =
     Inr (\<lparr> fd_hashes = [(MTP_secureValueTypePersonalDetails, [5, 5]),
                         (MTP_secureValueTypePassport, [6, 6]),
                         (MTP_secureValueTypePhone, [7, 7])],
            fd_credentials = toJson demo_env demo_complete_document,
            fd_document = Some demo_complete_document \<rparr>, demo_complete)"
proof -
  have r: "ComputeScopeRowReadyString demo_env = demo_ready" "toBase64 demo_env [18, 188] = [CHR 0x12, CHR 0xBC]"
    "toBase64 demo_env [7] = [CHR 0x07]" "toBase64 demo_env [3, 6] = [CHR 0x03, CHR 0x06]"
    "toBase64 demo_env [9] = [CHR 0x09]"
    by (simp_all add: demo_env_def char_of_def bit_0)
  show ?thesis
    by (simp add: prepareFinalData_def demo_complete_scopes demo_complete_values r
        demo_ready_def demo_details_def demo_passport_def demo_scan_def EditFile_init_def
        File_init_def Value_init_def ValueData_init_def
        addValue_def addValueToJSON_def GetJSONFromMap_def GetJSONFromFile_def
        demo_complete_document_def demo_details_hash Let_def)
qed

theorem credentials_hold_only_hashes_and_secrets_witness:
  "prepareFinalData demo_env demo_complete =
     Inr (\<lparr> fd_hashes = [(MTP_secureValueTypePersonalDetails, [5, 5]),
                         (MTP_secureValueTypePassport, [6, 6]),
                         (MTP_secureValueTypePhone, [7, 7])],
            fd_credentials = toJson demo_env demo_complete_document,
            fd_document = Some demo_complete_document \<rparr>, demo_complete)
   \<and> demo_complete_document =
        JObject [(''secure_data'',
                  JObject [(ValueCredentialsKey PersonalDetails,
                            valueCredentials demo_env False demo_details),
                           (ValueCredentialsKey Passport,
                            valueCredentials demo_env False demo_passport)]),
                 (''payload'', JString ''nonce'')]
   \<and> \<not> isEncryptedValue (v_type demo_phone)
   \<and> addValue demo_env (c_form demo_complete) demo_phone
         \<lparr> hashes = [], secureData = [], hasErrors = False \<rparr>
        = \<lparr> hashes = [(MTP_secureValueTypePhone, [])], secureData = [], hasErrors = False \<rparr>
   \<and> form_values (c_form (withFields demo_other_fields demo_complete)) PersonalDetails
        = Some (demo_details\<lparr> v_data := (v_data demo_details)
                  \<lparr> parsed := [(''first_name'', ''Eve'')] \<rparr> \<rparr>)
   \<and> map_sum id fst (prepareFinalData demo_env (withFields demo_other_fields demo_complete))
        = Inr \<lparr> fd_hashes = [(MTP_secureValueTypePersonalDetails, [5, 5]),
                            (MTP_secureValueTypePassport, [6, 6]),
                            (MTP_secureValueTypePhone, [7, 7])],
                fd_credentials = toJson demo_env demo_complete_document,
                fd_document = Some demo_complete_document \<rparr>"
proof -
  let ?fd = "\<lparr> fd_hashes = [(MTP_secureValueTypePersonalDetails, [5, 5]),
                         (MTP_secureValueTypePassport, [6, 6]),
                         (MTP_secureValueTypePhone, [7, 7])],
            fd_credentials = toJson demo_env demo_complete_document,
            fd_document = Some demo_complete_document \<rparr>"
  let ?acc = "\<lparr> hashes = [], secureData = [], hasErrors = False \<rparr>"
  note inst = credentials_hold_only_hashes_and_secrets [of demo_env demo_complete ?fd
      demo_complete demo_complete_document demo_phone "c_form demo_complete" ?acc
      demo_other_fields]
  have p: "prepareFinalData demo_env demo_complete = Inr (?fd, demo_complete)"
    by (rule demo_complete_prepared)
  have ph: "\<not> isEncryptedValue (v_type demo_phone)" "v_type demo_phone = Phone"
    "submitHash demo_phone = []"
    by (simp_all add: demo_phone_def Value_init_def isEncryptedValue_def)
  have g: "\<forall>t v. form_values (c_form demo_complete) t = Some v \<longrightarrow>
          (demo_other_fields t = []) = (parsed (v_data v) = [])"
    by (auto simp: demo_complete_values demo_other_fields_def demo_details_def
        demo_passport_def Value_init_def ValueData_init_def split: if_splits)
  have r: "\<forall>sc \<in> set (ComputeScopes demo_env (c_form demo_complete)).
          ComputeScopeRowReadyString demo_env (c_form demo_complete) sc \<noteq> []
          \<and> ComputeScopeRowReadyString demo_env
               (c_form (withFields demo_other_fields demo_complete)) sc \<noteq> []"
  proof -
    have "ComputeScopeRowReadyString demo_env = demo_ready"
      by (simp add: demo_env_def)
    then show ?thesis
      unfolding demo_complete_scopes
      by (simp add: demo_complete_values withFields_def
          demo_ready_def demo_other_fields_def demo_details_def demo_passport_def
          Value_init_def ValueData_init_def)
  qed
  have w: "form_values (c_form (withFields demo_other_fields demo_complete)) PersonalDetails
        = Some (demo_details\<lparr> v_data := (v_data demo_details)
                  \<lparr> parsed := [(''first_name'', ''Eve'')] \<rparr> \<rparr>)"
    by (simp add: withFields_def demo_complete_values demo_other_fields_def)
  from inst p have a: "\<exists>sd. demo_complete_document =
              JObject [(''secure_data'', JObject sd), (''payload'', JString ''nonce'')]
          \<and> (\<forall>e \<in> set sd. \<exists>t v. form_values (c_form demo_complete) t = Some v
                \<and> isEncryptedValue (v_type v)
                \<and> e = (ValueCredentialsKey (v_type v), valueCredentials demo_env False v))"
    by (simp add: demo_complete_values)
  from inst ph have b: "addValue demo_env (c_form demo_complete) demo_phone ?acc
        = \<lparr> hashes = [(MTP_secureValueTypePhone, [])], secureData = [], hasErrors = False \<rparr>"
    by simp
  from inst g r demo_complete_scopes(2) [of demo_other_fields] p
  have c: "map_sum id fst (prepareFinalData demo_env (withFields demo_other_fields demo_complete))
        = Inr ?fd"
    by simp
  have t: "toBase64 demo_env [18, 188] = [CHR 0x12, CHR 0xBC]"
    "toBase64 demo_env [7] = [CHR 0x07]" "toBase64 demo_env [3, 6] = [CHR 0x03, CHR 0x06]"
    "toBase64 demo_env [9] = [CHR 0x09]"
    by (simp_all add: demo_env_def char_of_def bit_0)
  have d: "demo_complete_document =
        JObject [(''secure_data'',
                  JObject [(ValueCredentialsKey PersonalDetails,
                            valueCredentials demo_env False demo_details),
                           (ValueCredentialsKey Passport,
                            valueCredentials demo_env False demo_passport)]),
                 (''payload'', JString ''nonce'')]"
    by (simp add: demo_complete_document_def valueCredentials_def hashAndSecret_def t
        demo_details_def demo_passport_def demo_scan_def EditFile_init_def File_init_def
        Value_init_def ValueData_init_def demo_details_hash)
  from p a d ph(1) b w c show ?thesis by blast
qed

subsection \<open>Type conversion\<close>

text \<open>
  C9. The two \<^verbatim>\<open>ConvertType\<close> overloads are mutually inverse: an internal type converted
  to the wire type and back is unchanged, and a wire type converted to the internal type
  and back is unchanged.
\<close>

theorem ConvertType_inverse:
  "ConvertType (ConvertTypeMTP t) = t \<and> ConvertTypeMTP (ConvertType w) = w"
  by (cases t; cases w) simp_all

end
